theory Spec2Isabelle
  imports Complex_Main "HOL-Library.Sublist" "HOL-Library.Log_Nat"
begin

section \<open>Tensors and Python errors\<close>

text \<open>
  The library computes on torch tensors of floating-point numbers. The embedding keeps
  the tensors' layout (nested lists, outermost dimension first) and takes the entries in
  \<^typ>\<open>real\<close>: a floating-point number is the real number it denotes. In the sections
  on \<open>models/gsm.py\<close> and \<open>models/normalset.py\<close> every arithmetic operation is the
  exact one, so a statement proved there is a statement about the formulas the code
  evaluates, not about rounding. In the sections on \<open>dists/normalgamma.py\<close> and
  \<open>models/parameters.py\<close> every operation is followed by the rounding of the tensors'
  format, since the statements there are about the numbers the code returns.
\<close>

type_synonym vec = "real list"
type_synonym mat = "real list list"
type_synonym ten3 = "real list list list"

datatype error =
    ValueError string
  | UnknownCovarianceType string
  | KeyError string
  | IndexError
  | TypeError
  | RuntimeError

text \<open>
  Broadcasting of an elementwise operation along one dimension: equal sizes are paired,
  a dimension of size one is repeated. On sizes that torch rejects (different and none of
  them one) \<open>broadcast\<close> raises RuntimeError, as torch does; \<open>bc\<close> is the operation
  on sizes that torch accepts, and where it is used alone the shapes are stated.
\<close>

definition bc :: "('a \<Rightarrow> 'b \<Rightarrow> 'c) \<Rightarrow> 'a list \<Rightarrow> 'b list \<Rightarrow> 'c list" where
  "bc f xs ys =
     (if length xs = 1 \<and> length ys \<noteq> 1 then map (f (hd xs)) ys
      else if length ys = 1 \<and> length xs \<noteq> 1 then map (\<lambda>x. f x (hd ys)) xs
      else map2 f xs ys)"

definition broadcast :: "('a \<Rightarrow> 'b \<Rightarrow> 'c) \<Rightarrow> 'a list \<Rightarrow> 'b list \<Rightarrow> error + 'c list" where
  "broadcast f xs ys =
     (if length xs = length ys \<or> length xs = 1 \<or> length ys = 1 then Inr (bc f xs ys)
      else Inl RuntimeError)"

definition eye :: "nat \<Rightarrow> mat" where
  "eye n = map (\<lambda>i. map (\<lambda>j. if i = j then 1 else 0) [0..<n]) [0..<n]"

definition zeros :: "nat \<Rightarrow> vec" where
  "zeros n = replicate n 0"

subsection \<open>Operations on tensors\<close>

text \<open>
  Nested lists stand for tensors of rank one, two and three. \<open>x[:, None]\<close> and its like
  insert a dimension of size one; \<open>*\<close>, \<open>+\<close> and \<open>-\<close> broadcast at each level; \<open>@\<close>
  is the matrix product, over the batch when an operand has rank three.
\<close>

definition unsq_last :: "vec \<Rightarrow> mat" where
  "unsq_last v = map (\<lambda>a. [a]) v"

definition unsq_last2 :: "vec \<Rightarrow> ten3" where
  "unsq_last2 v = map (\<lambda>a. [[a]]) v"

definition unsq_mid :: "mat \<Rightarrow> ten3" where
  "unsq_mid M = map (\<lambda>r. [r]) M"

definition unsq_last3 :: "mat \<Rightarrow> ten3" where
  "unsq_last3 M = map (map (\<lambda>a. [a])) M"

definition tadd1 :: "vec \<Rightarrow> vec \<Rightarrow> vec" where "tadd1 = bc (+)"
definition tsub1 :: "vec \<Rightarrow> vec \<Rightarrow> vec" where "tsub1 = bc (-)"
definition tmul2 :: "mat \<Rightarrow> mat \<Rightarrow> mat" where "tmul2 = bc (bc (*))"
definition tsub2 :: "mat \<Rightarrow> mat \<Rightarrow> mat" where "tsub2 = bc (bc (-))"
definition tmul3 :: "ten3 \<Rightarrow> ten3 \<Rightarrow> ten3" where "tmul3 = bc (bc (bc (*)))"
definition tadd3 :: "ten3 \<Rightarrow> ten3 \<Rightarrow> ten3" where "tadd3 = bc (bc (bc (+)))"

definition smul1 :: "real \<Rightarrow> vec \<Rightarrow> vec" where "smul1 c = map ((*) c)"
definition smul2 :: "real \<Rightarrow> mat \<Rightarrow> mat" where "smul2 c = map (map ((*) c))"
definition neg1 :: "vec \<Rightarrow> vec" where "neg1 = map uminus"
definition neg2 :: "mat \<Rightarrow> mat" where "neg2 = map (map uminus)"

definition sum_last2 :: "mat \<Rightarrow> vec" where
  "sum_last2 M = map sum_list M"

definition sum_last3 :: "ten3 \<Rightarrow> mat" where
  "sum_last3 T = map (map sum_list) T"

definition sum_first2 :: "mat \<Rightarrow> vec" where
  "sum_first2 M = map sum_list (transpose M)"

definition sum_first3 :: "ten3 \<Rightarrow> mat" where
  "sum_first3 T = map sum_first2 (transpose T)"

definition dot :: "vec \<Rightarrow> vec \<Rightarrow> real" where
  "dot xs ys = sum_list (map2 (*) xs ys)"

definition matmul :: "mat \<Rightarrow> mat \<Rightarrow> mat" where
  "matmul A B = map (\<lambda>row. map (dot row) (transpose B)) A"

definition matmul_23 :: "mat \<Rightarrow> ten3 \<Rightarrow> ten3" where
  "matmul_23 A T = map (matmul A) T"

definition matmul_32 :: "ten3 \<Rightarrow> mat \<Rightarrow> ten3" where
  "matmul_32 T B = map (\<lambda>A. matmul A B) T"

definition matvec_31 :: "ten3 \<Rightarrow> vec \<Rightarrow> mat" where
  "matvec_31 T v = map (map (\<lambda>row. dot row v)) T"

definition cat_last :: "mat \<Rightarrow> mat \<Rightarrow> mat" where
  "cat_last A B = map2 (@) A B"

text \<open>
  \<open>x.reshape(n, -1)\<close> where \<open>n\<close> is the first dimension of \<open>x\<close>: the rows are flattened;
  torch refuses it when \<open>n = 0\<close>.
\<close>

definition reshape_rows :: "nat \<Rightarrow> ten3 \<Rightarrow> error + mat" where
  "reshape_rows n T = (if n = 0 then Inl RuntimeError else Inr (map concat T))"

text \<open>\<open>v.reshape(r, c)\<close> of a vector.\<close>

definition reshape2 :: "nat \<Rightarrow> nat \<Rightarrow> vec \<Rightarrow> mat" where
  "reshape2 r c v = map (\<lambda>i. take c (drop (i * c) v)) [0..<r]"

text \<open>\<open>v.reshape(len(v), -1)\<close> of a vector: a column; torch refuses it when \<open>v\<close> is empty.\<close>

definition reshape_column :: "vec \<Rightarrow> error + mat" where
  "reshape_column v = (if v = [] then Inl RuntimeError else Inr (map (\<lambda>a. [a]) v))"

definition trace_array :: "ten3 \<Rightarrow> error + vec" where
  "trace_array matrices =
     (case matrices of
        [] \<Rightarrow> Inl IndexError
      | M0 # _ \<Rightarrow>
          (let dim = length M0; idxs = [0..<dim]
           in Inr (map (\<lambda>M. sum_list (map (\<lambda>i. M ! i ! i) idxs)) matrices)))"

text \<open>\<open>data[:, :-1]\<close> and \<open>data[:, -1]\<close>; the second raises IndexError on rows without entry.\<close>

definition split_counts :: "mat \<Rightarrow> error + mat \<times> vec" where
  "split_counts data0 =
     (if list_ex (\<lambda>row. row = []) data0 then Inl IndexError
      else Inr (map butlast data0, map last data0))"

text \<open>\<open>torch.diag\<close> of a matrix, and \<open>x.diag()\<close>.\<close>

definition diag :: "mat \<Rightarrow> vec" where
  "diag c = map (\<lambda>i. c ! i ! i) [0..<min (length c) (length (hd c))]"

subsection \<open>Results that may raise, and the cache\<close>

definition bind :: "error + 'a \<Rightarrow> ('a \<Rightarrow> error + 'b) \<Rightarrow> error + 'b" where
  "bind r f = (case r of Inl e \<Rightarrow> Inl e | Inr x \<Rightarrow> f x)"

text \<open>
  The cache is a Python dict from names to tensors. A missing key raises KeyError. The
  tensors it holds have rank one, two or three.
\<close>

datatype tval = T1 vec | T2 mat | T3 ten3

type_synonym cache = "string \<rightharpoonup> tval"

definition get :: "cache \<Rightarrow> string \<Rightarrow> error + tval" where
  "get c k = (case c k of None \<Rightarrow> Inl (KeyError k) | Some v \<Rightarrow> Inr v)"

definition get1 :: "cache \<Rightarrow> string \<Rightarrow> error + vec" where
  "get1 c k = bind (get c k) (\<lambda>v. case v of T1 x \<Rightarrow> Inr x | _ \<Rightarrow> Inl TypeError)"

definition get2 :: "cache \<Rightarrow> string \<Rightarrow> error + mat" where
  "get2 c k = bind (get c k) (\<lambda>v. case v of T2 x \<Rightarrow> Inr x | _ \<Rightarrow> Inl TypeError)"

definition get3 :: "cache \<Rightarrow> string \<Rightarrow> error + ten3" where
  "get3 c k = bind (get c k) (\<lambda>v. case v of T3 x \<Rightarrow> Inr x | _ \<Rightarrow> Inl TypeError)"

section \<open>Floating-point arithmetic\<close>

text \<open>
  An arithmetic operation on floating-point numbers returns the exact result rounded to
  the format of the operands (IEEE 754). A format is known here by its rounding \<open>rnd\<close>, a
  function on the reals whose values are the numbers of the format; with the identity for
  \<open>rnd\<close> the arithmetic is the exact one. Negation is exact in every format, and so are
  the constants \<open>.5\<close> and \<open>2\<close> of the code. A Python scalar that meets a tensor (the
  learning rate) is converted to the format of the tensor first: the scalars below are
  the converted values.
\<close>

type_synonym rounding = "real \<Rightarrow> real"

definition fadd :: "rounding \<Rightarrow> real \<Rightarrow> real \<Rightarrow> real" where
  "fadd rnd x y = rnd (x + y)"

definition fsub :: "rounding \<Rightarrow> real \<Rightarrow> real \<Rightarrow> real" where
  "fsub rnd x y = rnd (x - y)"

definition fmul :: "rounding \<Rightarrow> real \<Rightarrow> real \<Rightarrow> real" where
  "fmul rnd x y = rnd (x * y)"

definition fdiv :: "rounding \<Rightarrow> real \<Rightarrow> real \<Rightarrow> real" where
  "fdiv rnd x y = rnd (x / y)"

text \<open>
  The binary formats. \<open>float_exponent x\<close> is the exponent \<open>e\<close> with
  \<open>2 powi e \<le> \<bar>x\<bar> < 2 powi (e + 1)\<close>. A number of the format with precision \<open>p\<close>
  is a multiple of \<open>2 powi q\<close>, where \<open>q = e - (p - 1)\<close>, and \<open>q\<close> is not below the
  exponent \<open>emin\<close> of the subnormal numbers; rounding is to the nearest such multiple,
  and to the even one of two that are equally near. The formats have a largest finite
  number, beyond which a result is an infinity, and a division by zero gives an infinity
  or a nan: these are not reals, and \<open>binary_round\<close> is the rounding of the format for
  the results below its largest number only.
\<close>

definition float_exponent :: "real \<Rightarrow> int" where
  "float_exponent x =
     (let a = \<bar>x\<bar>;
          e0 = (if 1 \<le> a then bitlen \<lfloor>a\<rfloor> - 1 else - bitlen \<lfloor>1 / a\<rfloor>)
      in if 2 powi (e0 + 1) \<le> a then e0 + 1 else e0)"

definition round_half_even :: "real \<Rightarrow> int" where
  "round_half_even x =
     (let f = \<lfloor>x\<rfloor>; r = x - of_int f
      in if r < 1 / 2 then f else if 1 / 2 < r then f + 1 else if even f then f else f + 1)"

definition binary_round :: "nat \<Rightarrow> int \<Rightarrow> real \<Rightarrow> real" where
  "binary_round p emin x =
     (if x = 0 then 0
      else let q = max (float_exponent x - (int p - 1)) emin
           in of_int (round_half_even (x / 2 powi q)) * 2 powi q)"

text \<open>\<open>torch.float64\<close>: 53 bits of precision, subnormal numbers from \<open>2 powi (- 1074)\<close>.\<close>

definition binary64 :: rounding where
  "binary64 = binary_round 53 (- 1074)"

section \<open>models/gsm.py\<close>

text \<open>
  \<open>MatrixNormalPrior\<close> and \<open>NormalFullCovariancePrior\<close> are classes of the package
  \<open>priors\<close>; here a prior object is the constructor call that made it, and what the
  model asks of these objects is a record of functions: the moments of the mean
  posterior, the moments and the covariance of the subspace posterior, the natural
  parameters of the latent prior and, for a latent posterior, which is known by the
  natural parameters assigned to it, its moments and its divergence from the latent
  prior.
\<close>

datatype prior_obj =
    MatrixNormalPrior mat mat
  | NormalFullCovariancePrior vec mat

record priors_api =
  normal_moments :: "prior_obj \<Rightarrow> vec \<times> vec"
  matrixnormal_moments :: "prior_obj \<Rightarrow> mat \<times> tval"
  matrixnormal_cov :: "prior_obj \<Rightarrow> mat"
  prior_natural_parameters :: "prior_obj \<Rightarrow> vec"
  latent_moments :: "vec \<Rightarrow> vec \<times> vec"
  kl_div :: "vec \<Rightarrow> prior_obj \<Rightarrow> real"

text \<open>
  The likelihood function: \<open>argmax(stats, counts)\<close>, \<open>hessian(opt, stats, counts, mode)\<close>
  for each of the three modes, and the call \<open>llh_func(opt, stats, counts)\<close>.
\<close>

record LikelihoodFunction =
  argmax :: "mat \<Rightarrow> vec \<Rightarrow> mat"
  hessian_full :: "mat \<Rightarrow> mat \<Rightarrow> vec \<Rightarrow> ten3"
  hessian_diagonal :: "mat \<Rightarrow> mat \<Rightarrow> vec \<Rightarrow> mat"
  hessian_scalar :: "mat \<Rightarrow> mat \<Rightarrow> vec \<Rightarrow> vec"
  llh_call :: "mat \<Rightarrow> mat \<Rightarrow> vec \<Rightarrow> vec"

text \<open>
  The attributes of a model. \<open>cache\<close> is the dict of the base class \<open>BayesianModel\<close>,
  empty in a new model.
\<close>

record 'l gsm_object =
  llh_func :: 'l
  subspace_prior :: prior_obj
  subspace_posterior :: prior_obj
  mean_prior :: prior_obj
  mean_posterior :: prior_obj
  latent_prior :: prior_obj
  cache :: cache

datatype 'l gsm =
    GeneralizedSubspaceModelFull "'l gsm_object"
  | GeneralizedSubspaceModelDiagonal "'l gsm_object"
  | GeneralizedSubspaceModelScalar "'l gsm_object"

subsection \<open>Construction\<close>









definition sufficient_statistics :: "'a \<Rightarrow> 'a" where
  "sufficient_statistics data = data"

subsection \<open>What the three classes share\<close>

text \<open>
  \<open>_create_latent_posteriors(n)\<close>: \<open>n\<close> distributions with the standard parameters of
  the latent prior.
\<close>

definition create_latent_posteriors :: "priors_api \<Rightarrow> 'l gsm_object \<Rightarrow> nat \<Rightarrow> vec list" where
  "create_latent_posteriors api self n =
     replicate n (prior_natural_parameters api (latent_prior self))"

definition extract_moments ::
  "priors_api \<Rightarrow> 'l gsm_object \<Rightarrow> vec \<times> vec \<times> mat \<times> tval" where
  "extract_moments api self =
     (let (m, mm) = normal_moments api (mean_posterior self);
          (W, WW) = matrixnormal_moments api (subspace_posterior self)
      in (m, mm, W, WW))"

definition latent_kl_div :: "priors_api \<Rightarrow> 'l gsm_object \<Rightarrow> vec list \<Rightarrow> vec" where
  "latent_kl_div api self l_posts = map (\<lambda>l_post. kl_div api l_post (latent_prior self)) l_posts"

text \<open>
  The loop \<open>for i, l_post in enumerate(l_posts): l_post.natural_parameters = nparams_0 +
  acc_stats[i]\<close>; \<open>acc_stats[i]\<close> raises IndexError past the last row.
\<close>

fun assign_natural_parameters :: "vec \<Rightarrow> mat \<Rightarrow> (nat \<times> vec) list \<Rightarrow> error + vec list" where
  "assign_natural_parameters nparams_0 acc_stats [] = Inr []"
| "assign_natural_parameters nparams_0 acc_stats ((i, l_post) # rest) =
     (if i < length acc_stats then
        bind (assign_natural_parameters nparams_0 acc_stats rest)
          (\<lambda>r. Inr (tadd1 nparams_0 (acc_stats ! i) # r))
      else Inl IndexError)"

text \<open>
  The end of \<open>latent_posteriors\<close>, the same in the three classes but for the rank of the
  Hessians: without \<open>cache\<close> the posteriors alone, with it the posteriors and the dict.
  \<open>torch.cat\<close> of an empty list of moments raises.
\<close>

definition finish_latent_posteriors ::
  "priors_api \<Rightarrow> bool \<Rightarrow> vec list \<Rightarrow> mat \<Rightarrow> mat \<Rightarrow> tval \<Rightarrow> vec \<Rightarrow> vec \<Rightarrow> vec \<Rightarrow> mat \<Rightarrow> tval
     \<Rightarrow> mat \<Rightarrow> vec \<Rightarrow> mat \<Rightarrow> error + vec list \<times> cache option" where
  "finish_latent_posteriors api cache_flag l_posts U opt hessians tr_hessians m mm W WW
       stats counts WHW =
     (if \<not> cache_flag then Inr (l_posts, None)
      else if l_posts = [] then Inl RuntimeError
      else
        let H = map (\<lambda>pdf. fst (latent_moments api pdf)) l_posts;
            HH = map (\<lambda>pdf. snd (latent_moments api pdf)) l_posts
        in Inr (l_posts,
             Some [''U'' \<mapsto> T2 U, ''opt'' \<mapsto> T2 opt, ''hessians'' \<mapsto> hessians,
                   ''tr_hessians'' \<mapsto> T1 tr_hessians, ''m'' \<mapsto> T1 m, ''mm'' \<mapsto> T1 mm,
                   ''W'' \<mapsto> T2 W, ''WW'' \<mapsto> WW, ''H'' \<mapsto> T2 H, ''HH'' \<mapsto> T2 HH,
                   ''stats'' \<mapsto> T2 stats, ''counts'' \<mapsto> T1 counts, ''WHW'' \<mapsto> T2 WHW]))"

text \<open>
  The value returned by \<open>_quad_approx\<close>:
  \<open>llh_func(opt, stats, counts) + .5 * (hWHWh + mHm + quad_opt + 2 * (mHWh - oHm - oHWh))\<close>.
\<close>

definition quad_value :: "vec \<Rightarrow> vec \<Rightarrow> vec \<Rightarrow> vec \<Rightarrow> vec \<Rightarrow> vec \<Rightarrow> vec \<Rightarrow> vec" where
  "quad_value llh hWHWh mHm quad_opt mHWh oHm oHWh =
     tadd1 llh
       (smul1 0.5
          (tadd1 (tadd1 (tadd1 hWHWh mHm) quad_opt)
             (smul1 2 (tsub1 (tsub1 mHWh oHm) oHWh))))"

subsection \<open>GeneralizedSubspaceModelFull\<close>

definition latent_posteriors_Full ::
  "priors_api \<Rightarrow> LikelihoodFunction gsm_object \<Rightarrow> mat \<Rightarrow> bool \<Rightarrow> error + vec list \<times> cache option"
  where
  "latent_posteriors_Full api self data0 cache_flag =
     bind (split_counts data0) (\<lambda>(stats, counts).
       let l_posts = create_latent_posteriors api self (length data0);
           (m, mm, W, WW) = extract_moments api self;
           opt = argmax (llh_func self) stats counts;
           hessians = hessian_full (llh_func self) opt stats counts;
           U = matrixnormal_cov api (subspace_posterior self)
       in bind (trace_array hessians) (\<lambda>tr_hessians.
          bind (reshape_rows (length hessians)
                  (tadd3 (tmul3 (unsq_last2 tr_hessians) [U])
                         (matmul_32 (matmul_23 W hessians) (transpose W)))) (\<lambda>WHW.
            let m_opt = tsub2 opt [m];
                Hm_o = sum_last3 (tmul3 hessians (unsq_mid m_opt));
                acc_stats = cat_last (matmul (neg2 Hm_o) (transpose W)) (smul2 0.5 WHW);
                nparams_0 = prior_natural_parameters api (latent_prior self)
            in bind (assign_natural_parameters nparams_0 acc_stats (enumerate 0 l_posts))
                 (\<lambda>l_posts'.
                    finish_latent_posteriors api cache_flag l_posts' U opt (T3 hessians)
                      tr_hessians m mm W WW stats counts WHW))))"

definition quad_approx_Full ::
  "LikelihoodFunction gsm_object \<Rightarrow> cache \<Rightarrow> error + vec \<times> cache" where
  "quad_approx_Full self c =
     bind (get2 c ''opt'') (\<lambda>opt.
     bind (get3 c ''hessians'') (\<lambda>hessians.
     bind (get1 c ''m'') (\<lambda>m.
     bind (get1 c ''mm'') (\<lambda>mm.
     bind (get2 c ''W'') (\<lambda>W.
     bind (get c ''WW'') (\<lambda>WW.
     bind (get2 c ''U'') (\<lambda>U.
     bind (get2 c ''WHW'') (\<lambda>WHW.
     bind (get2 c ''H'') (\<lambda>H.
     bind (get2 c ''HH'') (\<lambda>HH.
     bind (get2 c ''stats'') (\<lambda>stats.
     bind (get1 c ''counts'') (\<lambda>counts.
     bind (reshape_rows (length hessians) hessians) (\<lambda>flat_hessians.
       let mHm = sum_last2 (tmul2 flat_hessians [mm]);
           hW = matmul H W;
           Hm = matvec_31 hessians m;
           mHWh = sum_last2 (tmul2 hW Hm);
           oHm = sum_last2 (tmul2 opt Hm);
           oH = sum_last3 (tmul3 hessians (unsq_mid opt));
           oHWh = sum_last2 (tmul2 oH hW);
           hWHWh = sum_last2 (tmul2 HH WHW)
       in bind (reshape_rows (length opt) (tmul3 (unsq_last3 opt) (unsq_mid opt))) (\<lambda>opt_quad.
          bind (reshape_rows (length opt) hessians) (\<lambda>rs_hessians.
            let quad_opt = sum_last2 (tmul2 rs_hessians opt_quad);
                new_cache = c(''hW'' \<mapsto> T2 hW)
            in Inr (quad_value (llh_call (llh_func self) opt stats counts)
                      hWHWh mHm quad_opt mHWh oHm oHWh,
                    new_cache))))))))))))))))"

definition accumulate_Full ::
  "LikelihoodFunction gsm_object \<Rightarrow> mat \<Rightarrow> error + vec \<times> vec" where
  "accumulate_Full self stats =
     bind (split_counts stats) (\<lambda>(stats', counts).
     bind (get3 (cache self) ''hessians'') (\<lambda>hessians.
     bind (get1 (cache self) ''tr_hessians'') (\<lambda>tr_hessians.
     bind (get2 (cache self) ''hW'') (\<lambda>hW.
     bind (get2 (cache self) ''opt'') (\<lambda>opt.
     bind (get1 (cache self) ''m'') (\<lambda>m.
     bind (get2 (cache self) ''H'') (\<lambda>H.
     bind (get2 (cache self) ''HH'') (\<lambda>HH.
       let HWh_o = sum_last3 (tmul3 hessians (unsq_mid (tsub2 opt hW)));
           sum_hessians = smul2 0.5 (sum_first3 hessians);
           mean_stats = neg1 (sum_first2 HWh_o) @ concat sum_hessians;
           isometric_params = map (map (\<lambda>a. a / real (length m))) (unsq_last tr_hessians);
           to_m = tmul2 (tsub2 opt [m]) isometric_params;
           tHH = tmul2 HH isometric_params
       in bind (reshape_column (smul1 0.5 (sum_first2 tHH))) (\<lambda>tHH'.
            let subspace_stats = neg1 (concat (matmul (transpose H) to_m)) @ concat tHH'
            in Inr (mean_stats, subspace_stats))))))))))"

subsection \<open>GeneralizedSubspaceModelDiagonal\<close>

definition latent_posteriors_Diagonal ::
  "priors_api \<Rightarrow> LikelihoodFunction gsm_object \<Rightarrow> mat \<Rightarrow> bool \<Rightarrow> error + vec list \<times> cache option"
  where
  "latent_posteriors_Diagonal api self data0 cache_flag =
     bind (split_counts data0) (\<lambda>(stats, counts).
       let l_posts = create_latent_posteriors api self (length data0);
           (m, mm, W, WW) = extract_moments api self;
           opt = argmax (llh_func self) stats counts;
           hessians = hessian_diagonal (llh_func self) opt stats counts;
           U = matrixnormal_cov api (subspace_posterior self);
           tr_hessians = sum_last2 hessians;
           HW = tmul3 (unsq_mid hessians) [W]
       in bind (reshape_rows (length hessians)
                  (tadd3 (tmul3 (unsq_last2 tr_hessians) [U])
                         (matmul_32 HW (transpose W)))) (\<lambda>WHW.
            let m_opt = tsub2 opt [m];
                Hm_o = tmul2 hessians m_opt;
                acc_stats = cat_last (matmul (neg2 Hm_o) (transpose W)) (smul2 0.5 WHW);
                nparams_0 = prior_natural_parameters api (latent_prior self)
            in bind (assign_natural_parameters nparams_0 acc_stats (enumerate 0 l_posts))
                 (\<lambda>l_posts'.
                    finish_latent_posteriors api cache_flag l_posts' U opt (T2 hessians)
                      tr_hessians m mm W WW stats counts WHW)))"

definition quad_approx_Diagonal ::
  "LikelihoodFunction gsm_object \<Rightarrow> cache \<Rightarrow> error + vec \<times> cache" where
  "quad_approx_Diagonal self c =
     bind (get2 c ''opt'') (\<lambda>opt.
     bind (get2 c ''hessians'') (\<lambda>hessians.
     bind (get1 c ''m'') (\<lambda>m.
     bind (get1 c ''mm'') (\<lambda>mm.
     bind (get2 c ''W'') (\<lambda>W.
     bind (get c ''WW'') (\<lambda>WW.
     bind (get2 c ''U'') (\<lambda>U.
     bind (get2 c ''WHW'') (\<lambda>WHW.
     bind (get2 c ''H'') (\<lambda>H.
     bind (get2 c ''HH'') (\<lambda>HH.
     bind (get2 c ''stats'') (\<lambda>stats.
     bind (get1 c ''counts'') (\<lambda>counts.
       let mm_diag = diag (reshape2 (length m) (length m) mm);
           mHm = sum_last2 (tmul2 hessians [mm_diag]);
           hW = matmul H W;
           Hm = tmul2 hessians [m];
           mHWh = sum_last2 (tmul2 hW Hm);
           oHm = sum_last2 (tmul2 opt Hm);
           oH = tmul2 hessians opt;
           oHWh = sum_last2 (tmul2 oH hW);
           hWHWh = sum_last2 (tmul2 HH WHW);
           quad_opt = sum_last2 (tmul2 (tmul2 hessians opt) opt);
           new_cache = c(''hW'' \<mapsto> T2 hW)
       in Inr (quad_value (llh_call (llh_func self) opt stats counts)
                 hWHWh mHm quad_opt mHWh oHm oHWh,
               new_cache)))))))))))))"

definition accumulate_Diagonal ::
  "LikelihoodFunction gsm_object \<Rightarrow> mat \<Rightarrow> error + vec \<times> vec" where
  "accumulate_Diagonal self stats =
     bind (split_counts stats) (\<lambda>(stats', counts).
     bind (get2 (cache self) ''hessians'') (\<lambda>hessians.
     bind (get1 (cache self) ''tr_hessians'') (\<lambda>tr_hessians.
     bind (get2 (cache self) ''hW'') (\<lambda>hW.
     bind (get2 (cache self) ''opt'') (\<lambda>opt.
     bind (get1 (cache self) ''m'') (\<lambda>m.
     bind (get2 (cache self) ''H'') (\<lambda>H.
     bind (get2 (cache self) ''HH'') (\<lambda>HH.
       let HWh_o = tmul2 hessians (tsub2 opt hW);
           I = eye (length m);
           mean_stats = neg1 (sum_first2 HWh_o)
                        @ smul1 0.5 (concat (sum_first3 (tmul3 (unsq_mid hessians) [I])));
           isometric_params = map (map (\<lambda>a. a / real (length m))) (unsq_last tr_hessians);
           to_m = tmul2 (tsub2 opt [m]) isometric_params;
           tHH = tmul2 HH isometric_params;
           subspace_stats = neg1 (concat (matmul (transpose H) to_m))
                            @ smul1 0.5 (sum_first2 tHH)
       in Inr (mean_stats, subspace_stats)))))))))"

subsection \<open>GeneralizedSubspaceModelScalar\<close>

definition latent_posteriors_Scalar ::
  "priors_api \<Rightarrow> LikelihoodFunction gsm_object \<Rightarrow> mat \<Rightarrow> bool \<Rightarrow> error + vec list \<times> cache option"
  where
  "latent_posteriors_Scalar api self data0 cache_flag =
     bind (split_counts data0) (\<lambda>(stats, counts).
       let l_posts = create_latent_posteriors api self (length data0);
           (m, mm, W, WW) = extract_moments api self;
           opt = argmax (llh_func self) stats counts;
           hessians = hessian_scalar (llh_func self) opt stats counts;
           U = matrixnormal_cov api (subspace_posterior self);
           tr_hessians = smul1 (real (length m)) hessians;
           HW = tmul3 (unsq_last2 hessians) [W]
       in bind (reshape_rows (length hessians)
                  (tadd3 (tmul3 (unsq_last2 tr_hessians) [U])
                         (matmul_32 HW (transpose W)))) (\<lambda>WHW.
            let m_opt = tsub2 opt [m];
                Hm_o = tmul2 (unsq_last hessians) m_opt;
                acc_stats = cat_last (matmul (neg2 Hm_o) (transpose W)) (smul2 0.5 WHW);
                nparams_0 = prior_natural_parameters api (latent_prior self)
            in bind (assign_natural_parameters nparams_0 acc_stats (enumerate 0 l_posts))
                 (\<lambda>l_posts'.
                    finish_latent_posteriors api cache_flag l_posts' U opt (T1 hessians)
                      tr_hessians m mm W WW stats counts WHW)))"

definition quad_approx_Scalar ::
  "LikelihoodFunction gsm_object \<Rightarrow> cache \<Rightarrow> error + vec \<times> cache" where
  "quad_approx_Scalar self c =
     bind (get2 c ''opt'') (\<lambda>opt.
     bind (get1 c ''hessians'') (\<lambda>hessians.
     bind (get1 c ''m'') (\<lambda>m.
     bind (get1 c ''mm'') (\<lambda>mm.
     bind (get2 c ''W'') (\<lambda>W.
     bind (get c ''WW'') (\<lambda>WW.
     bind (get2 c ''U'') (\<lambda>U.
     bind (get2 c ''WHW'') (\<lambda>WHW.
     bind (get2 c ''H'') (\<lambda>H.
     bind (get2 c ''HH'') (\<lambda>HH.
     bind (get2 c ''stats'') (\<lambda>stats.
     bind (get1 c ''counts'') (\<lambda>counts.
       let mm_diag = diag (reshape2 (length m) (length m) mm);
           mHm = sum_last2 (tmul2 (unsq_last hessians) [mm_diag]);
           hW = matmul H W;
           Hm = tmul2 (unsq_last hessians) [m];
           mHWh = sum_last2 (tmul2 hW Hm);
           oHm = sum_last2 (tmul2 opt Hm);
           oH = tmul2 (unsq_last hessians) opt;
           oHWh = sum_last2 (tmul2 oH hW);
           hWHWh = sum_last2 (tmul2 HH WHW);
           quad_opt = sum_last2 (tmul2 (tmul2 (unsq_last hessians) opt) opt);
           new_cache = c(''hW'' \<mapsto> T2 hW)
       in Inr (quad_value (llh_call (llh_func self) opt stats counts)
                 hWHWh mHm quad_opt mHWh oHm oHWh,
               new_cache)))))))))))))"

definition accumulate_Scalar ::
  "LikelihoodFunction gsm_object \<Rightarrow> mat \<Rightarrow> error + vec \<times> vec" where
  "accumulate_Scalar self stats =
     bind (split_counts stats) (\<lambda>(stats', counts).
     bind (get1 (cache self) ''hessians'') (\<lambda>hessians.
     bind (get1 (cache self) ''tr_hessians'') (\<lambda>tr_hessians.
     bind (get2 (cache self) ''hW'') (\<lambda>hW.
     bind (get2 (cache self) ''opt'') (\<lambda>opt.
     bind (get1 (cache self) ''m'') (\<lambda>m.
     bind (get2 (cache self) ''H'') (\<lambda>H.
     bind (get2 (cache self) ''HH'') (\<lambda>HH.
       let HWh_o = tmul2 (unsq_last hessians) (tsub2 opt hW);
           I = eye (length m);
           mean_stats = neg1 (sum_first2 HWh_o)
                        @ smul1 0.5 (concat (sum_first3 (tmul3 (unsq_last2 hessians) [I])));
           isometric_params = map (map (\<lambda>a. a / real (length m))) (unsq_last tr_hessians);
           to_m = tmul2 (tsub2 opt [m]) isometric_params;
           tHH = tmul2 HH isometric_params;
           subspace_stats = neg1 (concat (matmul (transpose H) to_m))
                            @ smul1 0.5 (sum_first2 tHH)
       in Inr (mean_stats, subspace_stats)))))))))"

subsection \<open>The methods, by class\<close>

definition latent_posteriors ::
  "priors_api \<Rightarrow> LikelihoodFunction gsm \<Rightarrow> mat \<Rightarrow> bool \<Rightarrow> error + vec list \<times> cache option"
  where
  "latent_posteriors api model data0 cache_flag =
     (case model of
        GeneralizedSubspaceModelFull self \<Rightarrow> latent_posteriors_Full api self data0 cache_flag
      | GeneralizedSubspaceModelDiagonal self \<Rightarrow>
          latent_posteriors_Diagonal api self data0 cache_flag
      | GeneralizedSubspaceModelScalar self \<Rightarrow>
          latent_posteriors_Scalar api self data0 cache_flag)"

definition quad_approx :: "LikelihoodFunction gsm \<Rightarrow> cache \<Rightarrow> error + vec \<times> cache" where
  "quad_approx model c =
     (case model of
        GeneralizedSubspaceModelFull self \<Rightarrow> quad_approx_Full self c
      | GeneralizedSubspaceModelDiagonal self \<Rightarrow> quad_approx_Diagonal self c
      | GeneralizedSubspaceModelScalar self \<Rightarrow> quad_approx_Scalar self c)"

definition accumulate :: "LikelihoodFunction gsm \<Rightarrow> mat \<Rightarrow> error + vec \<times> vec" where
  "accumulate model stats =
     (case model of
        GeneralizedSubspaceModelFull self \<Rightarrow> accumulate_Full self stats
      | GeneralizedSubspaceModelDiagonal self \<Rightarrow> accumulate_Diagonal self stats
      | GeneralizedSubspaceModelScalar self \<Rightarrow> accumulate_Scalar self stats)"

definition attributes :: "'l gsm \<Rightarrow> 'l gsm_object" where
  "attributes model =
     (case model of
        GeneralizedSubspaceModelFull self \<Rightarrow> self
      | GeneralizedSubspaceModelDiagonal self \<Rightarrow> self
      | GeneralizedSubspaceModelScalar self \<Rightarrow> self)"

definition merge_cache :: "'l gsm \<Rightarrow> cache \<Rightarrow> 'l gsm" where
  "merge_cache model c =
     (case model of
        GeneralizedSubspaceModelFull self \<Rightarrow>
          GeneralizedSubspaceModelFull (self \<lparr> cache := cache self ++ c \<rparr>)
      | GeneralizedSubspaceModelDiagonal self \<Rightarrow>
          GeneralizedSubspaceModelDiagonal (self \<lparr> cache := cache self ++ c \<rparr>)
      | GeneralizedSubspaceModelScalar self \<Rightarrow>
          GeneralizedSubspaceModelScalar (self \<lparr> cache := cache self ++ c \<rparr>))"

text \<open>
  \<open>expected_log_likelihood\<close>, the forward pass: the value, and the model with its cache
  updated.
\<close>

definition expected_log_likelihood ::
  "priors_api \<Rightarrow> LikelihoodFunction gsm \<Rightarrow> mat \<Rightarrow> error + vec \<times> LikelihoodFunction gsm" where
  "expected_log_likelihood api model stats =
     bind (latent_posteriors api model stats True) (\<lambda>(l_posts, oc).
       case oc of
         None \<Rightarrow> Inl TypeError
       | Some c \<Rightarrow>
           bind (quad_approx model c) (\<lambda>(approx_llh, c').
             Inr (tsub1 approx_llh (latent_kl_div api (attributes model) l_posts),
                  merge_cache model c')))"

section \<open>models/normalset.py\<close>

text \<open>
  The three helpers that build the default parameters, and the table \<open>_default_param\<close>
  that maps a covariance type to its helper. \<open>_full_cov\<close> (module \<open>normal\<close>) and the
  sample of \<open>torch.randn\<close> are arguments. A distribution object is the constructor call
  on its four standard parameters.
\<close>

datatype default_param_fn =
    default_fullcov_param
  | default_diagcov_param
  | default_isocov_param

definition default_param :: "string \<rightharpoonup> default_param_fn" where
  "default_param =
     [''full'' \<mapsto> default_fullcov_param,
      ''diagonal'' \<mapsto> default_diagcov_param,
      ''isotropic'' \<mapsto> default_isocov_param]"

datatype dist_obj =
    NormalGamma_obj mat mat mat mat
  | IsotropicNormalGamma_obj mat mat mat mat

datatype joint_params = JointConjugateBayesianParameters dist_obj dist_obj

datatype normalset = NormalSet joint_params

definition diagcov_param ::
  "('c \<Rightarrow> nat \<Rightarrow> mat) \<Rightarrow> mat \<Rightarrow> vec \<Rightarrow> 'c \<Rightarrow> nat \<Rightarrow> real \<Rightarrow> real \<Rightarrow> error + joint_params"
  where
  "diagcov_param full_cov randn mu cov0 size0 prior_strength noise_std =
     (let cov = full_cov cov0 (length mu);
          means = replicate size0 mu;
          noise = map (map (\<lambda>x. x * noise_std)) randn;
          scale = replicate size0 [prior_strength];
          shape = replicate size0 [prior_strength];
          rates = map (map ((*) prior_strength)) (replicate size0 (diag cov))
      in Inr (JointConjugateBayesianParameters
            (NormalGamma_obj means scale shape rates)
            (NormalGamma_obj (bc (bc (+)) means noise) scale shape rates)))"

definition isocov_param ::
  "('c \<Rightarrow> nat \<Rightarrow> mat) \<Rightarrow> mat \<Rightarrow> vec \<Rightarrow> 'c \<Rightarrow> nat \<Rightarrow> real \<Rightarrow> real \<Rightarrow> error + joint_params"
  where
  "isocov_param full_cov randn mu cov0 size0 prior_strength noise_std =
     (let cov = full_cov cov0 (length mu) in
      if diag cov = [] then Inl RuntimeError
      else
        let variance = Max (set (diag cov));
            means = replicate size0 mu;
            noise = map (map (\<lambda>x. x * noise_std)) randn;
            scale = replicate size0 [prior_strength];
            shape = replicate size0 [prior_strength];
            rate = map (map ((*) prior_strength)) (replicate size0 [variance])
        in Inr (JointConjugateBayesianParameters
              (IsotropicNormalGamma_obj means scale shape rate)
              (IsotropicNormalGamma_obj (bc (bc (+)) means noise) scale shape rate)))"

text \<open>
  \<open>makeparam(mean, cov, size, prior_strength, noise_std, tensorconf)\<close>: six positional
  arguments. \<open>_default_fullcov_param\<close> has four parameters, so Python raises TypeError
  before its body runs.
\<close>

definition makeparam ::
  "('c \<Rightarrow> nat \<Rightarrow> mat) \<Rightarrow> mat \<Rightarrow> default_param_fn \<Rightarrow> vec \<Rightarrow> 'c \<Rightarrow> nat \<Rightarrow> real \<Rightarrow> real
     \<Rightarrow> error + joint_params" where
  "makeparam full_cov randn fn mu cov0 size0 prior_strength noise_std =
     (case fn of
        default_fullcov_param \<Rightarrow> Inl TypeError
      | default_diagcov_param \<Rightarrow>
          diagcov_param full_cov randn mu cov0 size0 prior_strength noise_std
      | default_isocov_param \<Rightarrow>
          isocov_param full_cov randn mu cov0 size0 prior_strength noise_std)"

definition unknown_covariance_type :: "string \<Rightarrow> string" where
  "unknown_covariance_type cov_type =
     ''Unknown covariance type: '' @ [CHR 0x22] @ cov_type @ [CHR 0x22]"

text \<open>
  \<open>NormalSet.create\<close>. The guard is \<open>cov_type not in cov_type\<close>: on strings, Python's
  \<open>in\<close> is the substring test. The deprecation warning for \<open>shared_cov\<close> changes
  nothing in the result and is left out.
\<close>

definition NormalSet_create ::
  "('c \<Rightarrow> nat \<Rightarrow> mat) \<Rightarrow> mat \<Rightarrow> vec \<Rightarrow> 'c \<Rightarrow> nat \<Rightarrow> real \<Rightarrow> real \<Rightarrow> string \<Rightarrow> bool
     \<Rightarrow> error + normalset" where
  "NormalSet_create full_cov randn mu cov0 size0 prior_strength noise_std cov_type shared_cov =
     (if \<not> sublist cov_type cov_type then
        Inl (UnknownCovarianceType (unknown_covariance_type cov_type))
      else
        case default_param cov_type of
          None \<Rightarrow> Inl (KeyError cov_type)
        | Some fn \<Rightarrow>
            (case makeparam full_cov randn fn mu cov0 size0 prior_strength noise_std of
               Inl e \<Rightarrow> Inl e
             | Inr p \<Rightarrow> Inr (NormalSet p)))"

section \<open>dists/normalgamma.py\<close>

text \<open>
  Python indexing and slicing of a one-dimensional tensor: a negative index counts from
  the end, an index out of range raises IndexError, a slice is clipped.
\<close>

definition py_index :: "'a list \<Rightarrow> int \<Rightarrow> error + 'a" where
  "py_index xs i =
     (let n = int (length xs); j = (if i < 0 then n + i else i)
      in if 0 \<le> j \<and> j < n then Inr (xs ! nat j) else Inl IndexError)"

definition py_clip :: "'a list \<Rightarrow> int \<Rightarrow> nat" where
  "py_clip xs i =
     (let n = int (length xs) in nat (if i < 0 then max 0 (n + i) else min i n))"

definition py_slice :: "'a list \<Rightarrow> int \<Rightarrow> int \<Rightarrow> 'a list" where
  "py_slice xs a b = drop (py_clip xs a) (take (py_clip xs b) xs)"

text \<open>
  The standard parameters: mean and rates are vectors, scale and shape are tensors with
  a single entry.
\<close>

record NormalGammaStdParams =
  mean :: vec
  scale :: real
  shape :: real
  rates :: vec

record NormalGamma =
  params :: NormalGammaStdParams

text \<open>
  \<open>NormalGammaStdParams.from_natural_parameters\<close>, in the arithmetic of the format
  \<open>rnd\<close>. The two slices have one length, so the operations on them pair their entries.
  The division \<open>np1 / scale\<close> by a zero scale gives inf or nan in torch and 0 here; the
  theorems keep the scale away from zero.
\<close>

definition from_natural_parameters :: "rounding \<Rightarrow> vec \<Rightarrow> error + NormalGammaStdParams" where
  "from_natural_parameters rnd natural_params =
     (let dim = (int (length natural_params) - 2) div 2;
          np1 = py_slice natural_params 0 dim;
          np2 = py_slice natural_params dim (2 * dim)
      in case py_index natural_params (- 2) of
           Inl e \<Rightarrow> Inl e
         | Inr np3 \<Rightarrow>
            (case py_index natural_params (- 1) of
               Inl e \<Rightarrow> Inl e
             | Inr np4 \<Rightarrow>
                (let scale' = fmul rnd (- 2) np3;
                     shape' = fadd rnd np4 0.5;
                     mean' = map (\<lambda>x. fdiv rnd x scale') np1;
                     rates' = bc (fsub rnd) (map uminus np2)
                                (bc (fmul rnd) [fmul rnd 0.5 scale']
                                   (map (\<lambda>x. fmul rnd x x) mean'))
                 in Inr \<lparr> mean = mean', scale = scale', shape = shape', rates = rates' \<rparr>)))"

text \<open>
  \<open>NormalGamma.natural_parameters\<close>. The subtraction of the rates raises when the mean
  and the rates have sizes that do not broadcast.
\<close>

definition natural_parameters :: "rounding \<Rightarrow> NormalGamma \<Rightarrow> error + vec" where
  "natural_parameters rnd d =
     (let np1 = map (fmul rnd (scale (params d))) (mean (params d));
          half = fmul rnd (- 0.5) (scale (params d));
          squares = map (\<lambda>x. fmul rnd x x) (mean (params d))
      in bind (broadcast (fsub rnd) (map (fmul rnd half) squares) (rates (params d)))
           (\<lambda>np2. Inr (np1 @ np2
                         @ [fmul rnd (- 0.5) (scale (params d))]
                         @ [fsub rnd (shape (params d)) 0.5])))"

definition update_from_natural_parameters ::
  "rounding \<Rightarrow> NormalGamma \<Rightarrow> vec \<Rightarrow> error + NormalGamma" where
  "update_from_natural_parameters rnd d natural_params =
     (case from_natural_parameters rnd natural_params of
        Inl e \<Rightarrow> Inl e
      | Inr ps \<Rightarrow> Inr (d \<lparr> params := ps \<rparr>))"

section \<open>models/parameters.py\<close>

text \<open>
  A tensor that is stored as statistics carries its autograd flag. A distribution family
  is used through two of its operations only, so the parameter is stated for any type
  \<open>'d\<close> of distribution objects with these two operations; both may raise.
\<close>

record tensor =
  entries :: vec
  requires_grad :: bool

record 'd ExponentialFamily =
  family_natural_parameters :: "'d \<Rightarrow> error + vec"
  family_update_from_natural_parameters :: "'d \<Rightarrow> vec \<Rightarrow> error + 'd"

definition NormalGamma_family :: "rounding \<Rightarrow> NormalGamma ExponentialFamily" where
  "NormalGamma_family rnd =
     \<lparr> family_natural_parameters = natural_parameters rnd,
       family_update_from_natural_parameters = update_from_natural_parameters rnd \<rparr>"

text \<open>
  The fields \<open>_stats\<close> and \<open>_callbacks\<close> are \<open>u_stats\<close> and \<open>u_callbacks\<close>. A callback is a
  Python callable: it is known by its identity (a number), and \<open>_callbacks\<close> is a set of
  identities, so adding one that is there changes nothing.
\<close>

record 'd BayesianParameter =
  prior :: 'd
  posterior :: 'd
  u_stats :: tensor
  u_callbacks :: "nat set"

definition clone_detach :: "tensor \<Rightarrow> tensor" where
  "clone_detach t = \<lparr> entries = entries t, requires_grad = False \<rparr>"

definition BayesianParameter_init :: "tensor \<Rightarrow> 'd \<Rightarrow> 'd \<Rightarrow> 'd BayesianParameter" where
  "BayesianParameter_init init_stats pri post =
     \<lparr> prior = pri, posterior = post, u_stats = clone_detach init_stats, u_callbacks = {} \<rparr>"

definition ConjugateBayesianParameter_init ::
  "'d ExponentialFamily \<Rightarrow> 'd \<Rightarrow> 'd \<Rightarrow> error + 'd BayesianParameter" where
  "ConjugateBayesianParameter_init F pri post =
     bind (family_natural_parameters F pri)
       (\<lambda>nparams. Inr (BayesianParameter_init
                        \<lparr> entries = map (\<lambda>_. 0) nparams, requires_grad = False \<rparr> pri post))"

definition register_callback :: "'d BayesianParameter \<Rightarrow> nat \<Rightarrow> 'd BayesianParameter" where
  "register_callback p callback = p \<lparr> u_callbacks := insert callback (u_callbacks p) \<rparr>"

definition zero_stats :: "'d BayesianParameter \<Rightarrow> 'd BayesianParameter" where
  "zero_stats p = p \<lparr> u_stats := (u_stats p) \<lparr> entries := map (\<lambda>_. 0) (entries (u_stats p)) \<rparr> \<rparr>"

definition store_stats :: "'d BayesianParameter \<Rightarrow> tensor \<Rightarrow> 'd BayesianParameter" where
  "store_stats p acc_stats =
     (if requires_grad acc_stats then p \<lparr> u_stats := clone_detach acc_stats \<rparr>
      else p \<lparr> u_stats := acc_stats \<rparr>)"

text \<open>
  \<open>dispatch\<close> calls every callback of the set, in the order in which Python iterates
  over the set: \<open>iter\<close> is that order. A callback takes no argument and returns nothing;
  what it does is \<open>run\<close>: it finds the parameter as it is when the callback is called,
  and acts on the rest of the program's state \<open>'w\<close>.
\<close>

definition dispatch ::
  "(nat set \<Rightarrow> nat list) \<Rightarrow> (nat \<Rightarrow> 'd BayesianParameter \<Rightarrow> 'w \<Rightarrow> 'w)
     \<Rightarrow> 'd BayesianParameter \<Rightarrow> 'w \<Rightarrow> 'w" where
  "dispatch iter run p w = foldl (\<lambda>w' callback. run callback p w') w (iter (u_callbacks p))"

text \<open>
  \<open>natural_grad_update\<close>: the new natural parameters (its first four lines), then
  (\<open>update_posterior\<close>, its last two lines) the update of the posterior from them and
  \<open>dispatch\<close>. The tensors are added and subtracted with broadcasting, in the arithmetic
  of their format \<open>rnd\<close>, and \<open>lrate\<close> multiplies each entry of the natural gradient.
\<close>

definition new_nparams ::
  "'d ExponentialFamily \<Rightarrow> rounding \<Rightarrow> real \<Rightarrow> 'd BayesianParameter \<Rightarrow> error + vec" where
  "new_nparams F rnd lrate p =
     bind (family_natural_parameters F (prior p)) (\<lambda>prior_nparams.
     bind (family_natural_parameters F (posterior p)) (\<lambda>posterior_nparams.
     bind (broadcast (fadd rnd) prior_nparams (entries (u_stats p))) (\<lambda>with_stats.
     bind (broadcast (fsub rnd) with_stats posterior_nparams) (\<lambda>natural_grad.
       broadcast (fadd rnd) posterior_nparams (map (fmul rnd lrate) natural_grad)))))"

definition update_posterior ::
  "'d ExponentialFamily \<Rightarrow> (nat set \<Rightarrow> nat list)
     \<Rightarrow> (nat \<Rightarrow> 'd BayesianParameter \<Rightarrow> 'w \<Rightarrow> 'w)
     \<Rightarrow> 'd BayesianParameter \<Rightarrow> 'w \<Rightarrow> vec \<Rightarrow> error + 'd BayesianParameter \<times> 'w" where
  "update_posterior F iter run p w nparams =
     bind (family_update_from_natural_parameters F (posterior p) nparams) (\<lambda>d.
       let p' = p \<lparr> posterior := d \<rparr> in Inr (p', dispatch iter run p' w))"

definition natural_grad_update ::
  "'d ExponentialFamily \<Rightarrow> rounding \<Rightarrow> (nat set \<Rightarrow> nat list)
     \<Rightarrow> (nat \<Rightarrow> 'd BayesianParameter \<Rightarrow> 'w \<Rightarrow> 'w)
     \<Rightarrow> real \<Rightarrow> 'd BayesianParameter \<Rightarrow> 'w \<Rightarrow> error + 'd BayesianParameter \<times> 'w" where
  "natural_grad_update F rnd iter run lrate p w =
     bind (new_nparams F rnd lrate p) (update_posterior F iter run p w)"

text \<open>The order of iteration lists the set, each element once.\<close>

definition enumerates :: "(nat set \<Rightarrow> nat list) \<Rightarrow> nat set \<Rightarrow> bool" where
  "enumerates iter S = (set (iter S) = S \<and> distinct (iter S))"





text \<open>
  The family converts without loss at \<open>v\<close>: updating from \<open>v\<close> succeeds, and the natural
  parameters of the updated distribution are \<open>v\<close>.
\<close>

definition lossless_at :: "'d ExponentialFamily \<Rightarrow> 'd \<Rightarrow> vec \<Rightarrow> bool" where
  "lossless_at F d v =
     (case family_update_from_natural_parameters F d v of
        Inl e \<Rightarrow> False
      | Inr d' \<Rightarrow> family_natural_parameters F d' = Inr v)"




text \<open>
  No rounding takes place in the conversion of the natural parameters
  \<open>n1 @ n2 @ [n3, n4]\<close> to standard parameters and back: the exact results of its
  operations are numbers of the format.
\<close>

definition conversion_results :: "vec \<Rightarrow> vec \<Rightarrow> real \<Rightarrow> real \<Rightarrow> real list" where
  "conversion_results n1 n2 n3 n4 =
     [- 2 * n3, n4 + 1 / 2, n4, n3, - n3]
     @ concat (map2 (\<lambda>x y. [x / (- 2 * n3), x / (- 2 * n3) * (x / (- 2 * n3)),
                              - n3 * (x / (- 2 * n3) * (x / (- 2 * n3))),
                              - y - - n3 * (x / (- 2 * n3) * (x / (- 2 * n3))),
                              x, n3 * (x / (- 2 * n3) * (x / (- 2 * n3))), y])
                 n1 n2)"

definition conversion_is_exact :: "rounding \<Rightarrow> vec \<Rightarrow> vec \<Rightarrow> real \<Rightarrow> real \<Rightarrow> bool" where
  "conversion_is_exact rnd n1 n2 n3 n4 =
     list_all (\<lambda>x. rnd x = x) (conversion_results n1 n2 n3 n4)"

text \<open>Two Normal-Gamma distributions and a parameter built on them.\<close>

definition ng_prior :: NormalGamma where
  "ng_prior = \<lparr> params = \<lparr> mean = [0], scale = 1, shape = 1, rates = [1] \<rparr> \<rparr>"

definition ng_post :: NormalGamma where
  "ng_post = \<lparr> params = \<lparr> mean = [1], scale = 2, shape = 3, rates = [2] \<rparr> \<rparr>"

definition ng_param :: "NormalGamma BayesianParameter" where
  "ng_param =
     store_stats
       (BayesianParameter_init \<lparr> entries = [0, 0, 0, 0], requires_grad = False \<rparr>
          ng_prior ng_post)
       \<lparr> entries = [1, - 1, - 1, 1], requires_grad = True \<rparr>"

text \<open>A callback that writes down its identity and the posterior it finds.\<close>

definition log_call ::
  "nat \<Rightarrow> NormalGamma BayesianParameter \<Rightarrow> (nat \<times> NormalGamma) list
     \<Rightarrow> (nat \<times> NormalGamma) list" where
  "log_call callback p w = w @ [(callback, posterior p)]"






section \<open>Shapes, and the formulas of the specification\<close>

text \<open>A matrix with \<open>r\<close> rows and \<open>c\<close> columns; a batch of \<open>n\<close> such matrices.\<close>

definition is_mat :: "nat \<Rightarrow> nat \<Rightarrow> 'a list list \<Rightarrow> bool" where
  "is_mat r c M = (length M = r \<and> list_all (\<lambda>row. length row = c) M)"

definition is_ten3 :: "nat \<Rightarrow> nat \<Rightarrow> nat \<Rightarrow> 'a list list list \<Rightarrow> bool" where
  "is_ten3 n r c T = (length T = n \<and> list_all (is_mat r c) T)"

text \<open>
  For one item, with Hessian \<open>Hess\<close> at the optimum \<open>opt_i\<close>: the vector
  \<open>-(Hess (opt_i - m)) W\<^sup>T\<close> and the flattened matrix
  \<open>0.5 (trace(Hess) U + W Hess W\<^sup>T)\<close>, entry by entry.
\<close>

definition latent_linear_term :: "mat \<Rightarrow> vec \<Rightarrow> vec \<Rightarrow> mat \<Rightarrow> vec" where
  "latent_linear_term Hess opt_i m W =
     map (\<lambda>k. - (\<Sum>j<length m. (\<Sum>j'<length m. Hess ! j ! j' * (opt_i ! j' - m ! j')) * W ! k ! j))
       [0..<length W]"

definition latent_quadratic_term :: "mat \<Rightarrow> mat \<Rightarrow> mat \<Rightarrow> vec" where
  "latent_quadratic_term Hess W U =
     concat (map (\<lambda>k. map (\<lambda>k'.
         0.5 * ((\<Sum>j<length Hess. Hess ! j ! j) * U ! k ! k'
                + (\<Sum>i<length Hess. \<Sum>j<length Hess. W ! k ! i * Hess ! i ! j * W ! k' ! j)))
       [0..<length W]) [0..<length W])"

text \<open>
  For a batch: the vector \<open>-\<Sum>\<^sub>n Hess\<^sub>n (opt\<^sub>n - hW\<^sub>n)\<close> and the flattened
  matrix \<open>0.5 \<Sum>\<^sub>n Hess\<^sub>n\<close>, entry by entry; \<open>D\<close> is the dimension of the parameter space.
\<close>

definition mean_linear_term :: "nat \<Rightarrow> ten3 \<Rightarrow> mat \<Rightarrow> mat \<Rightarrow> vec" where
  "mean_linear_term D hessians opt hW =
     map (\<lambda>a. - (\<Sum>n<length hessians. \<Sum>j<D. hessians ! n ! a ! j * (opt ! n ! j - hW ! n ! j)))
       [0..<D]"

definition mean_quadratic_term :: "nat \<Rightarrow> ten3 \<Rightarrow> vec" where
  "mean_quadratic_term D hessians =
     concat (map (\<lambda>a. map (\<lambda>b. 0.5 * (\<Sum>n<length hessians. hessians ! n ! a ! b)) [0..<D])
       [0..<D])"

text \<open>
  The outputs of \<open>hessian\<close> agree across the modes up to shape: the full Hessian is the
  diagonal matrix of the diagonal one, and the diagonal one repeats the scalar one. In
  dimension one these are \<open>[[h]]\<close>, \<open>[h]\<close> and \<open>h\<close>.
\<close>

definition full_of_diagonal :: "vec \<Rightarrow> mat" where
  "full_of_diagonal d =
     map (\<lambda>a. map (\<lambda>b. if a = b then d ! a else 0) [0..<length d]) [0..<length d]"

definition diagonal_of_scalar :: "nat \<Rightarrow> real \<Rightarrow> vec" where
  "diagonal_of_scalar D s = replicate D s"

text \<open>The statistics of the subspace, as the diagonal and the scalar class write them.\<close>

definition isometric_subspace_stats :: "vec \<Rightarrow> mat \<Rightarrow> vec \<Rightarrow> mat \<Rightarrow> mat \<Rightarrow> vec" where
  "isometric_subspace_stats tr_hessians opt m H HH =
     (let isometric_params = map (map (\<lambda>a. a / real (length m))) (unsq_last tr_hessians);
          to_m = tmul2 (tsub2 opt [m]) isometric_params;
          tHH = tmul2 HH isometric_params
      in neg1 (concat (matmul (transpose H) to_m)) @ smul1 0.5 (sum_first2 tHH))"

text \<open>
  A likelihood function, the distributions and a batch of two items, in dimension two.
  The model holds the distributions that \<open>create\<close> builds from the subspace mean
  \<open>[[1, 0], [0, 1]]\<close>, the global mean \<open>[0, 0]\<close>, no noise and the prior strength 1.
\<close>

definition example_api :: priors_api where
  "example_api =
     \<lparr> normal_moments =
         (\<lambda>p. case p of NormalFullCovariancePrior mu S \<Rightarrow> (mu, concat S) | _ \<Rightarrow> ([], [])),
       matrixnormal_moments =
         (\<lambda>p. case p of MatrixNormalPrior M U \<Rightarrow> (M, T2 U) | _ \<Rightarrow> ([], T1 [])),
       matrixnormal_cov = (\<lambda>p. case p of MatrixNormalPrior M U \<Rightarrow> U | _ \<Rightarrow> []),
       prior_natural_parameters =
         (\<lambda>p. case p of NormalFullCovariancePrior mu S \<Rightarrow> mu @ smul1 (- 0.5) (concat S)
                | _ \<Rightarrow> []),
       latent_moments = (\<lambda>v. (take 2 v, drop 2 v)),
       kl_div = (\<lambda>v p. 0) \<rparr>"

definition example_llh :: LikelihoodFunction where
  "example_llh =
     \<lparr> argmax = (\<lambda>stats counts. stats),
       hessian_full = (\<lambda>opt stats counts. map (\<lambda>c. [[- c, 1], [1, - 2 * c]]) counts),
       hessian_diagonal = (\<lambda>opt stats counts. map (\<lambda>c. [- c, - 2 * c]) counts),
       hessian_scalar = (\<lambda>opt stats counts. map (\<lambda>c. - c) counts),
       llh_call = (\<lambda>opt stats counts. map (\<lambda>c. 0) counts) \<rparr>"

definition example_model :: "LikelihoodFunction gsm_object" where
  "example_model =
     \<lparr> llh_func = example_llh,
       subspace_prior = MatrixNormalPrior [[1, 0], [0, 1]] (eye 2),
       subspace_posterior = MatrixNormalPrior [[1, 0], [0, 1]] (eye 2),
       mean_prior = NormalFullCovariancePrior [0, 0] (eye 2),
       mean_posterior = NormalFullCovariancePrior [0, 0] (eye 2),
       latent_prior = NormalFullCovariancePrior (zeros 2) (eye 2),
       cache = Map.empty \<rparr>"

definition example_data :: mat where
  "example_data = [[1, 2, 1], [3, 4, 2]]"

text \<open>The same in dimension one, where the three Hessians hold the same numbers.\<close>

definition example_api1 :: priors_api where
  "example_api1 = example_api \<lparr> latent_moments := (\<lambda>v. (take 1 v, drop 1 v)) \<rparr>"

definition example_llh1 :: LikelihoodFunction where
  "example_llh1 =
     \<lparr> argmax = (\<lambda>stats counts. stats),
       hessian_full = (\<lambda>opt stats counts. map (\<lambda>c. [[- c]]) counts),
       hessian_diagonal = (\<lambda>opt stats counts. map (\<lambda>c. [- c]) counts),
       hessian_scalar = (\<lambda>opt stats counts. map (\<lambda>c. - c) counts),
       llh_call = (\<lambda>opt stats counts. map (\<lambda>c. 0) counts) \<rparr>"

definition example_model1 :: "LikelihoodFunction gsm_object" where
  "example_model1 =
     \<lparr> llh_func = example_llh1,
       subspace_prior = MatrixNormalPrior [[1]] (eye 1),
       subspace_posterior = MatrixNormalPrior [[1]] (eye 1),
       mean_prior = NormalFullCovariancePrior [0] (eye 1),
       mean_posterior = NormalFullCovariancePrior [0] (eye 1),
       latent_prior = NormalFullCovariancePrior (zeros 1) (eye 1),
       cache = Map.empty \<rparr>"

definition example_data1 :: mat where
  "example_data1 = [[1, 1], [3, 2]]"

section \<open>Lemmas\<close>

lemma bc_same: "length xs = length ys \<Longrightarrow> bc f xs ys = map2 f xs ys"
  by (auto simp: bc_def)

lemma bc_single_left: "bc f [x] ys = map (f x) ys"
  by (cases ys rule: remdups_adj.cases) (auto simp: bc_def)

lemma bc_single_right: "bc f xs [y] = map (\<lambda>x. f x y) xs"
  by (cases xs rule: remdups_adj.cases) (auto simp: bc_def)

lemma broadcast_same: "length xs = length ys \<Longrightarrow> broadcast f xs ys = Inr (map2 f xs ys)"
  by (simp add: broadcast_def bc_same)

lemma bind_Inr: "bind (Inr x) f = f x"
  by (simp add: bind_def)

lemma py_index_last2:
  "py_index (xs @ [a, b]) (- 2) = Inr a" "py_index (xs @ [a, b]) (- 1) = Inr b"
proof -
  have "nat (int (length (xs @ [a, b])) + - 2) = length xs"
       "nat (int (length (xs @ [a, b])) + - 1) = Suc (length xs)"
    by simp_all
  then show "py_index (xs @ [a, b]) (- 2) = Inr a" "py_index (xs @ [a, b]) (- 1) = Inr b"
    unfolding py_index_def Let_def by (simp_all add: nth_append)
qed

lemma py_slice_first: "py_slice (xs @ ys) 0 (int (length xs)) = xs"
  by (simp add: py_slice_def py_clip_def)

lemma py_slice_second:
  "length ys = length xs \<Longrightarrow> py_slice (xs @ ys @ zs) (int (length xs)) (2 * int (length xs)) = ys"
  by (simp add: py_slice_def py_clip_def)

lemma natural_parameters_shape:
  assumes "length (mean ps) = length (rates ps)"
  shows "natural_parameters rnd \<lparr>params = ps\<rparr> =
     Inr (map (fmul rnd (scale ps)) (mean ps)
          @ map2 (fsub rnd)
              (map (\<lambda>x. fmul rnd (fmul rnd (- 0.5) (scale ps)) (fmul rnd x x)) (mean ps))
              (rates ps)
          @ [fmul rnd (- 0.5) (scale ps), fsub rnd (shape ps) 0.5])"
  using assms by (simp add: natural_parameters_def broadcast_same bind_Inr Let_def comp_def)

lemma from_natural_parameters_cat:
  assumes "length n2 = length n1"
  shows "from_natural_parameters rnd (n1 @ n2 @ [n3, n4]) =
     Inr \<lparr> mean = map (\<lambda>x. fdiv rnd x (fmul rnd (- 2) n3)) n1,
           scale = fmul rnd (- 2) n3,
           shape = fadd rnd n4 0.5,
           rates = map2 (fsub rnd) (map uminus n2)
                    (map (\<lambda>x. fmul rnd (fmul rnd 0.5 (fmul rnd (- 2) n3))
                                 (fmul rnd (fdiv rnd x (fmul rnd (- 2) n3))
                                           (fdiv rnd x (fmul rnd (- 2) n3)))) n1) \<rparr>"
proof -
  define v where "v = n1 @ n2 @ [n3, n4]"
  have len: "(int (length v) - 2) div 2 = int (length n1)"
    using assms by (simp add: v_def)
  have i2: "py_index v (- 2) = Inr n3"
    using py_index_last2(1) [of "n1 @ n2" n3 n4] by (simp add: v_def)
  have i1: "py_index v (- 1) = Inr n4"
    using py_index_last2(2) [of "n1 @ n2" n3 n4] by (simp add: v_def)
  have s1: "py_slice v 0 (int (length n1)) = n1"
    unfolding v_def by (rule py_slice_first)
  have s2: "py_slice v (int (length n1)) (2 * int (length n1)) = n2"
    unfolding v_def using assms by (rule py_slice_second)
  have "from_natural_parameters rnd v =
     Inr \<lparr> mean = map (\<lambda>x. fdiv rnd x (fmul rnd (- 2) n3)) n1,
           scale = fmul rnd (- 2) n3,
           shape = fadd rnd n4 0.5,
           rates = map2 (fsub rnd) (map uminus n2)
                    (map (\<lambda>x. fmul rnd (fmul rnd 0.5 (fmul rnd (- 2) n3))
                                 (fmul rnd (fdiv rnd x (fmul rnd (- 2) n3))
                                           (fdiv rnd x (fmul rnd (- 2) n3)))) n1) \<rparr>"
    unfolding from_natural_parameters_def Let_def len i2 i1 s1 s2
    using assms by (simp add: bc_single_left bc_same comp_def)
  then show ?thesis by (simp add: v_def)
qed








lemma distinct_count_list: "distinct xs \<Longrightarrow> count_list xs x = (if x \<in> set xs then 1 else 0)"
  by (induction xs) auto

lemma enumerates_two:
  assumes "f \<noteq> g" "enumerates iter {f, g}"
  shows "iter {f, g} = [f, g] \<or> iter {f, g} = [g, f]"
proof -
  from assms(2) have s: "set (iter {f, g}) = {f, g}" and d: "distinct (iter {f, g})"
    by (simp_all add: enumerates_def)
  from d have "length (iter {f, g}) = card (set (iter {f, g}))"
    by (simp add: distinct_card)
  with s assms(1) have "length (iter {f, g}) = 2" by simp
  then obtain a b where ab: "iter {f, g} = [a, b]"
    by (auto simp: length_Suc_conv numeral_2_eq_2)
  with s d assms(1) show ?thesis by (auto simp: doubleton_eq_iff)
qed

lemma enumerates_one:
  assumes "enumerates iter {f}"
  shows "iter {f} = [f]"
proof -
  from assms have s: "set (iter {f}) = {f}" and d: "distinct (iter {f})"
    by (simp_all add: enumerates_def)
  from d have "length (iter {f}) = card (set (iter {f}))"
    by (simp add: distinct_card)
  with s have "length (iter {f}) = 1" by simp
  then obtain a where "iter {f} = [a]"
    by (auto simp: length_Suc_conv)
  with s show ?thesis by auto
qed

lemma register_callback_simps:
  "u_callbacks (register_callback p c) = insert c (u_callbacks p)"
  "prior (register_callback p c) = prior p"
  "posterior (register_callback p c) = posterior p"
  "u_stats (register_callback p c) = u_stats p"
  by (simp_all add: register_callback_def)

lemma new_nparams_register:
  "new_nparams F rnd lrate (register_callback p c) = new_nparams F rnd lrate p"
  by (simp add: new_nparams_def register_callback_simps)

lemma natural_grad_update_Inr_ex:
  assumes "new_nparams F rnd lrate p = Inr v"
    and "family_update_from_natural_parameters F (posterior p) v = Inr d"
  shows "natural_grad_update F rnd iter run lrate p w =
           Inr (p \<lparr> posterior := d \<rparr>,
                foldl (\<lambda>v c. run c (p \<lparr> posterior := d \<rparr>) v) w (iter (u_callbacks p)))"
  using assms
  by (simp add: natural_grad_update_def update_posterior_def dispatch_def Let_def bind_Inr)

lemma ng_param_fields:
  "prior ng_param = ng_prior" "posterior ng_param = ng_post"
  "entries (u_stats ng_param) = [1, - 1, - 1, 1]" "u_callbacks ng_param = {}"
  by (simp_all add: ng_param_def store_stats_def BayesianParameter_init_def clone_detach_def)

lemma list_all_concat_map2:
  assumes "list_all P (concat (map2 f xs ys))" and "length ys = length xs" and "i < length xs"
  shows "list_all P (f (xs ! i) (ys ! i))"
proof -
  have "(xs ! i, ys ! i) \<in> set (zip xs ys)"
    using assms(2,3) by (metis in_set_zip fst_conv snd_conv)
  then have "set (f (xs ! i) (ys ! i)) \<subseteq> set (concat (map2 f xs ys))"
    by (auto simp del: set_zip intro!: bexI [of _ "(xs ! i, ys ! i)"])
  with assms(1) show ?thesis
    by (auto simp: list_all_iff)
qed

lemma conversion_is_exact_scalars:
  assumes "conversion_is_exact rnd n1 n2 n3 n4"
  shows "rnd (- 2 * n3) = - 2 * n3" "rnd (n4 + 1 / 2) = n4 + 1 / 2" "rnd n4 = n4"
    "rnd n3 = n3" "rnd (- n3) = - n3"
  using assms
  unfolding conversion_is_exact_def conversion_results_def list_all_append list.pred_inject
  by blast+

lemma conversion_is_exact_entries:
  assumes "conversion_is_exact rnd n1 n2 n3 n4" and "length n2 = length n1"
    and "i < length n1"
  shows "rnd (n1 ! i / (- 2 * n3)) = n1 ! i / (- 2 * n3)"
    "rnd (n1 ! i / (- 2 * n3) * (n1 ! i / (- 2 * n3)))
       = n1 ! i / (- 2 * n3) * (n1 ! i / (- 2 * n3))"
    "rnd (- n3 * (n1 ! i / (- 2 * n3) * (n1 ! i / (- 2 * n3))))
       = - n3 * (n1 ! i / (- 2 * n3) * (n1 ! i / (- 2 * n3)))"
    "rnd (- (n2 ! i) - - n3 * (n1 ! i / (- 2 * n3) * (n1 ! i / (- 2 * n3))))
       = - (n2 ! i) - - n3 * (n1 ! i / (- 2 * n3) * (n1 ! i / (- 2 * n3)))"
    "rnd (n1 ! i) = n1 ! i"
    "rnd (n3 * (n1 ! i / (- 2 * n3) * (n1 ! i / (- 2 * n3))))
       = n3 * (n1 ! i / (- 2 * n3) * (n1 ! i / (- 2 * n3)))"
    "rnd (n2 ! i) = n2 ! i"
proof -
  from assms(1) have "list_all (\<lambda>x. rnd x = x)
      (concat (map2 (\<lambda>x y. [x / (- 2 * n3), x / (- 2 * n3) * (x / (- 2 * n3)),
                              - n3 * (x / (- 2 * n3) * (x / (- 2 * n3))),
                              - y - - n3 * (x / (- 2 * n3) * (x / (- 2 * n3))),
                              x, n3 * (x / (- 2 * n3) * (x / (- 2 * n3))), y])
                 n1 n2))"
    unfolding conversion_is_exact_def conversion_results_def list_all_append
    by (rule conjunct2)
  from list_all_concat_map2 [OF this assms(2,3)]
  show "rnd (n1 ! i / (- 2 * n3)) = n1 ! i / (- 2 * n3)"
    "rnd (n1 ! i / (- 2 * n3) * (n1 ! i / (- 2 * n3)))
       = n1 ! i / (- 2 * n3) * (n1 ! i / (- 2 * n3))"
    "rnd (- n3 * (n1 ! i / (- 2 * n3) * (n1 ! i / (- 2 * n3))))
       = - n3 * (n1 ! i / (- 2 * n3) * (n1 ! i / (- 2 * n3)))"
    "rnd (- (n2 ! i) - - n3 * (n1 ! i / (- 2 * n3) * (n1 ! i / (- 2 * n3))))
       = - (n2 ! i) - - n3 * (n1 ! i / (- 2 * n3) * (n1 ! i / (- 2 * n3)))"
    "rnd (n1 ! i) = n1 ! i"
    "rnd (n3 * (n1 ! i / (- 2 * n3) * (n1 ! i / (- 2 * n3))))
       = n3 * (n1 ! i / (- 2 * n3) * (n1 ! i / (- 2 * n3)))"
    "rnd (n2 ! i) = n2 ! i"
    unfolding list.pred_inject by blast+
qed

lemma NormalGamma_lossless:
  assumes len: "length n2 = length n1" and nz: "n3 \<noteq> 0"
    and ex: "conversion_is_exact rnd n1 n2 n3 n4"
  shows "lossless_at (NormalGamma_family rnd) d (n1 @ n2 @ [n3, n4])"
proof -
  define k where "k = - 2 * n3"
  define mf where "mf x = x / k" for x
  define qf where "qf x = mf x * mf x" for x
  define uf where "uf x = - n3 * qf x" for x
  define vf where "vf x = n3 * qf x" for x
  define bf where "bf y x = - y - uf x" for y x
  let ?ps = "\<lparr> mean = map mf n1, scale = k, shape = n4 + 1 / 2, rates = map2 bf n2 n1 \<rparr>"
  note sc = conversion_is_exact_scalars [OF ex]
  note en = conversion_is_exact_entries [OF ex len]
  have k: "fmul rnd (- 2) n3 = k"
    using sc(1) by (simp only: fmul_def k_def)
  have a: "fadd rnd n4 0.5 = n4 + 1 / 2"
    using sc(2) by (simp add: fadd_def)
  have "0.5 * k = - n3" by (simp add: k_def)
  then have c: "fmul rnd 0.5 k = - n3"
    using sc(5) by (simp only: fmul_def)
  have "- 0.5 * k = n3" by (simp add: k_def)
  then have half: "fmul rnd (- 0.5) k = n3"
    using sc(4) by (simp only: fmul_def)
  have n4: "fsub rnd (n4 + 1 / 2) 0.5 = n4"
    using sc(3) by (simp add: fsub_def)
  have d: "fdiv rnd (n1 ! i) k = mf (n1 ! i)" if "i < length n1" for i
    using en(1) [OF that] by (simp only: fdiv_def mf_def k_def)
  have q: "fmul rnd (mf (n1 ! i)) (mf (n1 ! i)) = qf (n1 ! i)" if "i < length n1" for i
    using en(2) [OF that] by (simp only: fmul_def qf_def mf_def k_def)
  have u: "fmul rnd (- n3) (qf (n1 ! i)) = uf (n1 ! i)" if "i < length n1" for i
    using en(3) [OF that] by (simp only: fmul_def uf_def qf_def mf_def k_def)
  have v: "fmul rnd n3 (qf (n1 ! i)) = vf (n1 ! i)" if "i < length n1" for i
    using en(6) [OF that] by (simp only: fmul_def vf_def qf_def mf_def k_def)
  have s: "fsub rnd (- (n2 ! i)) (uf (n1 ! i)) = bf (n2 ! i) (n1 ! i)" if "i < length n1" for i
    using en(4) [OF that] by (simp only: fsub_def bf_def uf_def qf_def mf_def k_def)
  have km: "fmul rnd k (mf (n1 ! i)) = n1 ! i" if "i < length n1" for i
  proof -
    have "k * mf (n1 ! i) = n1 ! i" using nz by (simp add: mf_def k_def)
    then show ?thesis using en(5) [OF that] by (simp only: fmul_def)
  qed
  have t: "fsub rnd (vf (n1 ! i)) (bf (n2 ! i) (n1 ! i)) = n2 ! i" if "i < length n1" for i
  proof -
    have "vf (n1 ! i) - bf (n2 ! i) (n1 ! i) = n2 ! i"
      by (simp add: vf_def bf_def uf_def)
    then show ?thesis using en(7) [OF that] by (simp only: fsub_def)
  qed
  have ms: "map (\<lambda>x. fdiv rnd x k) n1 = map mf n1"
    by (intro nth_equalityI) (simp_all add: d)
  have bs: "map2 (fsub rnd) (map uminus n2)
             (map (\<lambda>x. fmul rnd (- n3) (fmul rnd (fdiv rnd x k) (fdiv rnd x k))) n1)
            = map2 bf n2 n1"
    using len by (intro nth_equalityI) (simp_all add: d q u s)
  have "from_natural_parameters rnd (n1 @ n2 @ [n3, n4]) =
     Inr \<lparr> mean = map (\<lambda>x. fdiv rnd x (fmul rnd (- 2) n3)) n1,
           scale = fmul rnd (- 2) n3,
           shape = fadd rnd n4 0.5,
           rates = map2 (fsub rnd) (map uminus n2)
                    (map (\<lambda>x. fmul rnd (fmul rnd 0.5 (fmul rnd (- 2) n3))
                                 (fmul rnd (fdiv rnd x (fmul rnd (- 2) n3))
                                           (fdiv rnd x (fmul rnd (- 2) n3)))) n1) \<rparr>"
    by (rule from_natural_parameters_cat [OF len])
  then have frm: "from_natural_parameters rnd (n1 @ n2 @ [n3, n4]) = Inr ?ps"
    by (simp only: k c a ms bs)
  have b1: "map (fmul rnd k) (map mf n1) = n1"
    by (intro nth_equalityI) (simp_all add: km)
  have b2: "map2 (fsub rnd) (map (\<lambda>x. fmul rnd n3 (fmul rnd x x)) (map mf n1)) (map2 bf n2 n1)
            = n2"
    using len by (intro nth_equalityI) (simp_all add: q v t)
  have "length (mean ?ps) = length (rates ?ps)"
    using len by simp
  from natural_parameters_shape [OF this, of rnd]
  have "natural_parameters rnd \<lparr> params = ?ps \<rparr> =
     Inr (map (fmul rnd k) (map mf n1)
          @ map2 (fsub rnd) (map (\<lambda>x. fmul rnd (fmul rnd (- 0.5) k) (fmul rnd x x)) (map mf n1))
              (map2 bf n2 n1)
          @ [fmul rnd (- 0.5) k, fsub rnd (n4 + 1 / 2) 0.5])"
    by (simp only: NormalGammaStdParams.simps)
  then have rev: "natural_parameters rnd \<lparr> params = ?ps \<rparr> = Inr (n1 @ n2 @ [n3, n4])"
    by (simp only: half b1 b2 n4)
  have upd: "d \<lparr> params := ?ps \<rparr> = \<lparr> params = ?ps \<rparr>"
    by (cases d) simp
  have "natural_parameters rnd (d \<lparr> params := ?ps \<rparr>) = Inr (n1 @ n2 @ [n3, n4])"
    unfolding upd by (rule rev)
  then show ?thesis
    by (simp add: lossless_at_def NormalGamma_family_def update_from_natural_parameters_def frm)
qed


lemma ng_post_lossless:
  "lossless_at (NormalGamma_family binary64) ng_post ([2] @ [- 3] @ [- 1, 5 / 2])"
proof (rule NormalGamma_lossless)
  show "conversion_is_exact binary64 [2] [- 3] (- 1) (5 / 2)"
    by code_simp
qed simp_all

lemma ng_natural_parameters:
  "natural_parameters binary64 ng_prior = Inr [0, - 1, - (1 / 2), 1 / 2]"
  "natural_parameters binary64 ng_post = Inr [2, - 3, - 1, 5 / 2]"
  by code_simp+

lemma ng_family:
  "family_natural_parameters (NormalGamma_family binary64) = natural_parameters binary64"
  "family_update_from_natural_parameters (NormalGamma_family binary64)
     = update_from_natural_parameters binary64"
  by (simp_all add: NormalGamma_family_def)

lemma ng_param_new_nparams:
  "new_nparams (NormalGamma_family binary64) binary64 (1 / 2) ng_param
     = Inr [3 / 2, - (5 / 2), - (5 / 4), 2]"
  by code_simp

lemma ng_post_update:
  "update_from_natural_parameters binary64 ng_post [3 / 2, - (5 / 2), - (5 / 4), 2]
     = Inr \<lparr> params = \<lparr> mean = [5404319552844595 / 2 ^ 53], scale = 5 / 2, shape = 5 / 2,
                        rates = [2308094809027379 / 2 ^ 50] \<rparr> \<rparr>"
  by code_simp

lemma ng_init:
  "ConjugateBayesianParameter_init (NormalGamma_family binary64) ng_prior ng_post
     = Inr (BayesianParameter_init \<lparr> entries = [0, 0, 0, 0], requires_grad = False \<rparr>
              ng_prior ng_post)"
  by (simp add: ConjugateBayesianParameter_init_def ng_family ng_natural_parameters bind_Inr)


section \<open>Theorems\<close>

text \<open>
  C9. \<open>GeneralizedSubspaceModel.sufficient_statistics\<close> is the identity: whatever the
  data (of any type, so of any tensor shape), the value returned is the data.
\<close>

theorem sufficient_statistics_identity: "sufficient_statistics data = data"
  by (simp add: sufficient_statistics_def)



text \<open>
  C6. The claim: an unknown covariance type makes \<open>NormalSet.create\<close> raise
  UnknownCovarianceType. The code: its guard tests the string against itself, which never
  fails, so the lookup in the table of helpers raises KeyError instead, and no call of
  \<open>NormalSet.create\<close> raises UnknownCovarianceType.
\<close>

theorem NormalSet_create_unknown_cov_type:
  "NormalSet_create full_cov randn mu cov0 size0 prior_strength noise_std ''spherical'' shared_cov
     = Inl (KeyError ''spherical'')
   \<and> (\<forall>cov_type msg.
        NormalSet_create full_cov randn mu cov0 size0 prior_strength noise_std cov_type shared_cov
          \<noteq> Inl (UnknownCovarianceType msg))"
proof
  show "NormalSet_create full_cov randn mu cov0 size0 prior_strength noise_std ''spherical''
          shared_cov = Inl (KeyError ''spherical'')"
    by (simp add: NormalSet_create_def default_param_def)
  show "\<forall>cov_type msg.
        NormalSet_create full_cov randn mu cov0 size0 prior_strength noise_std cov_type shared_cov
          \<noteq> Inl (UnknownCovarianceType msg)"
    by (auto simp: NormalSet_create_def makeparam_def diagcov_param_def isocov_param_def Let_def
          split: option.splits sum.splits default_param_fn.splits if_splits)
qed







text \<open>
  C8. Two distinct callbacks \<open>f\<close> and \<open>g\<close> are registered, the new natural parameters
  are computed, and the update of the posterior from them succeeds with the distribution
  \<open>d\<close>. Then \<open>natural_grad_update\<close> returns; the callbacks are run on the parameter whose
  posterior is \<open>d\<close>; among the calls made, \<open>f\<close> is called once and \<open>g\<close> is called once;
  when no other callback was registered, the calls are these two, in one of the two
  orders.
\<close>

theorem two_callbacks_once:
  assumes "f \<noteq> g"
    and "new_nparams F rnd lrate p = Inr v"
    and "family_update_from_natural_parameters F (posterior p) v = Inr d"
    and "enumerates iter (insert g (insert f (u_callbacks p)))"
  shows "\<exists>p' w'.
       natural_grad_update F rnd iter run lrate (register_callback (register_callback p f) g) w
         = Inr (p', w')
       \<and> posterior p' = d
       \<and> w' = foldl (\<lambda>v c. run c p' v) w (iter (u_callbacks p'))
       \<and> count_list (iter (u_callbacks p')) f = 1
       \<and> count_list (iter (u_callbacks p')) g = 1
       \<and> (u_callbacks p = {} \<longrightarrow>
            w' = run g p' (run f p' w) \<or> w' = run f p' (run g p' w))"
proof -
  let ?q = "register_callback (register_callback p f) g"
  let ?p' = "?q \<lparr> posterior := d \<rparr>"
  let ?w' = "foldl (\<lambda>v c. run c ?p' v) w (iter (u_callbacks ?q))"
  have new: "new_nparams F rnd lrate ?q = Inr v"
    using assms(2) by (simp add: new_nparams_register)
  have up: "family_update_from_natural_parameters F (posterior ?q) v = Inr d"
    using assms(3) by (simp add: register_callback_simps)
  have run: "natural_grad_update F rnd iter run lrate ?q w = Inr (?p', ?w')"
    by (rule natural_grad_update_Inr_ex [OF new up])
  have cb: "u_callbacks ?p' = insert g (insert f (u_callbacks p))"
    by (simp add: register_callback_simps)
  from assms(4) have s: "set (iter (u_callbacks ?p')) = u_callbacks ?p'"
    and dd: "distinct (iter (u_callbacks ?p'))"
    by (simp_all add: enumerates_def cb)
  have cf: "count_list (iter (u_callbacks ?p')) f = 1"
    using dd s cb by (simp add: distinct_count_list)
  have cg: "count_list (iter (u_callbacks ?p')) g = 1"
    using dd s cb by (simp add: distinct_count_list)
  have w: "?w' = foldl (\<lambda>v c. run c ?p' v) w (iter (u_callbacks ?p'))"
    by simp
  have two: "?w' = run g ?p' (run f ?p' w) \<or> ?w' = run f ?p' (run g ?p' w)"
    if "u_callbacks p = {}"
  proof -
    from that have e: "u_callbacks ?q = {f, g}"
      by (auto simp: register_callback_simps)
    with assms(4) that have "enumerates iter {f, g}"
      by (simp add: insert_commute)
    from enumerates_two [OF assms(1) this] show ?thesis
      unfolding e by auto
  qed
  have "posterior ?p' = d" by simp
  with run w cf cg two show ?thesis by blast
qed

theorem two_callbacks_once_witness:
  "(1 :: nat) \<noteq> 2
   \<and> new_nparams (NormalGamma_family binary64) binary64 (1 / 2) ng_param
        = Inr [3 / 2, - (5 / 2), - (5 / 4), 2]
   \<and> update_from_natural_parameters binary64 ng_post [3 / 2, - (5 / 2), - (5 / 4), 2]
        = Inr \<lparr> params = \<lparr> mean = [5404319552844595 / 2 ^ 53], scale = 5 / 2, shape = 5 / 2,
                           rates = [2308094809027379 / 2 ^ 50] \<rparr> \<rparr>
   \<and> enumerates sorted_list_of_set {2, 1}
   \<and> (\<exists>p'. natural_grad_update (NormalGamma_family binary64) binary64 sorted_list_of_set
               log_call (1 / 2) (register_callback (register_callback ng_param 1) 2) []
             = Inr (p',
                 [(1, \<lparr> params = \<lparr> mean = [5404319552844595 / 2 ^ 53], scale = 5 / 2,
                                    shape = 5 / 2, rates = [2308094809027379 / 2 ^ 50] \<rparr> \<rparr>),
                  (2, \<lparr> params = \<lparr> mean = [5404319552844595 / 2 ^ 53], scale = 5 / 2,
                                    shape = 5 / 2, rates = [2308094809027379 / 2 ^ 50] \<rparr> \<rparr>)]))"
proof -
  note new = ng_param_new_nparams and up = ng_post_update
    and po = ng_param_fields(2) and cb = ng_param_fields(4)
  have up': "family_update_from_natural_parameters (NormalGamma_family binary64)
               (posterior ng_param) [3 / 2, - (5 / 2), - (5 / 4), 2]
        = Inr \<lparr> params = \<lparr> mean = [5404319552844595 / 2 ^ 53], scale = 5 / 2, shape = 5 / 2,
                           rates = [2308094809027379 / 2 ^ 50] \<rparr> \<rparr>"
    unfolding po ng_family by (rule up)
  have en: "enumerates sorted_list_of_set (insert 2 (insert 1 (u_callbacks ng_param)))"
    by (auto simp: enumerates_def cb)
  have ne: "(1 :: nat) \<noteq> 2" by simp
  from two_callbacks_once [OF ne new up' en, of log_call "[]"]
  obtain p' w' where r:
    "natural_grad_update (NormalGamma_family binary64) binary64 sorted_list_of_set log_call
       (1 / 2) (register_callback (register_callback ng_param 1) 2) [] = Inr (p', w')"
    "posterior p' = \<lparr> params = \<lparr> mean = [5404319552844595 / 2 ^ 53], scale = 5 / 2,
                                 shape = 5 / 2, rates = [2308094809027379 / 2 ^ 50] \<rparr> \<rparr>"
    "w' = foldl (\<lambda>v c. log_call c p' v) [] (sorted_list_of_set (u_callbacks p'))"
    by blast
  have "u_callbacks p' = {1, 2}"
    using r(1) by (auto simp: natural_grad_update_def update_posterior_def Let_def bind_def
        register_callback_def cb split: sum.splits)
  then have "sorted_list_of_set (u_callbacks p') = [1, 2]" by simp
  with r(3) have "w' =
      [(1, \<lparr> params = \<lparr> mean = [5404319552844595 / 2 ^ 53], scale = 5 / 2,
                         shape = 5 / 2, rates = [2308094809027379 / 2 ^ 50] \<rparr> \<rparr>),
       (2, \<lparr> params = \<lparr> mean = [5404319552844595 / 2 ^ 53], scale = 5 / 2,
                         shape = 5 / 2, rates = [2308094809027379 / 2 ^ 50] \<rparr> \<rparr>)]"
    by (simp add: log_call_def r(2))
  with r(1) new up en ne cb show ?thesis by (auto simp: insert_commute)
qed

text \<open>
  C10. Registering a callback that is registered already leaves the parameter as it is;
  and after \<open>f\<close> is registered twice, an update whose posterior update succeeds calls
  \<open>f\<close> once: when no other callback was registered, the only call made is one call of
  \<open>f\<close>.
\<close>

theorem register_callback_idempotent:
  assumes "new_nparams F rnd lrate p = Inr v"
    and "family_update_from_natural_parameters F (posterior p) v = Inr d"
    and "enumerates iter (insert f (u_callbacks p))"
  shows "register_callback (register_callback p f) f = register_callback p f
   \<and> (\<exists>p' w'.
       natural_grad_update F rnd iter run lrate (register_callback (register_callback p f) f) w
         = Inr (p', w')
       \<and> w' = foldl (\<lambda>v c. run c p' v) w (iter (u_callbacks p'))
       \<and> count_list (iter (u_callbacks p')) f = 1
       \<and> (u_callbacks p = {} \<longrightarrow> w' = run f p' w))"
proof -
  let ?q = "register_callback (register_callback p f) f"
  let ?p' = "?q \<lparr> posterior := d \<rparr>"
  let ?w' = "foldl (\<lambda>v c. run c ?p' v) w (iter (u_callbacks ?q))"
  have idem: "?q = register_callback p f"
    by (simp add: register_callback_def)
  have new: "new_nparams F rnd lrate ?q = Inr v"
    using assms(1) by (simp add: new_nparams_register)
  have up: "family_update_from_natural_parameters F (posterior ?q) v = Inr d"
    using assms(2) by (simp add: register_callback_simps)
  have run: "natural_grad_update F rnd iter run lrate ?q w = Inr (?p', ?w')"
    by (rule natural_grad_update_Inr_ex [OF new up])
  have cb: "u_callbacks ?p' = insert f (u_callbacks p)"
    by (simp add: register_callback_simps)
  from assms(3) have s: "set (iter (u_callbacks ?p')) = u_callbacks ?p'"
    and dd: "distinct (iter (u_callbacks ?p'))"
    by (simp_all add: enumerates_def cb)
  have cf: "count_list (iter (u_callbacks ?p')) f = 1"
    using dd s cb by (simp add: distinct_count_list)
  have w: "?w' = foldl (\<lambda>v c. run c ?p' v) w (iter (u_callbacks ?p'))"
    by simp
  have one: "?w' = run f ?p' w" if "u_callbacks p = {}"
  proof -
    from that have e: "u_callbacks ?q = {f}"
      by (auto simp: register_callback_simps)
    with assms(3) that have "enumerates iter {f}" by simp
    from enumerates_one [OF this] show ?thesis
      unfolding e by simp
  qed
  from idem run w cf one show ?thesis by blast
qed

theorem register_callback_idempotent_witness:
  "new_nparams (NormalGamma_family binary64) binary64 (1 / 2) ng_param
        = Inr [3 / 2, - (5 / 2), - (5 / 4), 2]
   \<and> update_from_natural_parameters binary64 ng_post [3 / 2, - (5 / 2), - (5 / 4), 2]
        = Inr \<lparr> params = \<lparr> mean = [5404319552844595 / 2 ^ 53], scale = 5 / 2, shape = 5 / 2,
                           rates = [2308094809027379 / 2 ^ 50] \<rparr> \<rparr>
   \<and> enumerates sorted_list_of_set {7}
   \<and> register_callback (register_callback ng_param 7) 7 = register_callback ng_param 7
   \<and> (\<exists>p'. natural_grad_update (NormalGamma_family binary64) binary64 sorted_list_of_set
               log_call (1 / 2) (register_callback (register_callback ng_param 7) 7) []
             = Inr (p',
                 [(7, \<lparr> params = \<lparr> mean = [5404319552844595 / 2 ^ 53], scale = 5 / 2,
                                    shape = 5 / 2, rates = [2308094809027379 / 2 ^ 50] \<rparr> \<rparr>)]))"
proof -
  note new = ng_param_new_nparams and up = ng_post_update
    and po = ng_param_fields(2) and cb = ng_param_fields(4)
  have up': "family_update_from_natural_parameters (NormalGamma_family binary64)
               (posterior ng_param) [3 / 2, - (5 / 2), - (5 / 4), 2]
        = Inr \<lparr> params = \<lparr> mean = [5404319552844595 / 2 ^ 53], scale = 5 / 2, shape = 5 / 2,
                           rates = [2308094809027379 / 2 ^ 50] \<rparr> \<rparr>"
    unfolding po ng_family by (rule up)
  have en: "enumerates sorted_list_of_set (insert 7 (u_callbacks ng_param))"
    by (simp add: enumerates_def cb)
  from register_callback_idempotent [OF new up' en, of log_call "[]"]
  obtain p' w' where r:
    "register_callback (register_callback ng_param 7) 7 = register_callback ng_param 7"
    "natural_grad_update (NormalGamma_family binary64) binary64 sorted_list_of_set log_call
       (1 / 2) (register_callback (register_callback ng_param 7) 7) [] = Inr (p', w')"
    "u_callbacks ng_param = {} \<longrightarrow> w' = log_call 7 p' []"
    by blast
  have "posterior p' = \<lparr> params = \<lparr> mean = [5404319552844595 / 2 ^ 53], scale = 5 / 2,
                                     shape = 5 / 2, rates = [2308094809027379 / 2 ^ 50] \<rparr> \<rparr>"
    using r(2) new up'
    by (auto simp: natural_grad_update_def update_posterior_def Let_def bind_def
        register_callback_def new_nparams_register [unfolded register_callback_def]
        split: sum.splits)
  with r(3) cb have "w' =
      [(7, \<lparr> params = \<lparr> mean = [5404319552844595 / 2 ^ 53], scale = 5 / 2,
                         shape = 5 / 2, rates = [2308094809027379 / 2 ^ 50] \<rparr> \<rparr>)]"
    by (simp add: log_call_def)
  with r(1,2) new up en cb show ?thesis by auto
qed

section \<open>Lemmas on tensors and on the subspace model\<close>

lemma bc_length_same: "length xs = length ys \<Longrightarrow> length (bc f xs ys) = length xs"
  by (simp add: bc_same)

lemma bc_nth_same:
  "length xs = length ys \<Longrightarrow> i < length xs \<Longrightarrow> bc f xs ys ! i = f (xs ! i) (ys ! i)"
  by (simp add: bc_same)

lemma is_mat_length: "is_mat r c M \<Longrightarrow> length M = r"
  by (simp add: is_mat_def)

lemma is_mat_row: "is_mat r c M \<Longrightarrow> i < r \<Longrightarrow> length (M ! i) = c"
  by (simp add: is_mat_def list_all_length)

lemma is_mat_iff: "is_mat r c M \<longleftrightarrow> length M = r \<and> (\<forall>i<r. length (M ! i) = c)"
  by (auto simp: is_mat_def list_all_length)

lemma is_ten3_iff: "is_ten3 n r c T \<longleftrightarrow> length T = n \<and> (\<forall>i<n. is_mat r c (T ! i))"
  by (auto simp: is_ten3_def list_all_length)

lemma is_ten3_mat: "is_ten3 n r c T \<Longrightarrow> is_mat n r T"
  by (simp add: is_ten3_iff is_mat_iff)

lemma transpose_mat:
  assumes "is_mat r c M" "0 < r"
  shows "transpose M = map (\<lambda>j. map (\<lambda>i. M ! i ! j) [0..<r]) [0..<c]"
proof -
  have "transpose M = map (\<lambda>i. map (\<lambda>j. M ! j ! i) [0..<length M]) [0..<c]"
    using assms by (intro transpose_rectangle) (auto simp: is_mat_iff)
  then show ?thesis using assms by (simp add: is_mat_iff)
qed

lemma is_mat_transpose:
  assumes "is_mat r c M" "0 < r"
  shows "is_mat c r (transpose M)"
  by (simp add: transpose_mat [OF assms] is_mat_iff)

lemma transpose_transpose_mat:
  assumes "is_mat r c M" "0 < c"
  shows "transpose (transpose M) = M"
proof (cases "r = 0")
  case True
  with assms show ?thesis by (simp add: is_mat_iff)
next
  case False
  then have r: "0 < r" by simp
  have t: "is_mat c r (transpose M)" by (rule is_mat_transpose [OF assms(1) r])
  show ?thesis
    unfolding transpose_mat [OF t assms(2)]
    using assms r
    by (intro nth_equalityI) (simp_all add: transpose_mat [OF assms(1) r] is_mat_iff)
qed

lemma dot_sum:
  assumes "length xs = n" "length ys = n"
  shows "dot xs ys = (\<Sum>i<n. xs ! i * ys ! i)"
proof -
  have "dot xs ys = (\<Sum>i = 0..<length (map2 (*) xs ys). map2 (*) xs ys ! i)"
    unfolding dot_def by (rule sum_list_sum_nth)
  also have "\<dots> = (\<Sum>i<n. xs ! i * ys ! i)"
    using assms by (simp add: atLeast0LessThan)
  finally show ?thesis .
qed

lemma sum_list_sum:
  "length xs = n \<Longrightarrow> sum_list xs = (\<Sum>i<n. xs ! i)" for xs :: "real list"
  by (simp add: sum_list_sum_nth atLeast0LessThan)

lemma matmul_transpose:
  assumes "is_mat k d W" "0 < d"
  shows "matmul A (transpose W) = map (\<lambda>row. map (dot row) W) A"
  by (simp add: matmul_def transpose_transpose_mat [OF assms])

lemma matmul_eq:
  assumes "is_mat r c A" "is_mat c c2 B" "0 < c"
  shows "matmul A B = map (\<lambda>i. map (\<lambda>j. \<Sum>k<c. A ! i ! k * B ! k ! j) [0..<c2]) [0..<r]"
proof -
  have t: "transpose B = map (\<lambda>j. map (\<lambda>i. B ! i ! j) [0..<c]) [0..<c2]"
    by (rule transpose_mat [OF assms(2,3)])
  show ?thesis
    unfolding matmul_def t
    using assms(1)
    by (intro nth_equalityI) (simp_all add: is_mat_iff dot_sum [where n = c])
qed

lemma sum_first2_eq:
  assumes "is_mat n d M" "0 < n"
  shows "sum_first2 M = map (\<lambda>j. \<Sum>i<n. M ! i ! j) [0..<d]"
  unfolding sum_first2_def transpose_mat [OF assms]
  by (simp add: sum_list_sum [where n = n] comp_def)

lemma sum_first3_eq:
  assumes "is_ten3 n r c T" "0 < n"
  shows "sum_first3 T = map (\<lambda>i. map (\<lambda>j. \<Sum>k<n. T ! k ! i ! j) [0..<c]) [0..<r]"
proof -
  have m: "is_mat n r T" by (rule is_ten3_mat [OF assms(1)])
  have "sum_first2 (map (\<lambda>k. T ! k ! i) [0..<n]) = map (\<lambda>j. \<Sum>k<n. T ! k ! i ! j) [0..<c]"
    if "i < r" for i
  proof -
    have "is_mat n c (map (\<lambda>k. T ! k ! i) [0..<n])"
      using assms(1) that by (simp add: is_ten3_iff is_mat_iff)
    from sum_first2_eq [OF this assms(2)] show ?thesis by simp
  qed
  then show ?thesis
    unfolding sum_first3_def transpose_mat [OF m assms(2)] by simp
qed

subsection \<open>Index forms\<close>

lemma bc_map_map [simp]:
  "bc f (map F xs) (map G xs) = map (\<lambda>i. f (F i) (G i)) xs"
proof -
  have "map2 f (map F xs) (map G xs) = map (\<lambda>i. f (F i) (G i)) xs"
    by (induction xs) simp_all
  then show ?thesis by (simp add: bc_same)
qed

lemma bc_map_single [simp]: "bc f (map F xs) [y] = map (\<lambda>i. f (F i) y) xs"
  by (simp add: bc_single_right comp_def)

lemma bc_single_map [simp]: "bc f [x] (map G xs) = map (\<lambda>i. f x (G i)) xs"
  by (simp add: bc_single_left comp_def)

lemma bc_single_single [simp]: "bc f [x] [y] = [f x y]"
  by (simp add: bc_def)

lemma sum_list_map_upt [simp]: "sum_list (map F [0..<n]) = (\<Sum>i<n. F i)" for F :: "nat \<Rightarrow> real"
  by (simp add: interv_sum_list_conv_sum_set_nat atLeast0LessThan)

lemma dot_map_upt [simp]: "dot (map F [0..<n]) (map G [0..<n]) = (\<Sum>i<n. F i * G i)"
proof -
  have "map2 (*) (map F [0..<n]) (map G [0..<n]) = map (\<lambda>i. F i * G i) [0..<n]"
    by (induction n) simp_all
  then show ?thesis by (simp add: dot_def)
qed

lemma transpose_map_upt:
  assumes "0 < r"
  shows "transpose (map (\<lambda>i. map (F i) [0..<c]) [0..<r]) = map (\<lambda>j. map (\<lambda>i. F i j) [0..<r]) [0..<c]"
proof -
  have "is_mat r c (map (\<lambda>i. map (F i) [0..<c]) [0..<r])"
    by (simp add: is_mat_iff)
  from transpose_mat [OF this assms] show ?thesis
    by (simp cong: map_cong)
qed

lemma mat_expand: "is_mat r c M \<Longrightarrow> M = map (\<lambda>i. map (\<lambda>j. M ! i ! j) [0..<c]) [0..<r]"
  by (intro nth_equalityI) (auto simp: is_mat_iff intro: nth_equalityI)

lemma ten3_expand:
  "is_ten3 n r c T \<Longrightarrow> T = map (\<lambda>k. map (\<lambda>i. map (\<lambda>j. T ! k ! i ! j) [0..<c]) [0..<r]) [0..<n]"
  by (intro nth_equalityI) (auto simp: is_ten3_iff is_mat_iff intro!: nth_equalityI)

lemma vec_expand: "length v = n \<Longrightarrow> v = map (\<lambda>i. v ! i) [0..<n]"
  by (intro nth_equalityI) auto

lemma Hm_o_form:
  "sum_last3 (tmul3 (map (\<lambda>n. map (\<lambda>i. map (h n i) [0..<D]) [0..<D]) [0..<N])
      (unsq_mid (tsub2 (map (\<lambda>n. map (ot n) [0..<D]) [0..<N]) [map mf [0..<D]])))
   = map (\<lambda>n. map (\<lambda>i. \<Sum>j<D. h n i j * (ot n j - mf j)) [0..<D]) [0..<N]"
  by (simp add: sum_last3_def tmul3_def unsq_mid_def tsub2_def comp_def)

lemma trace_array_form:
  assumes "0 < N"
  shows "trace_array (map (\<lambda>n. map (\<lambda>i. map (h n i) [0..<D]) [0..<D]) [0..<N])
     = Inr (map (\<lambda>n. \<Sum>j<D. h n j j) [0..<N])"
proof -
  obtain N' where N: "N = Suc N'" using assms by (cases N) auto
  have "[0..<N] = 0 # [1..<N]" unfolding N by (simp add: upt_rec)
  then obtain M0 rest where e: "map (\<lambda>n. map (\<lambda>i. map (h n i) [0..<D]) [0..<D]) [0..<N] = M0 # rest"
    and l: "length M0 = D"
    by simp
  show ?thesis
    unfolding trace_array_def e list.case Let_def l
    unfolding e [symmetric]
    by (auto simp: comp_def intro!: sum.cong)
qed

lemma WHW_form:
  assumes "0 < D" "0 < K"
  shows "tadd3 (tmul3 (unsq_last2 (map tr [0..<N])) [map (\<lambda>k. map (u k) [0..<K]) [0..<K]])
           (matmul_32 (matmul_23 (map (\<lambda>k. map (w k) [0..<D]) [0..<K])
              (map (\<lambda>n. map (\<lambda>i. map (h n i) [0..<D]) [0..<D]) [0..<N]))
              (transpose (map (\<lambda>k. map (w k) [0..<D]) [0..<K])))
   = map (\<lambda>n. map (\<lambda>k. map (\<lambda>k'. tr n * u k k' + (\<Sum>j<D. (\<Sum>i<D. w k i * h n i j) * w k' j))
        [0..<K]) [0..<K]) [0..<N]"
proof -
  have W: "is_mat K D (map (\<lambda>k. map (w k) [0..<D]) [0..<K])"
    by (simp add: is_mat_iff)
  show ?thesis
    using assms
    by (simp add: tadd3_def tmul3_def unsq_last2_def matmul_32_def matmul_23_def
          matmul_transpose [OF W] matmul_def transpose_map_upt comp_def)
qed

lemma cat_last_map_map [simp]:
  "cat_last (map F xs) (map G xs) = map (\<lambda>i. F i @ G i) xs"
  unfolding cat_last_def by (induction xs) simp_all

lemma assign_natural_parameters_eq:
  "k + length xs \<le> length acc \<Longrightarrow>
   assign_natural_parameters n0 acc (enumerate k xs)
     = Inr (map (\<lambda>i. tadd1 n0 (acc ! i)) [k..<k + length xs])"
proof (induction xs arbitrary: k)
  case Nil
  then show ?case by simp
next
  case (Cons x xs)
  from Cons.prems have "Suc k + length xs \<le> length acc" by simp
  note ih = Cons.IH [OF this]
  have "[k..<k + length (x # xs)] = k # [Suc k..<k + length (x # xs)]"
    by (rule upt_conv_Cons) simp
  then have u: "[k..<k + length (x # xs)] = k # [Suc k..<Suc k + length xs]"
    by simp
  from Cons.prems have "k < length acc" by simp
  then show ?case
    unfolding u by (simp add: ih bind_def)
qed

lemma acc_linear_form:
  assumes "0 < D"
  shows "matmul (neg2 (map (\<lambda>n. map (g n) [0..<D]) [0..<N]))
           (transpose (map (\<lambda>k. map (w k) [0..<D]) [0..<K]))
         = map (\<lambda>n. map (\<lambda>k. \<Sum>j<D. - g n j * w k j) [0..<K]) [0..<N]"
proof -
  have W: "is_mat K D (map (\<lambda>k. map (w k) [0..<D]) [0..<K])"
    by (simp add: is_mat_iff)
  show ?thesis
    by (simp add: matmul_transpose [OF W assms] neg2_def comp_def)
qed

lemma latent_terms_length:
  assumes "is_mat K D W"
  shows "length (latent_linear_term Hess o1 m W @ latent_quadratic_term Hess W U) = K + K * K"
  using assms
  by (simp add: latent_linear_term_def latent_quadratic_term_def length_concat comp_def
        sum_list_replicate is_mat_iff interv_sum_list_conv_sum_set_nat)

lemma latent_posteriors_Full_run:
  assumes sc: "split_counts data0 = Inr (stats, counts)"
    and N: "length data0 = N" "0 < N" and D: "0 < D" and K: "0 < K"
    and mm: "normal_moments api (mean_posterior self) = (m, mm)"
    and WW: "matrixnormal_moments api (subspace_posterior self) = (W, WW)"
    and U: "matrixnormal_cov api (subspace_posterior self) = U"
    and n0: "prior_natural_parameters api (latent_prior self) = nparams_0"
    and opt: "argmax (llh_func self) stats counts = opt"
    and hess: "hessian_full (llh_func self) opt stats counts = hessians"
    and shapes: "is_mat N D opt" "is_ten3 N D D hessians" "length m = D" "is_mat K D W"
      "is_mat K K U" "length nparams_0 = K + K * K"
  shows "\<exists>WHW. latent_posteriors_Full api self data0 cache_flag =
     finish_latent_posteriors api cache_flag
       (map (\<lambda>n. map2 (+) nparams_0
                  (latent_linear_term (hessians ! n) (opt ! n) m W
                   @ latent_quadratic_term (hessians ! n) W U)) [0..<N])
       U opt (T3 hessians) (map (\<lambda>n. \<Sum>j<D. hessians ! n ! j ! j) [0..<N])
       m mm W WW stats counts WHW"
proof -
  define h where "h n a b = hessians ! n ! a ! b" for n a b
  define ot where "ot n j = opt ! n ! j" for n j
  define mf where "mf j = m ! j" for j
  define w where "w k j = W ! k ! j" for k j
  define u where "u k k' = U ! k ! k'" for k k'
  define tr where "tr n = (\<Sum>j<D. h n j j)" for n
  define g where "g n a = (\<Sum>j<D. h n a j * (ot n j - mf j))" for n a
  define q where "q n k k' = tr n * u k k' + (\<Sum>j<D. (\<Sum>a<D. w k a * h n a j) * w k' j)" for n k k'
  define acc where
    "acc n = map (\<lambda>k. \<Sum>j<D. - g n j * w k j) [0..<K]
             @ map ((*) 0.5) (concat (map (\<lambda>k. map (q n k) [0..<K]) [0..<K]))" for n
  have he: "hessians = map (\<lambda>n. map (\<lambda>a. map (h n a) [0..<D]) [0..<D]) [0..<N]"
    unfolding h_def by (rule ten3_expand [OF shapes(2)])
  have oe: "opt = map (\<lambda>n. map (ot n) [0..<D]) [0..<N]"
    unfolding ot_def by (rule mat_expand [OF shapes(1)])
  have me: "m = map mf [0..<D]"
    unfolding mf_def by (rule vec_expand [OF shapes(3)])
  have We: "W = map (\<lambda>k. map (w k) [0..<D]) [0..<K]"
    unfolding w_def by (rule mat_expand [OF shapes(4)])
  have Ue: "U = map (\<lambda>k. map (u k) [0..<K]) [0..<K]"
    unfolding u_def by (rule mat_expand [OF shapes(5)])
  have lh: "length hessians = N" using shapes(2) by (simp add: is_ten3_iff)
  have tra: "trace_array hessians = Inr (map tr [0..<N])"
    unfolding tr_def by (subst he) (rule trace_array_form [OF N(2)])
  have whw: "tadd3 (tmul3 (unsq_last2 (map tr [0..<N])) [U])
              (matmul_32 (matmul_23 W hessians) (transpose W))
      = map (\<lambda>n. map (\<lambda>k. map (q n k) [0..<K]) [0..<K]) [0..<N]"
    unfolding q_def by (subst Ue, subst he, subst (1 2) We) (rule WHW_form [OF D K])
  have hmo: "sum_last3 (tmul3 hessians (unsq_mid (tsub2 opt [m])))
      = map (\<lambda>n. map (g n) [0..<D]) [0..<N]"
    unfolding g_def by (subst he, subst oe, subst me) (rule Hm_o_form)
  have lin: "matmul (neg2 (map (\<lambda>n. map (g n) [0..<D]) [0..<N])) (transpose W)
      = map (\<lambda>n. map (\<lambda>k. \<Sum>j<D. - g n j * w k j) [0..<K]) [0..<N]"
    by (subst We) (rule acc_linear_form [OF D])
  have accs: "cat_last (matmul (neg2 (map (\<lambda>n. map (g n) [0..<D]) [0..<N])) (transpose W))
        (smul2 0.5 (map concat (map (\<lambda>n. map (\<lambda>k. map (q n k) [0..<K]) [0..<K]) [0..<N])))
      = map acc [0..<N]"
    unfolding lin acc_def by (simp add: smul2_def comp_def)
  have asg: "assign_natural_parameters nparams_0 (map acc [0..<N])
               (enumerate 0 (create_latent_posteriors api self N))
      = Inr (map (\<lambda>n. tadd1 nparams_0 (acc n)) [0..<N])"
    using assign_natural_parameters_eq
            [of 0 "create_latent_posteriors api self N" "map acc [0..<N]" nparams_0]
    by (simp add: create_latent_posteriors_def cong: map_cong)
  have rs: "reshape_rows N X = Inr (map concat X)" for X
    using N(2) by (simp add: reshape_rows_def)
  have lin_n: "map (\<lambda>k. \<Sum>j<D. - g n j * w k j) [0..<K]
       = latent_linear_term (hessians ! n) (opt ! n) m W" for n
    using shapes(3,4)
    by (simp add: latent_linear_term_def g_def h_def ot_def mf_def w_def is_mat_iff
          sum_negf)
  have q_n: "q n k k' =
      (\<Sum>j<D. hessians ! n ! j ! j) * U ! k ! k'
      + (\<Sum>a<D. \<Sum>j<D. W ! k ! a * hessians ! n ! a ! j * W ! k' ! j)" for n k k'
  proof -
    have "(\<Sum>j<D. (\<Sum>a<D. w k a * h n a j) * w k' j)
        = (\<Sum>j<D. \<Sum>a<D. w k a * h n a j * w k' j)"
      by (simp add: sum_distrib_right)
    also have "\<dots> = (\<Sum>a<D. \<Sum>j<D. w k a * h n a j * w k' j)"
      by (rule sum.swap)
    finally show ?thesis
      by (simp add: q_def tr_def h_def u_def w_def)
  qed
  have quad_n: "map ((*) 0.5) (concat (map (\<lambda>k. map (q n k) [0..<K]) [0..<K]))
       = latent_quadratic_term (hessians ! n) W U" if "n < N" for n
  proof -
    have "length (hessians ! n) = D"
      using shapes(2) that by (simp add: is_ten3_iff is_mat_iff)
    then show ?thesis
      using shapes(4)
      by (simp add: latent_quadratic_term_def map_concat comp_def q_n is_mat_iff)
  qed
  have "tadd1 nparams_0 (acc n) = map2 (+) nparams_0
          (latent_linear_term (hessians ! n) (opt ! n) m W
           @ latent_quadratic_term (hessians ! n) W U)" if "n < N" for n
  proof -
    have "acc n = latent_linear_term (hessians ! n) (opt ! n) m W
                  @ latent_quadratic_term (hessians ! n) W U"
      unfolding acc_def lin_n quad_n [OF that] ..
    then show ?thesis
      using shapes(6) latent_terms_length [OF shapes(4)]
      by (simp add: tadd1_def bc_same)
  qed
  then have posts: "map (\<lambda>n. tadd1 nparams_0 (acc n)) [0..<N]
      = map (\<lambda>n. map2 (+) nparams_0
                  (latent_linear_term (hessians ! n) (opt ! n) m W
                   @ latent_quadratic_term (hessians ! n) W U)) [0..<N]"
    by simp
  have trs: "map tr [0..<N] = map (\<lambda>n. \<Sum>j<D. hessians ! n ! j ! j) [0..<N]"
    by (simp add: tr_def h_def)
  show ?thesis
    unfolding latent_posteriors_Full_def sc bind_Inr prod.case Let_def extract_moments_def
      mm WW U n0 opt hess N(1) tra lh whw rs hmo accs asg
    unfolding posts trs
    by blast
qed

lemma example_model_fields:
  "llh_func example_model = example_llh"
  "mean_posterior example_model = NormalFullCovariancePrior [0, 0] [[1, 0], [0, 1]]"
  "subspace_posterior example_model = MatrixNormalPrior [[1, 0], [0, 1]] [[1, 0], [0, 1]]"
  "latent_prior example_model = NormalFullCovariancePrior [0, 0] [[1, 0], [0, 1]]"
  "cache example_model = Map.empty"
  by (simp_all add: example_model_def eye_def zeros_def upt_rec numeral_2_eq_2)

lemma sum_delta_left:
  "a < D \<Longrightarrow> (\<Sum>j<D. (if a = j then c else 0) * x j) = c * x a" for c :: real and D :: nat
proof -
  assume a: "a < D"
  have "(\<Sum>j<D. (if a = j then c else 0) * x j) = (\<Sum>j<D. if j = a then c * x j else 0)"
    by (intro sum.cong) auto
  also have "\<dots> = c * x a" using a by (simp add: sum.delta)
  finally show ?thesis .
qed

lemma sum_delta_right:
  "a < D \<Longrightarrow> (\<Sum>j<D. y j * (if j = a then c else 0) * x j) = y a * c * x a"
  for c :: real and D :: nat
proof -
  assume a: "a < D"
  have "(\<Sum>j<D. y j * (if j = a then c else 0) * x j) = (\<Sum>j<D. if j = a then y j * c * x j else 0)"
    by (intro sum.cong) auto
  also have "\<dots> = y a * c * x a" using a by (simp add: sum.delta)
  finally show ?thesis .
qed

lemma full_of_diagonal_nth:
  "a < length d \<Longrightarrow> b < length d \<Longrightarrow> full_of_diagonal d ! a ! b = (if a = b then d ! a else 0)"
  by (simp add: full_of_diagonal_def)

lemma length_full_of_diagonal: "length (full_of_diagonal d) = length d"
  by (simp add: full_of_diagonal_def)

lemma latent_linear_term_diagonal:
  assumes "length d = D" "length m = D"
  shows "latent_linear_term (full_of_diagonal d) o1 m W =
     map (\<lambda>k. - (\<Sum>j<D. d ! j * (o1 ! j - m ! j) * W ! k ! j)) [0..<length W]"
proof -
  have "(\<Sum>j'<D. full_of_diagonal d ! j ! j' * (o1 ! j' - m ! j')) = d ! j * (o1 ! j - m ! j)"
    if "j < D" for j
  proof -
    have "(\<Sum>j'<D. full_of_diagonal d ! j ! j' * (o1 ! j' - m ! j'))
        = (\<Sum>j'<D. (if j = j' then d ! j else 0) * (o1 ! j' - m ! j'))"
      using that assms(1) by (intro sum.cong) (simp_all add: full_of_diagonal_nth)
    then show ?thesis using that by (simp add: sum_delta_left)
  qed
  then show ?thesis
    unfolding latent_linear_term_def assms(2) by simp
qed

lemma latent_quadratic_term_diagonal:
  assumes "length d = D"
  shows "latent_quadratic_term (full_of_diagonal d) W U =
     concat (map (\<lambda>k. map (\<lambda>k'.
         0.5 * ((\<Sum>j<D. d ! j) * U ! k ! k' + (\<Sum>j<D. W ! k ! j * d ! j * W ! k' ! j)))
       [0..<length W]) [0..<length W])"
proof -
  have t: "(\<Sum>j<D. full_of_diagonal d ! j ! j) = (\<Sum>j<D. d ! j)"
    using assms by (intro sum.cong) (simp_all add: full_of_diagonal_nth)
  have q: "(\<Sum>i<D. \<Sum>j<D. W ! k ! i * full_of_diagonal d ! i ! j * W ! k' ! j)
         = (\<Sum>j<D. W ! k ! j * d ! j * W ! k' ! j)" for k k'
  proof (intro sum.cong refl)
    fix i assume "i \<in> {..<D}"
    then have i: "i < D" by simp
    have "(\<Sum>j<D. W ! k ! i * full_of_diagonal d ! i ! j * W ! k' ! j)
        = (\<Sum>j<D. W ! k ! i * (if j = i then d ! i else 0) * W ! k' ! j)"
      using i assms by (intro sum.cong) (auto simp: full_of_diagonal_nth)
    also have "\<dots> = W ! k ! i * d ! i * W ! k' ! i"
      using sum_delta_right [OF i, of "\<lambda>_. W ! k ! i" "d ! i" "\<lambda>j. W ! k' ! j"] by simp
    finally show "(\<Sum>j<D. W ! k ! i * full_of_diagonal d ! i ! j * W ! k' ! j)
        = W ! k ! i * d ! i * W ! k' ! i" .
  qed
  show ?thesis
    unfolding latent_quadratic_term_def length_full_of_diagonal assms t q ..
qed

lemma HW_diag_form:
  assumes "0 < D"
  shows "matmul_32 (tmul3 (unsq_mid (map (\<lambda>n. map (d n) [0..<D]) [0..<N]))
                      [map (\<lambda>k. map (w k) [0..<D]) [0..<K]])
           (transpose (map (\<lambda>k. map (w k) [0..<D]) [0..<K]))
     = map (\<lambda>n. map (\<lambda>k. map (\<lambda>k'. \<Sum>j<D. d n j * w k j * w k' j) [0..<K]) [0..<K]) [0..<N]"
proof -
  have W: "is_mat K D (map (\<lambda>k. map (w k) [0..<D]) [0..<K])"
    by (simp add: is_mat_iff)
  show ?thesis
    by (simp add: matmul_32_def tmul3_def unsq_mid_def matmul_transpose [OF W assms] comp_def)
qed

lemma HW_scalar_form:
  assumes "0 < D"
  shows "matmul_32 (tmul3 (unsq_last2 (map s [0..<N]))
                      [map (\<lambda>k. map (w k) [0..<D]) [0..<K]])
           (transpose (map (\<lambda>k. map (w k) [0..<D]) [0..<K]))
     = map (\<lambda>n. map (\<lambda>k. map (\<lambda>k'. \<Sum>j<D. s n * w k j * w k' j) [0..<K]) [0..<K]) [0..<N]"
proof -
  have W: "is_mat K D (map (\<lambda>k. map (w k) [0..<D]) [0..<K])"
    by (simp add: is_mat_iff)
  show ?thesis
    by (simp add: matmul_32_def tmul3_def unsq_last2_def matmul_transpose [OF W assms] comp_def)
qed

lemma trU_form:
  "tmul3 (unsq_last2 (map tr [0..<N])) [map (\<lambda>k. map (u k) [0..<K]) [0..<K]]
     = map (\<lambda>n. map (\<lambda>k. map (\<lambda>k'. tr n * u k k') [0..<K]) [0..<K]) [0..<N]"
  by (simp add: tmul3_def unsq_last2_def comp_def)

lemma tadd3_form:
  "tadd3 (map (\<lambda>n. map (\<lambda>k. map (f n k) [0..<K]) [0..<K]) [0..<N])
         (map (\<lambda>n. map (\<lambda>k. map (g n k) [0..<K]) [0..<K]) [0..<N])
     = map (\<lambda>n. map (\<lambda>k. map (\<lambda>k'. f n k k' + g n k k') [0..<K]) [0..<K]) [0..<N]"
  by (simp add: tadd3_def)

lemma Hm_o_diag_form:
  "tmul2 (map (\<lambda>n. map (d n) [0..<D]) [0..<N])
         (tsub2 (map (\<lambda>n. map (ot n) [0..<D]) [0..<N]) [map mf [0..<D]])
     = map (\<lambda>n. map (\<lambda>j. d n j * (ot n j - mf j)) [0..<D]) [0..<N]"
  by (simp add: tmul2_def tsub2_def)

lemma Hm_o_scalar_form:
  "tmul2 (unsq_last (map s [0..<N]))
         (tsub2 (map (\<lambda>n. map (ot n) [0..<D]) [0..<N]) [map mf [0..<D]])
     = map (\<lambda>n. map (\<lambda>j. s n * (ot n j - mf j)) [0..<D]) [0..<N]"
  by (simp add: tmul2_def tsub2_def unsq_last_def comp_def)

lemma sum_diagonal_of_scalar: "(\<Sum>j<D. diagonal_of_scalar D s ! j) = real D * s"
proof -
  have "(\<Sum>j<D. diagonal_of_scalar D s ! j) = (\<Sum>j<D. s)"
    by (intro sum.cong) (simp_all add: diagonal_of_scalar_def)
  then show ?thesis by simp
qed

lemma latent_posteriors_Diagonal_run:
  assumes sc: "split_counts data0 = Inr (stats, counts)"
    and N: "length data0 = N" "0 < N" and D: "0 < D" and K: "0 < K"
    and mm: "normal_moments api (mean_posterior self) = (m, mm)"
    and WW: "matrixnormal_moments api (subspace_posterior self) = (W, WW)"
    and U: "matrixnormal_cov api (subspace_posterior self) = U"
    and n0: "prior_natural_parameters api (latent_prior self) = nparams_0"
    and opt: "argmax (llh_func self) stats counts = opt"
    and hess: "hessian_diagonal (llh_func self) opt stats counts = hdiag"
    and shapes: "is_mat N D opt" "is_mat N D hdiag" "length m = D" "is_mat K D W"
      "is_mat K K U" "length nparams_0 = K + K * K"
  shows "\<exists>WHW. latent_posteriors_Diagonal api self data0 cache_flag =
     finish_latent_posteriors api cache_flag
       (map (\<lambda>n. map2 (+) nparams_0
                  (latent_linear_term (full_of_diagonal (hdiag ! n)) (opt ! n) m W
                   @ latent_quadratic_term (full_of_diagonal (hdiag ! n)) W U)) [0..<N])
       U opt (T2 hdiag) (map (\<lambda>n. \<Sum>j<D. hdiag ! n ! j) [0..<N])
       m mm W WW stats counts WHW"
proof -
  define d where "d n j = hdiag ! n ! j" for n j
  define ot where "ot n j = opt ! n ! j" for n j
  define mf where "mf j = m ! j" for j
  define w where "w k j = W ! k ! j" for k j
  define u where "u k k' = U ! k ! k'" for k k'
  define tr where "tr n = (\<Sum>j<D. d n j)" for n
  define g where "g n j = d n j * (ot n j - mf j)" for n j
  define q where "q n k k' = tr n * u k k' + (\<Sum>j<D. d n j * w k j * w k' j)" for n k k'
  define acc where
    "acc n = map (\<lambda>k. \<Sum>j<D. - g n j * w k j) [0..<K]
             @ map ((*) 0.5) (concat (map (\<lambda>k. map (q n k) [0..<K]) [0..<K]))" for n
  have he: "hdiag = map (\<lambda>n. map (d n) [0..<D]) [0..<N]"
    unfolding d_def by (rule mat_expand [OF shapes(2)])
  have oe: "opt = map (\<lambda>n. map (ot n) [0..<D]) [0..<N]"
    unfolding ot_def by (rule mat_expand [OF shapes(1)])
  have me: "m = map mf [0..<D]"
    unfolding mf_def by (rule vec_expand [OF shapes(3)])
  have We: "W = map (\<lambda>k. map (w k) [0..<D]) [0..<K]"
    unfolding w_def by (rule mat_expand [OF shapes(4)])
  have Ue: "U = map (\<lambda>k. map (u k) [0..<K]) [0..<K]"
    unfolding u_def by (rule mat_expand [OF shapes(5)])
  have lh: "length hdiag = N" using shapes(2) by (simp add: is_mat_iff)
  have tra: "sum_last2 hdiag = map tr [0..<N]"
    unfolding tr_def by (subst he) (simp add: sum_last2_def)
  have hw: "matmul_32 (tmul3 (unsq_mid hdiag) [W]) (transpose W)
      = map (\<lambda>n. map (\<lambda>k. map (\<lambda>k'. \<Sum>j<D. d n j * w k j * w k' j) [0..<K]) [0..<K]) [0..<N]"
    by (subst he, subst (1 2) We) (rule HW_diag_form [OF D])
  have tu: "tmul3 (unsq_last2 (map tr [0..<N])) [U]
      = map (\<lambda>n. map (\<lambda>k. map (\<lambda>k'. tr n * u k k') [0..<K]) [0..<K]) [0..<N]"
    by (subst Ue) (rule trU_form)
  have whw: "tadd3 (tmul3 (unsq_last2 (map tr [0..<N])) [U]) (matmul_32 (tmul3 (unsq_mid hdiag) [W]) (transpose W))
      = map (\<lambda>n. map (\<lambda>k. map (q n k) [0..<K]) [0..<K]) [0..<N]"
    unfolding tu hw tadd3_form q_def ..
  have hmo: "tmul2 hdiag (tsub2 opt [m]) = map (\<lambda>n. map (g n) [0..<D]) [0..<N]"
    unfolding g_def by (subst he, subst oe, subst me) (rule Hm_o_diag_form)
  have lin: "matmul (neg2 (map (\<lambda>n. map (g n) [0..<D]) [0..<N])) (transpose W)
      = map (\<lambda>n. map (\<lambda>k. \<Sum>j<D. - g n j * w k j) [0..<K]) [0..<N]"
    by (subst We) (rule acc_linear_form [OF D])
  have accs: "cat_last (matmul (neg2 (map (\<lambda>n. map (g n) [0..<D]) [0..<N])) (transpose W))
        (smul2 0.5 (map concat (map (\<lambda>n. map (\<lambda>k. map (q n k) [0..<K]) [0..<K]) [0..<N])))
      = map acc [0..<N]"
    unfolding lin acc_def by (simp add: smul2_def comp_def)
  have asg: "assign_natural_parameters nparams_0 (map acc [0..<N])
               (enumerate 0 (create_latent_posteriors api self N))
      = Inr (map (\<lambda>n. tadd1 nparams_0 (acc n)) [0..<N])"
    using assign_natural_parameters_eq
            [of 0 "create_latent_posteriors api self N" "map acc [0..<N]" nparams_0]
    by (simp add: create_latent_posteriors_def cong: map_cong)
  have rs: "reshape_rows N X = Inr (map concat X)" for X
    using N(2) by (simp add: reshape_rows_def)
  have dl: "length (hdiag ! n) = D" if "n < N" for n
    using shapes(2) that by (simp add: is_mat_iff)
  have dn: "(hdiag ! n) ! j = d n j" for n j
    by (simp add: d_def)
  have lW: "length W = K" using shapes(4) by (simp add: is_mat_iff)
  have lin_n: "map (\<lambda>k. \<Sum>j<D. - g n j * w k j) [0..<K]
       = latent_linear_term (full_of_diagonal (hdiag ! n)) (opt ! n) m W" if "n < N" for n
  proof -
    have "(\<Sum>j<D. - g n j * w k j)
        = - (\<Sum>j<D. (hdiag ! n) ! j * (opt ! n ! j - m ! j) * W ! k ! j)" for k
      unfolding sum_negf [symmetric]
      by (intro sum.cong refl) (simp add: g_def ot_def mf_def w_def dn)
    then show ?thesis
      unfolding latent_linear_term_diagonal [OF dl [OF that] shapes(3)] lW by simp
  qed
  have quad_n: "map ((*) 0.5) (concat (map (\<lambda>k. map (q n k) [0..<K]) [0..<K]))
       = latent_quadratic_term (full_of_diagonal (hdiag ! n)) W U" if "n < N" for n
  proof -
    have "q n k k' = (\<Sum>j<D. (hdiag ! n) ! j) * U ! k ! k'
           + (\<Sum>j<D. W ! k ! j * (hdiag ! n) ! j * W ! k' ! j)" for k k'
    proof -
      have "(\<Sum>j<D. (hdiag ! n) ! j) = tr n"
        by (simp add: tr_def dn  cong: sum.cong)
      moreover have "(\<Sum>j<D. W ! k ! j * (hdiag ! n) ! j * W ! k' ! j)
           = (\<Sum>j<D. d n j * w k j * w k' j)"
        by (intro sum.cong) (simp_all add: dn w_def)
      ultimately show ?thesis by (simp add: q_def u_def)
    qed
    then show ?thesis
      unfolding latent_quadratic_term_diagonal [OF dl [OF that]] lW
      by (simp add: map_concat comp_def)
  qed
  have "tadd1 nparams_0 (acc n) = map2 (+) nparams_0
          (latent_linear_term (full_of_diagonal (hdiag ! n)) (opt ! n) m W
           @ latent_quadratic_term (full_of_diagonal (hdiag ! n)) W U)" if "n < N" for n
  proof -
    have "acc n = latent_linear_term (full_of_diagonal (hdiag ! n)) (opt ! n) m W
                  @ latent_quadratic_term (full_of_diagonal (hdiag ! n)) W U"
      unfolding acc_def lin_n [OF that] quad_n [OF that] ..
    then show ?thesis
      using shapes(6) latent_terms_length [OF shapes(4)]
      by (simp add: tadd1_def bc_same)
  qed
  then have posts: "map (\<lambda>n. tadd1 nparams_0 (acc n)) [0..<N]
      = map (\<lambda>n. map2 (+) nparams_0
                  (latent_linear_term (full_of_diagonal (hdiag ! n)) (opt ! n) m W
                   @ latent_quadratic_term (full_of_diagonal (hdiag ! n)) W U)) [0..<N]"
    by simp
  have trs: "map tr [0..<N] = map (\<lambda>n. \<Sum>j<D. hdiag ! n ! j) [0..<N]"
    by (simp add: tr_def d_def)
  show ?thesis
    unfolding latent_posteriors_Diagonal_def sc bind_Inr prod.case Let_def extract_moments_def
      mm WW U n0 opt hess N(1) tra lh whw rs hmo accs asg
    unfolding posts trs
    by blast
qed

lemma latent_posteriors_Scalar_run:
  assumes sc: "split_counts data0 = Inr (stats, counts)"
    and N: "length data0 = N" "0 < N" and D: "0 < D" and K: "0 < K"
    and mm: "normal_moments api (mean_posterior self) = (m, mm)"
    and WW: "matrixnormal_moments api (subspace_posterior self) = (W, WW)"
    and U: "matrixnormal_cov api (subspace_posterior self) = U"
    and n0: "prior_natural_parameters api (latent_prior self) = nparams_0"
    and opt: "argmax (llh_func self) stats counts = opt"
    and hess: "hessian_scalar (llh_func self) opt stats counts = hscal"
    and shapes: "is_mat N D opt" "length hscal = N" "length m = D" "is_mat K D W"
      "is_mat K K U" "length nparams_0 = K + K * K"
  shows "\<exists>WHW. latent_posteriors_Scalar api self data0 cache_flag =
     finish_latent_posteriors api cache_flag
       (map (\<lambda>n. map2 (+) nparams_0
                  (latent_linear_term (full_of_diagonal (diagonal_of_scalar D (hscal ! n))) (opt ! n) m W
                   @ latent_quadratic_term (full_of_diagonal (diagonal_of_scalar D (hscal ! n))) W U)) [0..<N])
       U opt (T1 hscal) (map (\<lambda>n. \<Sum>j<D. diagonal_of_scalar D (hscal ! n) ! j) [0..<N])
       m mm W WW stats counts WHW"
proof -
  define d where "d n j = hscal ! n" for n and j :: nat
  define ot where "ot n j = opt ! n ! j" for n j
  define mf where "mf j = m ! j" for j
  define w where "w k j = W ! k ! j" for k j
  define u where "u k k' = U ! k ! k'" for k k'
  define tr where "tr n = real D * hscal ! n" for n
  define g where "g n j = d n j * (ot n j - mf j)" for n j
  define q where "q n k k' = tr n * u k k' + (\<Sum>j<D. d n j * w k j * w k' j)" for n k k'
  define acc where
    "acc n = map (\<lambda>k. \<Sum>j<D. - g n j * w k j) [0..<K]
             @ map ((*) 0.5) (concat (map (\<lambda>k. map (q n k) [0..<K]) [0..<K]))" for n
  have he: "hscal = map (\<lambda>n. hscal ! n) [0..<N]"
    by (rule vec_expand [OF shapes(2)])
  have oe: "opt = map (\<lambda>n. map (ot n) [0..<D]) [0..<N]"
    unfolding ot_def by (rule mat_expand [OF shapes(1)])
  have me: "m = map mf [0..<D]"
    unfolding mf_def by (rule vec_expand [OF shapes(3)])
  have We: "W = map (\<lambda>k. map (w k) [0..<D]) [0..<K]"
    unfolding w_def by (rule mat_expand [OF shapes(4)])
  have Ue: "U = map (\<lambda>k. map (u k) [0..<K]) [0..<K]"
    unfolding u_def by (rule mat_expand [OF shapes(5)])
  have lh: "length hscal = N" by (rule shapes(2))
  have tra: "smul1 (real (length m)) hscal = map tr [0..<N]"
    unfolding tr_def shapes(3) by (subst he) (simp add: smul1_def)
  have hw: "matmul_32 (tmul3 (unsq_last2 hscal) [W]) (transpose W)
      = map (\<lambda>n. map (\<lambda>k. map (\<lambda>k'. \<Sum>j<D. d n j * w k j * w k' j) [0..<K]) [0..<K]) [0..<N]"
    unfolding d_def by (subst he, subst (1 2) We) (rule HW_scalar_form [OF D])
  have tu: "tmul3 (unsq_last2 (map tr [0..<N])) [U]
      = map (\<lambda>n. map (\<lambda>k. map (\<lambda>k'. tr n * u k k') [0..<K]) [0..<K]) [0..<N]"
    by (subst Ue) (rule trU_form)
  have whw: "tadd3 (tmul3 (unsq_last2 (map tr [0..<N])) [U]) (matmul_32 (tmul3 (unsq_last2 hscal) [W]) (transpose W))
      = map (\<lambda>n. map (\<lambda>k. map (q n k) [0..<K]) [0..<K]) [0..<N]"
    unfolding tu hw tadd3_form q_def ..
  have hmo: "tmul2 (unsq_last hscal) (tsub2 opt [m]) = map (\<lambda>n. map (g n) [0..<D]) [0..<N]"
    unfolding g_def d_def by (subst he, subst oe, subst me) (rule Hm_o_scalar_form)
  have lin: "matmul (neg2 (map (\<lambda>n. map (g n) [0..<D]) [0..<N])) (transpose W)
      = map (\<lambda>n. map (\<lambda>k. \<Sum>j<D. - g n j * w k j) [0..<K]) [0..<N]"
    by (subst We) (rule acc_linear_form [OF D])
  have accs: "cat_last (matmul (neg2 (map (\<lambda>n. map (g n) [0..<D]) [0..<N])) (transpose W))
        (smul2 0.5 (map concat (map (\<lambda>n. map (\<lambda>k. map (q n k) [0..<K]) [0..<K]) [0..<N])))
      = map acc [0..<N]"
    unfolding lin acc_def by (simp add: smul2_def comp_def)
  have asg: "assign_natural_parameters nparams_0 (map acc [0..<N])
               (enumerate 0 (create_latent_posteriors api self N))
      = Inr (map (\<lambda>n. tadd1 nparams_0 (acc n)) [0..<N])"
    using assign_natural_parameters_eq
            [of 0 "create_latent_posteriors api self N" "map acc [0..<N]" nparams_0]
    by (simp add: create_latent_posteriors_def cong: map_cong)
  have rs: "reshape_rows N X = Inr (map concat X)" for X
    using N(2) by (simp add: reshape_rows_def)
  have dl: "length (diagonal_of_scalar D (hscal ! n)) = D" if "n < N" for n
    by (simp add: diagonal_of_scalar_def)
  have dn: "j < D \<Longrightarrow> diagonal_of_scalar D (hscal ! n) ! j = d n j" for n j
    by (simp add: d_def diagonal_of_scalar_def)
  have lW: "length W = K" using shapes(4) by (simp add: is_mat_iff)
  have lin_n: "map (\<lambda>k. \<Sum>j<D. - g n j * w k j) [0..<K]
       = latent_linear_term (full_of_diagonal (diagonal_of_scalar D (hscal ! n))) (opt ! n) m W" if "n < N" for n
  proof -
    have "(\<Sum>j<D. - g n j * w k j)
        = - (\<Sum>j<D. (diagonal_of_scalar D (hscal ! n)) ! j * (opt ! n ! j - m ! j) * W ! k ! j)" for k
      unfolding sum_negf [symmetric]
      by (intro sum.cong refl) (simp add: g_def ot_def mf_def w_def dn)
    then show ?thesis
      unfolding latent_linear_term_diagonal [OF dl [OF that] shapes(3)] lW by simp
  qed
  have quad_n: "map ((*) 0.5) (concat (map (\<lambda>k. map (q n k) [0..<K]) [0..<K]))
       = latent_quadratic_term (full_of_diagonal (diagonal_of_scalar D (hscal ! n))) W U" if "n < N" for n
  proof -
    have "q n k k' = (\<Sum>j<D. (diagonal_of_scalar D (hscal ! n)) ! j) * U ! k ! k'
           + (\<Sum>j<D. W ! k ! j * (diagonal_of_scalar D (hscal ! n)) ! j * W ! k' ! j)" for k k'
    proof -
      have "(\<Sum>j<D. (diagonal_of_scalar D (hscal ! n)) ! j) = tr n"
        by (simp add: tr_def sum_diagonal_of_scalar)
      moreover have "(\<Sum>j<D. W ! k ! j * (diagonal_of_scalar D (hscal ! n)) ! j * W ! k' ! j)
           = (\<Sum>j<D. d n j * w k j * w k' j)"
        by (intro sum.cong) (simp_all add: dn w_def)
      ultimately show ?thesis by (simp add: q_def u_def)
    qed
    then show ?thesis
      unfolding latent_quadratic_term_diagonal [OF dl [OF that]] lW
      by (simp add: map_concat comp_def)
  qed
  have "tadd1 nparams_0 (acc n) = map2 (+) nparams_0
          (latent_linear_term (full_of_diagonal (diagonal_of_scalar D (hscal ! n))) (opt ! n) m W
           @ latent_quadratic_term (full_of_diagonal (diagonal_of_scalar D (hscal ! n))) W U)" if "n < N" for n
  proof -
    have "acc n = latent_linear_term (full_of_diagonal (diagonal_of_scalar D (hscal ! n))) (opt ! n) m W
                  @ latent_quadratic_term (full_of_diagonal (diagonal_of_scalar D (hscal ! n))) W U"
      unfolding acc_def lin_n [OF that] quad_n [OF that] ..
    then show ?thesis
      using shapes(6) latent_terms_length [OF shapes(4)]
      by (simp add: tadd1_def bc_same)
  qed
  then have posts: "map (\<lambda>n. tadd1 nparams_0 (acc n)) [0..<N]
      = map (\<lambda>n. map2 (+) nparams_0
                  (latent_linear_term (full_of_diagonal (diagonal_of_scalar D (hscal ! n))) (opt ! n) m W
                   @ latent_quadratic_term (full_of_diagonal (diagonal_of_scalar D (hscal ! n))) W U)) [0..<N]"
    by simp
  have trs: "map tr [0..<N] = map (\<lambda>n. \<Sum>j<D. diagonal_of_scalar D (hscal ! n) ! j) [0..<N]"
    by (simp add: tr_def sum_diagonal_of_scalar)
  show ?thesis
    unfolding latent_posteriors_Scalar_def sc bind_Inr prod.case Let_def extract_moments_def
      mm WW U n0 opt hess N(1) tra lh whw rs hmo accs asg
    unfolding posts trs
    by blast
qed

lemma sum_first2_form:
  assumes "0 < N"
  shows "sum_first2 (map (\<lambda>n. map (F n) [0..<D]) [0..<N]) = map (\<lambda>j. \<Sum>n<N. F n j) [0..<D]"
  unfolding sum_first2_def transpose_map_upt [OF assms] by (simp add: comp_def)

lemma sum_first3_form:
  assumes "0 < N"
  shows "sum_first3 (map (\<lambda>n. map (\<lambda>a. map (F n a) [0..<C]) [0..<R]) [0..<N])
     = map (\<lambda>a. map (\<lambda>b. \<Sum>n<N. F n a b) [0..<C]) [0..<R]"
  unfolding sum_first3_def transpose_map_upt [OF assms]
  by (simp add: comp_def sum_first2_form [OF assms])

lemma finish_latent_posteriors_True:
  assumes "l_posts \<noteq> []"
  shows "finish_latent_posteriors api True l_posts U opt hessians tr_hessians m mm W WW
           stats counts WHW =
     Inr (l_posts,
       Some [''U'' \<mapsto> T2 U, ''opt'' \<mapsto> T2 opt, ''hessians'' \<mapsto> hessians,
             ''tr_hessians'' \<mapsto> T1 tr_hessians, ''m'' \<mapsto> T1 m, ''mm'' \<mapsto> T1 mm,
             ''W'' \<mapsto> T2 W, ''WW'' \<mapsto> WW,
             ''H'' \<mapsto> T2 (map (\<lambda>pdf. fst (latent_moments api pdf)) l_posts),
             ''HH'' \<mapsto> T2 (map (\<lambda>pdf. snd (latent_moments api pdf)) l_posts),
             ''stats'' \<mapsto> T2 stats, ''counts'' \<mapsto> T1 counts, ''WHW'' \<mapsto> T2 WHW])"
  using assms by (simp add: finish_latent_posteriors_def Let_def)

lemma finish_latent_posteriors_False:
  "finish_latent_posteriors api False l_posts U opt hessians tr_hessians m mm W WW
     stats counts WHW = Inr (l_posts, None)"
  by (simp add: finish_latent_posteriors_def)

lemma quad_approx_Full_run:
  assumes "c ''opt'' = Some (T2 opt)" "c ''hessians'' = Some (T3 hessians)"
    "c ''m'' = Some (T1 m)" "c ''mm'' = Some (T1 mm)" "c ''W'' = Some (T2 W)"
    "c ''WW'' = Some WW" "c ''U'' = Some (T2 U)" "c ''WHW'' = Some (T2 WHW)"
    "c ''H'' = Some (T2 H)" "c ''HH'' = Some (T2 HH)" "c ''stats'' = Some (T2 stats)"
    "c ''counts'' = Some (T1 counts)" "hessians \<noteq> []" "opt \<noteq> []"
  shows "\<exists>val. quad_approx_Full self c = Inr (val, c(''hW'' \<mapsto> T2 (matmul H W)))"
  using assms
  by (simp add: quad_approx_Full_def get_def get1_def get2_def get3_def bind_def
        reshape_rows_def Let_def)

lemma quad_approx_Diagonal_run:
  assumes "c ''opt'' = Some (T2 opt)" "c ''hessians'' = Some (T2 hessians)"
    "c ''m'' = Some (T1 m)" "c ''mm'' = Some (T1 mm)" "c ''W'' = Some (T2 W)"
    "c ''WW'' = Some WW" "c ''U'' = Some (T2 U)" "c ''WHW'' = Some (T2 WHW)"
    "c ''H'' = Some (T2 H)" "c ''HH'' = Some (T2 HH)" "c ''stats'' = Some (T2 stats)"
    "c ''counts'' = Some (T1 counts)"
  shows "\<exists>val. quad_approx_Diagonal self c = Inr (val, c(''hW'' \<mapsto> T2 (matmul H W)))"
  using assms
  by (simp add: quad_approx_Diagonal_def get_def get1_def get2_def bind_def Let_def)

lemma quad_approx_Scalar_run:
  assumes "c ''opt'' = Some (T2 opt)" "c ''hessians'' = Some (T1 hessians)"
    "c ''m'' = Some (T1 m)" "c ''mm'' = Some (T1 mm)" "c ''W'' = Some (T2 W)"
    "c ''WW'' = Some WW" "c ''U'' = Some (T2 U)" "c ''WHW'' = Some (T2 WHW)"
    "c ''H'' = Some (T2 H)" "c ''HH'' = Some (T2 HH)" "c ''stats'' = Some (T2 stats)"
    "c ''counts'' = Some (T1 counts)"
  shows "\<exists>val. quad_approx_Scalar self c = Inr (val, c(''hW'' \<mapsto> T2 (matmul H W)))"
  using assms
  by (simp add: quad_approx_Scalar_def get_def get1_def get2_def bind_def Let_def)

lemma get_Some:
  "c k = Some (T1 v) \<Longrightarrow> get1 c k = Inr v"
  "c k = Some (T2 M) \<Longrightarrow> get2 c k = Inr M"
  "c k = Some (T3 T) \<Longrightarrow> get3 c k = Inr T"
  by (simp_all add: get1_def get2_def get3_def get_def bind_def)

lemma subspace_tail:
  assumes "0 < N" "0 < L" "is_mat N L HH" "length tr = N"
  shows "length (sum_first2 (tmul2 HH (map (map (\<lambda>a. a / c)) (unsq_last tr)))) = L"
proof -
  have HHe: "HH = map (\<lambda>n. map (\<lambda>l. HH ! n ! l) [0..<L]) [0..<N]"
    by (rule mat_expand [OF assms(3)])
  have tre: "tr = map (\<lambda>n. tr ! n) [0..<N]"
    by (rule vec_expand [OF assms(4)])
  have "tmul2 HH (map (map (\<lambda>a. a / c)) (unsq_last tr))
      = map (\<lambda>n. map (\<lambda>l. HH ! n ! l * (tr ! n / c)) [0..<L]) [0..<N]"
    by (subst HHe, subst tre) (simp add: tmul2_def unsq_last_def comp_def)
  then show ?thesis
    by (simp add: sum_first2_form [OF assms(1)])
qed

lemma accumulate_Full_run:
  assumes sc: "split_counts stats = Inr (s', cnt)"
    and keys: "cache self ''hessians'' = Some (T3 hessians)"
      "cache self ''tr_hessians'' = Some (T1 tr)" "cache self ''hW'' = Some (T2 hW)"
      "cache self ''opt'' = Some (T2 opt)" "cache self ''m'' = Some (T1 m)"
      "cache self ''H'' = Some (T2 H)" "cache self ''HH'' = Some (T2 HH)"
    and shapes: "0 < N" "is_ten3 N D D hessians" "is_mat N D opt" "is_mat N D hW"
      "length tr = N" "is_mat N L HH" "0 < L"
  shows "accumulate_Full self stats =
     Inr (mean_linear_term D hessians opt hW @ mean_quadratic_term D hessians,
          isometric_subspace_stats tr opt m H HH)"
proof -
  define h where "h n a b = hessians ! n ! a ! b" for n a b
  define ot where "ot n j = opt ! n ! j" for n j
  define hwf where "hwf n j = hW ! n ! j" for n j
  have he: "hessians = map (\<lambda>n. map (\<lambda>a. map (h n a) [0..<D]) [0..<D]) [0..<N]"
    unfolding h_def by (rule ten3_expand [OF shapes(2)])
  have oe: "opt = map (\<lambda>n. map (ot n) [0..<D]) [0..<N]"
    unfolding ot_def by (rule mat_expand [OF shapes(3)])
  have hwe: "hW = map (\<lambda>n. map (hwf n) [0..<D]) [0..<N]"
    unfolding hwf_def by (rule mat_expand [OF shapes(4)])
  have lh: "length hessians = N" using shapes(2) by (simp add: is_ten3_iff)
  have lin: "neg1 (sum_first2 (sum_last3 (tmul3 hessians (unsq_mid (tsub2 opt hW)))))
      = mean_linear_term D hessians opt hW"
  proof -
    have "sum_last3 (tmul3 hessians (unsq_mid (tsub2 opt hW)))
        = map (\<lambda>n. map (\<lambda>a. \<Sum>j<D. h n a j * (ot n j - hwf n j)) [0..<D]) [0..<N]"
      by (subst he, subst oe, subst hwe)
         (simp add: sum_last3_def tmul3_def unsq_mid_def tsub2_def comp_def)
    then show ?thesis
      by (simp add: sum_first2_form [OF shapes(1)] neg1_def mean_linear_term_def lh
            h_def ot_def hwf_def)
  qed
  have quad: "concat (smul2 0.5 (sum_first3 hessians)) = mean_quadratic_term D hessians"
  proof -
    have "sum_first3 hessians = map (\<lambda>a. map (\<lambda>b. \<Sum>n<N. h n a b) [0..<D]) [0..<D]"
      by (subst he) (rule sum_first3_form [OF shapes(1)])
    then show ?thesis
      by (simp add: smul2_def mean_quadratic_term_def lh h_def comp_def)
  qed
  let ?iso = "map (map (\<lambda>a. a / real (length m))) (unsq_last tr)"
  let ?v = "smul1 0.5 (sum_first2 (tmul2 HH ?iso))"
  have "length ?v = L"
    using subspace_tail [OF shapes(1,7,6,5)] by (simp add: smul1_def)
  then have "?v \<noteq> []" using shapes(7) by auto
  then have col: "reshape_column ?v = Inr (map (\<lambda>a. [a]) ?v)"
    by (simp add: reshape_column_def)
  have cc: "concat (map (\<lambda>a. [a]) ?v) = ?v"
    by (induction ?v) simp_all
  show ?thesis
    unfolding accumulate_Full_def sc bind_Inr prod.case get_Some(3) [where c = "cache self", OF keys(1)]
      get_Some(1) [where c = "cache self", OF keys(2)] get_Some(2) [where c = "cache self", OF keys(3)] get_Some(2) [where c = "cache self", OF keys(4)]
      get_Some(1) [where c = "cache self", OF keys(5)] get_Some(2) [where c = "cache self", OF keys(6)] get_Some(2) [where c = "cache self", OF keys(7)]
      Let_def col lin quad cc isometric_subspace_stats_def
    ..
qed

lemma eye_form: "eye D = map (\<lambda>i. map (\<lambda>j. if i = j then 1 else 0) [0..<D]) [0..<D]"
  by (simp add: eye_def)

lemma mean_terms_diagonal:
  assumes "0 < N" "is_mat N D hdiag"
  shows "mean_linear_term D (map full_of_diagonal hdiag) opt hW
           = map (\<lambda>a. - (\<Sum>n<N. hdiag ! n ! a * (opt ! n ! a - hW ! n ! a))) [0..<D]"
    and "mean_quadratic_term D (map full_of_diagonal hdiag)
           = concat (map (\<lambda>a. map (\<lambda>b. 0.5 * (\<Sum>n<N. if a = b then hdiag ! n ! a else 0))
                [0..<D]) [0..<D])"
proof -
  have l: "length hdiag = N" and r: "\<And>n. n < N \<Longrightarrow> length (hdiag ! n) = D"
    using assms(2) by (simp_all add: is_mat_iff)
  have e: "map full_of_diagonal hdiag ! n ! a ! b = (if a = b then hdiag ! n ! a else 0)"
    if "n < N" "a < D" "b < D" for n a b
    using that l r [OF that(1)] by (simp add: full_of_diagonal_nth)
  have "(\<Sum>n<N. \<Sum>j<D. map full_of_diagonal hdiag ! n ! a ! j * (opt ! n ! j - hW ! n ! j))
      = (\<Sum>n<N. hdiag ! n ! a * (opt ! n ! a - hW ! n ! a))" if "a < D" for a
  proof (intro sum.cong refl)
    fix n assume "n \<in> {..<N}"
    then have n: "n < N" by simp
    have "(\<Sum>j<D. map full_of_diagonal hdiag ! n ! a ! j * (opt ! n ! j - hW ! n ! j))
        = (\<Sum>j<D. (if a = j then hdiag ! n ! a else 0) * (opt ! n ! j - hW ! n ! j))"
      using e [OF n that] by (intro sum.cong) simp_all
    then show "(\<Sum>j<D. map full_of_diagonal hdiag ! n ! a ! j * (opt ! n ! j - hW ! n ! j))
        = hdiag ! n ! a * (opt ! n ! a - hW ! n ! a)"
      using that by (simp add: sum_delta_left)
  qed
  then show "mean_linear_term D (map full_of_diagonal hdiag) opt hW
           = map (\<lambda>a. - (\<Sum>n<N. hdiag ! n ! a * (opt ! n ! a - hW ! n ! a))) [0..<D]"
    unfolding mean_linear_term_def length_map l
    by (intro map_cong refl) simp
  have "(\<Sum>n<N. map full_of_diagonal hdiag ! n ! a ! b)
      = (\<Sum>n<N. if a = b then hdiag ! n ! a else 0)" if "a < D" "b < D" for a b
    using e that by (intro sum.cong) simp_all
  then show "mean_quadratic_term D (map full_of_diagonal hdiag)
           = concat (map (\<lambda>a. map (\<lambda>b. 0.5 * (\<Sum>n<N. if a = b then hdiag ! n ! a else 0))
                [0..<D]) [0..<D])"
    unfolding mean_quadratic_term_def length_map l
    by (intro arg_cong [where f = concat] map_cong refl) simp
qed

lemma accumulate_Diagonal_run:
  assumes sc: "split_counts stats = Inr (s', cnt)"
    and keys: "cache self ''hessians'' = Some (T2 hdiag)"
      "cache self ''tr_hessians'' = Some (T1 tr)" "cache self ''hW'' = Some (T2 hW)"
      "cache self ''opt'' = Some (T2 opt)" "cache self ''m'' = Some (T1 m)"
      "cache self ''H'' = Some (T2 H)" "cache self ''HH'' = Some (T2 HH)"
    and shapes: "0 < N" "is_mat N D hdiag" "is_mat N D opt" "is_mat N D hW" "length m = D"
  shows "accumulate_Diagonal self stats =
     Inr (mean_linear_term D (map full_of_diagonal hdiag) opt hW
          @ mean_quadratic_term D (map full_of_diagonal hdiag),
          isometric_subspace_stats tr opt m H HH)"
proof -
  define d where "d n j = hdiag ! n ! j" for n j
  define ot where "ot n j = opt ! n ! j" for n j
  define hwf where "hwf n j = hW ! n ! j" for n j
  have he: "hdiag = map (\<lambda>n. map (d n) [0..<D]) [0..<N]"
    unfolding d_def by (rule mat_expand [OF shapes(2)])
  have oe: "opt = map (\<lambda>n. map (ot n) [0..<D]) [0..<N]"
    unfolding ot_def by (rule mat_expand [OF shapes(3)])
  have hwe: "hW = map (\<lambda>n. map (hwf n) [0..<D]) [0..<N]"
    unfolding hwf_def by (rule mat_expand [OF shapes(4)])
  have lin: "neg1 (sum_first2 (tmul2 hdiag (tsub2 opt hW)))
      = mean_linear_term D (map full_of_diagonal hdiag) opt hW"
  proof -
    have "tmul2 hdiag (tsub2 opt hW)
        = map (\<lambda>n. map (\<lambda>j. d n j * (ot n j - hwf n j)) [0..<D]) [0..<N]"
      by (subst he, subst oe, subst hwe) (simp add: tmul2_def tsub2_def)
    then show ?thesis
      unfolding mean_terms_diagonal(1) [OF shapes(1,2)]
      by (simp add: sum_first2_form [OF shapes(1)] neg1_def d_def ot_def hwf_def)
  qed
  have quad: "smul1 0.5 (concat (sum_first3 (tmul3 (unsq_mid hdiag) [eye (length m)])))
      = mean_quadratic_term D (map full_of_diagonal hdiag)"
  proof -
    have "tmul3 (unsq_mid hdiag) [eye D]
        = map (\<lambda>n. map (\<lambda>a. map (\<lambda>b. d n b * (if a = b then 1 else 0)) [0..<D]) [0..<D]) [0..<N]"
      by (subst he, subst eye_form) (simp add: tmul3_def unsq_mid_def comp_def)
    then have "sum_first3 (tmul3 (unsq_mid hdiag) [eye D])
        = map (\<lambda>a. map (\<lambda>b. \<Sum>n<N. d n b * (if a = b then 1 else 0)) [0..<D]) [0..<D]"
      by (simp add: sum_first3_form [OF shapes(1)])
    moreover have "(\<Sum>n<N. d n b * (if a = b then 1 else 0))
        = (\<Sum>n<N. if a = b then hdiag ! n ! a else 0)" for a b
      by (intro sum.cong) (simp_all add: d_def)
    ultimately show ?thesis
      unfolding shapes(5) mean_terms_diagonal(2) [OF shapes(1,2)]
      by (simp add: smul1_def map_concat comp_def cong: map_cong)
  qed
  show ?thesis
    unfolding accumulate_Diagonal_def sc bind_Inr prod.case get_Some(2) [where c = "cache self", OF keys(1)]
      get_Some(1) [where c = "cache self", OF keys(2)] get_Some(2) [where c = "cache self", OF keys(3)] get_Some(2) [where c = "cache self", OF keys(4)]
      get_Some(1) [where c = "cache self", OF keys(5)] get_Some(2) [where c = "cache self", OF keys(6)] get_Some(2) [where c = "cache self", OF keys(7)]
      Let_def lin quad isometric_subspace_stats_def
    ..
qed

lemma accumulate_Scalar_run:
  assumes sc: "split_counts stats = Inr (s', cnt)"
    and keys: "cache self ''hessians'' = Some (T1 hscal)"
      "cache self ''tr_hessians'' = Some (T1 tr)" "cache self ''hW'' = Some (T2 hW)"
      "cache self ''opt'' = Some (T2 opt)" "cache self ''m'' = Some (T1 m)"
      "cache self ''H'' = Some (T2 H)" "cache self ''HH'' = Some (T2 HH)"
    and shapes: "0 < N" "length hscal = N" "is_mat N D opt" "is_mat N D hW" "length m = D"
  shows "accumulate_Scalar self stats =
     Inr (mean_linear_term D (map full_of_diagonal (map (diagonal_of_scalar D) hscal)) opt hW
          @ mean_quadratic_term D (map full_of_diagonal (map (diagonal_of_scalar D) hscal)),
          isometric_subspace_stats tr opt m H HH)"
proof -
  let ?hd = "map (diagonal_of_scalar D) hscal"
  define ot where "ot n j = opt ! n ! j" for n j
  define hwf where "hwf n j = hW ! n ! j" for n j
  have hd: "is_mat N D ?hd"
    using shapes(2) by (simp add: is_mat_iff diagonal_of_scalar_def)
  have he: "hscal = map (\<lambda>n. hscal ! n) [0..<N]"
    by (rule vec_expand [OF shapes(2)])
  have oe: "opt = map (\<lambda>n. map (ot n) [0..<D]) [0..<N]"
    unfolding ot_def by (rule mat_expand [OF shapes(3)])
  have hwe: "hW = map (\<lambda>n. map (hwf n) [0..<D]) [0..<N]"
    unfolding hwf_def by (rule mat_expand [OF shapes(4)])
  have dn: "?hd ! n ! j = hscal ! n" if "n < N" "j < D" for n j
    using that shapes(2) by (simp add: diagonal_of_scalar_def)
  have lin: "neg1 (sum_first2 (tmul2 (unsq_last hscal) (tsub2 opt hW)))
      = mean_linear_term D (map full_of_diagonal ?hd) opt hW"
  proof -
    have "tmul2 (unsq_last hscal) (tsub2 opt hW)
        = map (\<lambda>n. map (\<lambda>j. hscal ! n * (ot n j - hwf n j)) [0..<D]) [0..<N]"
      by (subst he, subst oe, subst hwe) (simp add: tmul2_def tsub2_def unsq_last_def comp_def)
    moreover have "(\<Sum>n<N. hscal ! n * (ot n a - hwf n a))
        = (\<Sum>n<N. ?hd ! n ! a * (opt ! n ! a - hW ! n ! a))" if "a < D" for a
      using dn that by (intro sum.cong) (simp_all add: ot_def hwf_def)
    ultimately show ?thesis
      unfolding mean_terms_diagonal(1) [OF shapes(1) hd]
      by (simp add: sum_first2_form [OF shapes(1)] neg1_def cong: map_cong)
  qed
  have quad: "smul1 0.5 (concat (sum_first3 (tmul3 (unsq_last2 hscal) [eye (length m)])))
      = mean_quadratic_term D (map full_of_diagonal ?hd)"
  proof -
    have "tmul3 (unsq_last2 hscal) [eye D]
        = map (\<lambda>n. map (\<lambda>a. map (\<lambda>b. hscal ! n * (if a = b then 1 else 0)) [0..<D]) [0..<D])
            [0..<N]"
      by (subst he, subst eye_form) (simp add: tmul3_def unsq_last2_def comp_def)
    then have "sum_first3 (tmul3 (unsq_last2 hscal) [eye D])
        = map (\<lambda>a. map (\<lambda>b. \<Sum>n<N. hscal ! n * (if a = b then 1 else 0)) [0..<D]) [0..<D]"
      by (simp add: sum_first3_form [OF shapes(1)])
    moreover have "(\<Sum>n<N. hscal ! n * (if a = b then 1 else 0))
        = (\<Sum>n<N. if a = b then ?hd ! n ! a else 0)" if "a < D" for a b
      using dn that by (intro sum.cong) simp_all
    then have "map (\<lambda>a. map (\<lambda>b. \<Sum>n<N. hscal ! n * (if a = b then 1 else 0)) [0..<D]) [0..<D]
        = map (\<lambda>a. map (\<lambda>b. \<Sum>n<N. if a = b then ?hd ! n ! a else 0) [0..<D]) [0..<D]"
      by (intro map_cong refl) simp
    ultimately have "sum_first3 (tmul3 (unsq_last2 hscal) [eye D])
        = map (\<lambda>a. map (\<lambda>b. \<Sum>n<N. if a = b then ?hd ! n ! a else 0) [0..<D]) [0..<D]"
      by simp
    then show ?thesis
      unfolding shapes(5) mean_terms_diagonal(2) [OF shapes(1) hd]
      by (simp add: smul1_def map_concat comp_def)
  qed
  show ?thesis
    unfolding accumulate_Scalar_def sc bind_Inr prod.case get_Some(1) [where c = "cache self", OF keys(1)]
      get_Some(1) [where c = "cache self", OF keys(2)] get_Some(2) [where c = "cache self", OF keys(3)] get_Some(2) [where c = "cache self", OF keys(4)]
      get_Some(1) [where c = "cache self", OF keys(5)] get_Some(2) [where c = "cache self", OF keys(6)] get_Some(2) [where c = "cache self", OF keys(7)]
      Let_def lin quad isometric_subspace_stats_def
    ..
qed

lemma pipeline_Full:
  assumes sc: "split_counts data0 = Inr (stats, counts)"
    and N: "length data0 = N" "0 < N" and D: "0 < D" and K: "0 < K"
    and mm: "normal_moments api (mean_posterior self) = (m, mm)"
    and WW: "matrixnormal_moments api (subspace_posterior self) = (W, WW)"
    and U: "matrixnormal_cov api (subspace_posterior self) = U"
    and n0: "prior_natural_parameters api (latent_prior self) = nparams_0"
    and opt: "argmax (llh_func self) stats counts = opt"
    and hess: "hessian_full (llh_func self) opt stats counts = hessians"
    and shapes: "is_mat N D opt" "is_ten3 N D D hessians" "length m = D" "is_mat K D W"
      "is_mat K K U" "length nparams_0 = K + K * K"
    and lm: "\<And>v. length v = K + K * K \<Longrightarrow>
               length (fst (latent_moments api v)) = K
               \<and> length (snd (latent_moments api v)) = K * K"
    and P: "P = map (\<lambda>n. map2 (+) nparams_0
                  (latent_linear_term (hessians ! n) (opt ! n) m W
                   @ latent_quadratic_term (hessians ! n) W U)) [0..<N]"
    and H: "H = map (\<lambda>pdf. fst (latent_moments api pdf)) P"
    and HH: "HH = map (\<lambda>pdf. snd (latent_moments api pdf)) P"
  shows "\<exists>val c.
       latent_posteriors api (GeneralizedSubspaceModelFull self) data0 False = Inr (P, None)
     \<and> latent_posteriors api (GeneralizedSubspaceModelFull self) data0 True = Inr (P, Some c)
     \<and> expected_log_likelihood api (GeneralizedSubspaceModelFull self) data0 =
         Inr (val, GeneralizedSubspaceModelFull (self \<lparr> cache := cache self ++ c(''hW'' \<mapsto> T2 (matmul H W)) \<rparr>))
     \<and> accumulate
         (GeneralizedSubspaceModelFull (self \<lparr> cache := cache self ++ c(''hW'' \<mapsto> T2 (matmul H W)) \<rparr>)) data0 =
         Inr (mean_linear_term D (hessians) opt (matmul H W) @ mean_quadratic_term D (hessians),
              isometric_subspace_stats (map (\<lambda>n. \<Sum>j<D. hessians ! n ! j ! j) [0..<N]) opt m H HH)"
proof -
  note run = latent_posteriors_Full_run [OF sc N D K mm WW U n0 opt hess shapes, folded P]
  have Pne: "P \<noteq> []" and lP: "length P = N" using N(2) by (simp_all add: P)
  have F: "latent_posteriors api (GeneralizedSubspaceModelFull self) data0 False = Inr (P, None)"
    using run [of False] by (auto simp: latent_posteriors_def finish_latent_posteriors_False)
  from run [of True] obtain WHW where T: "latent_posteriors_Full api self data0 True
      = finish_latent_posteriors api True P U opt (T3 hessians) (map (\<lambda>n. \<Sum>j<D. hessians ! n ! j ! j) [0..<N]) m mm W WW stats counts WHW"
    by blast
  define c where "c =
    [''U'' \<mapsto> T2 U, ''opt'' \<mapsto> T2 opt, ''hessians'' \<mapsto> T3 hessians,
     ''tr_hessians'' \<mapsto> T1 (map (\<lambda>n. \<Sum>j<D. hessians ! n ! j ! j) [0..<N]), ''m'' \<mapsto> T1 m, ''mm'' \<mapsto> T1 mm,
     ''W'' \<mapsto> T2 W, ''WW'' \<mapsto> WW, ''H'' \<mapsto> T2 H, ''HH'' \<mapsto> T2 HH,
     ''stats'' \<mapsto> T2 stats, ''counts'' \<mapsto> T1 counts, ''WHW'' \<mapsto> T2 WHW]"
  have T': "latent_posteriors_Full api self data0 True = Inr (P, Some c)"
    unfolding T finish_latent_posteriors_True [OF Pne] c_def H HH ..
  have ck: "c ''opt'' = Some (T2 opt)" "c ''hessians'' = Some (T3 hessians)"
    "c ''m'' = Some (T1 m)" "c ''mm'' = Some (T1 mm)" "c ''W'' = Some (T2 W)"
    "c ''WW'' = Some WW" "c ''U'' = Some (T2 U)" "c ''WHW'' = Some (T2 WHW)"
    "c ''H'' = Some (T2 H)" "c ''HH'' = Some (T2 HH)" "c ''stats'' = Some (T2 stats)"
    "c ''counts'' = Some (T1 counts)" "c ''tr_hessians'' = Some (T1 (map (\<lambda>n. \<Sum>j<D. hessians ! n ! j ! j) [0..<N]))"
    by (simp_all add: c_def)
  have one: "hessians \<noteq> []" "opt \<noteq> []"
    using shapes(1,2) N(2) by (auto simp: is_mat_iff is_ten3_iff)
  from quad_approx_Full_run [of c, OF ck(1-12) one]
  obtain val where Q: "quad_approx_Full self c = Inr (val, c(''hW'' \<mapsto> T2 (matmul H W)))"
    by blast
  let ?c1 = "c(''hW'' \<mapsto> T2 (matmul H W))"
  let ?self' = "self \<lparr> cache := cache self ++ ?c1 \<rparr>"
  have E: "expected_log_likelihood api (GeneralizedSubspaceModelFull self) data0 =
         Inr (tsub1 val (latent_kl_div api self P), GeneralizedSubspaceModelFull ?self')"
    by (simp add: expected_log_likelihood_def latent_posteriors_def T' bind_Inr quad_approx_def
          Q merge_cache_def attributes_def)
  have lPn: "length (P ! n) = K + K * K" if "n < N" for n
    using that shapes(6) latent_terms_length [OF shapes(4)] by (simp add: P)
  have Hs: "is_mat N K H"
    unfolding is_mat_iff H using lP lm lPn by simp
  have HHs: "is_mat N (K * K) HH"
    unfolding is_mat_iff HH using lP lm lPn by simp
  have hWs: "is_mat N D (matmul H W)"
    unfolding matmul_eq [OF Hs shapes(4) K] by (simp add: is_mat_iff)
  have keys: "cache ?self' ''hessians'' = Some (T3 hessians)"
      "cache ?self' ''tr_hessians'' = Some (T1 (map (\<lambda>n. \<Sum>j<D. hessians ! n ! j ! j) [0..<N]))"
      "cache ?self' ''hW'' = Some (T2 (matmul H W))"
      "cache ?self' ''opt'' = Some (T2 opt)" "cache ?self' ''m'' = Some (T1 m)"
      "cache ?self' ''H'' = Some (T2 H)" "cache ?self' ''HH'' = Some (T2 HH)"
    by (simp_all add: map_add_def ck)
  have KK: "0 < K * K" using K by simp
  have A: "accumulate (GeneralizedSubspaceModelFull ?self') data0 =
         Inr (mean_linear_term D (hessians) opt (matmul H W) @ mean_quadratic_term D (hessians),
              isometric_subspace_stats (map (\<lambda>n. \<Sum>j<D. hessians ! n ! j ! j) [0..<N]) opt m H HH)"
    unfolding accumulate_def gsm.case
    by (rule accumulate_Full_run [OF sc keys N(2) shapes(2,1) hWs _ HHs KK]) simp
  from F T' E A show ?thesis
    by (auto simp: latent_posteriors_def)
qed

lemma pipeline_Diagonal:
  assumes sc: "split_counts data0 = Inr (stats, counts)"
    and N: "length data0 = N" "0 < N" and D: "0 < D" and K: "0 < K"
    and mm: "normal_moments api (mean_posterior self) = (m, mm)"
    and WW: "matrixnormal_moments api (subspace_posterior self) = (W, WW)"
    and U: "matrixnormal_cov api (subspace_posterior self) = U"
    and n0: "prior_natural_parameters api (latent_prior self) = nparams_0"
    and opt: "argmax (llh_func self) stats counts = opt"
    and hess: "hessian_diagonal (llh_func self) opt stats counts = hdiag"
    and shapes: "is_mat N D opt" "is_mat N D hdiag" "length m = D" "is_mat K D W"
      "is_mat K K U" "length nparams_0 = K + K * K"
    and lm: "\<And>v. length v = K + K * K \<Longrightarrow>
               length (fst (latent_moments api v)) = K
               \<and> length (snd (latent_moments api v)) = K * K"
    and P: "P = map (\<lambda>n. map2 (+) nparams_0
                  (latent_linear_term (full_of_diagonal (hdiag ! n)) (opt ! n) m W
                   @ latent_quadratic_term (full_of_diagonal (hdiag ! n)) W U)) [0..<N]"
    and H: "H = map (\<lambda>pdf. fst (latent_moments api pdf)) P"
    and HH: "HH = map (\<lambda>pdf. snd (latent_moments api pdf)) P"
  shows "\<exists>val c.
       latent_posteriors api (GeneralizedSubspaceModelDiagonal self) data0 False = Inr (P, None)
     \<and> latent_posteriors api (GeneralizedSubspaceModelDiagonal self) data0 True = Inr (P, Some c)
     \<and> expected_log_likelihood api (GeneralizedSubspaceModelDiagonal self) data0 =
         Inr (val, GeneralizedSubspaceModelDiagonal (self \<lparr> cache := cache self ++ c(''hW'' \<mapsto> T2 (matmul H W)) \<rparr>))
     \<and> accumulate
         (GeneralizedSubspaceModelDiagonal (self \<lparr> cache := cache self ++ c(''hW'' \<mapsto> T2 (matmul H W)) \<rparr>)) data0 =
         Inr (mean_linear_term D (map full_of_diagonal hdiag) opt (matmul H W) @ mean_quadratic_term D (map full_of_diagonal hdiag),
              isometric_subspace_stats (map (\<lambda>n. \<Sum>j<D. hdiag ! n ! j) [0..<N]) opt m H HH)"
proof -
  note run = latent_posteriors_Diagonal_run [OF sc N D K mm WW U n0 opt hess shapes, folded P]
  have Pne: "P \<noteq> []" and lP: "length P = N" using N(2) by (simp_all add: P)
  have F: "latent_posteriors api (GeneralizedSubspaceModelDiagonal self) data0 False = Inr (P, None)"
    using run [of False] by (auto simp: latent_posteriors_def finish_latent_posteriors_False)
  from run [of True] obtain WHW where T: "latent_posteriors_Diagonal api self data0 True
      = finish_latent_posteriors api True P U opt (T2 hdiag) (map (\<lambda>n. \<Sum>j<D. hdiag ! n ! j) [0..<N]) m mm W WW stats counts WHW"
    by blast
  define c where "c =
    [''U'' \<mapsto> T2 U, ''opt'' \<mapsto> T2 opt, ''hessians'' \<mapsto> T2 hdiag,
     ''tr_hessians'' \<mapsto> T1 (map (\<lambda>n. \<Sum>j<D. hdiag ! n ! j) [0..<N]), ''m'' \<mapsto> T1 m, ''mm'' \<mapsto> T1 mm,
     ''W'' \<mapsto> T2 W, ''WW'' \<mapsto> WW, ''H'' \<mapsto> T2 H, ''HH'' \<mapsto> T2 HH,
     ''stats'' \<mapsto> T2 stats, ''counts'' \<mapsto> T1 counts, ''WHW'' \<mapsto> T2 WHW]"
  have T': "latent_posteriors_Diagonal api self data0 True = Inr (P, Some c)"
    unfolding T finish_latent_posteriors_True [OF Pne] c_def H HH ..
  have ck: "c ''opt'' = Some (T2 opt)" "c ''hessians'' = Some (T2 hdiag)"
    "c ''m'' = Some (T1 m)" "c ''mm'' = Some (T1 mm)" "c ''W'' = Some (T2 W)"
    "c ''WW'' = Some WW" "c ''U'' = Some (T2 U)" "c ''WHW'' = Some (T2 WHW)"
    "c ''H'' = Some (T2 H)" "c ''HH'' = Some (T2 HH)" "c ''stats'' = Some (T2 stats)"
    "c ''counts'' = Some (T1 counts)" "c ''tr_hessians'' = Some (T1 (map (\<lambda>n. \<Sum>j<D. hdiag ! n ! j) [0..<N]))"
    by (simp_all add: c_def)
  have one: "hdiag \<noteq> []" "opt \<noteq> []"
    using shapes(1,2) N(2) by (auto simp: is_mat_iff )
  from quad_approx_Diagonal_run [of c, OF ck(1-12) ]
  obtain val where Q: "quad_approx_Diagonal self c = Inr (val, c(''hW'' \<mapsto> T2 (matmul H W)))"
    by blast
  let ?c1 = "c(''hW'' \<mapsto> T2 (matmul H W))"
  let ?self' = "self \<lparr> cache := cache self ++ ?c1 \<rparr>"
  have E: "expected_log_likelihood api (GeneralizedSubspaceModelDiagonal self) data0 =
         Inr (tsub1 val (latent_kl_div api self P), GeneralizedSubspaceModelDiagonal ?self')"
    by (simp add: expected_log_likelihood_def latent_posteriors_def T' bind_Inr quad_approx_def
          Q merge_cache_def attributes_def)
  have lPn: "length (P ! n) = K + K * K" if "n < N" for n
    using that shapes(6) latent_terms_length [OF shapes(4)] by (simp add: P)
  have Hs: "is_mat N K H"
    unfolding is_mat_iff H using lP lm lPn by simp
  have HHs: "is_mat N (K * K) HH"
    unfolding is_mat_iff HH using lP lm lPn by simp
  have hWs: "is_mat N D (matmul H W)"
    unfolding matmul_eq [OF Hs shapes(4) K] by (simp add: is_mat_iff)
  have keys: "cache ?self' ''hessians'' = Some (T2 hdiag)"
      "cache ?self' ''tr_hessians'' = Some (T1 (map (\<lambda>n. \<Sum>j<D. hdiag ! n ! j) [0..<N]))"
      "cache ?self' ''hW'' = Some (T2 (matmul H W))"
      "cache ?self' ''opt'' = Some (T2 opt)" "cache ?self' ''m'' = Some (T1 m)"
      "cache ?self' ''H'' = Some (T2 H)" "cache ?self' ''HH'' = Some (T2 HH)"
    by (simp_all add: map_add_def ck)
  have KK: "0 < K * K" using K by simp
  have A: "accumulate (GeneralizedSubspaceModelDiagonal ?self') data0 =
         Inr (mean_linear_term D (map full_of_diagonal hdiag) opt (matmul H W) @ mean_quadratic_term D (map full_of_diagonal hdiag),
              isometric_subspace_stats (map (\<lambda>n. \<Sum>j<D. hdiag ! n ! j) [0..<N]) opt m H HH)"
    unfolding accumulate_def gsm.case
    by (rule accumulate_Diagonal_run [OF sc keys N(2) shapes(2,1) hWs shapes(3)])
  from F T' E A show ?thesis
    by (auto simp: latent_posteriors_def)
qed

lemma pipeline_Scalar:
  assumes sc: "split_counts data0 = Inr (stats, counts)"
    and N: "length data0 = N" "0 < N" and D: "0 < D" and K: "0 < K"
    and mm: "normal_moments api (mean_posterior self) = (m, mm)"
    and WW: "matrixnormal_moments api (subspace_posterior self) = (W, WW)"
    and U: "matrixnormal_cov api (subspace_posterior self) = U"
    and n0: "prior_natural_parameters api (latent_prior self) = nparams_0"
    and opt: "argmax (llh_func self) stats counts = opt"
    and hess: "hessian_scalar (llh_func self) opt stats counts = hscal"
    and shapes: "is_mat N D opt" "length hscal = N" "length m = D" "is_mat K D W"
      "is_mat K K U" "length nparams_0 = K + K * K"
    and lm: "\<And>v. length v = K + K * K \<Longrightarrow>
               length (fst (latent_moments api v)) = K
               \<and> length (snd (latent_moments api v)) = K * K"
    and P: "P = map (\<lambda>n. map2 (+) nparams_0
                  (latent_linear_term (full_of_diagonal (diagonal_of_scalar D (hscal ! n))) (opt ! n) m W
                   @ latent_quadratic_term (full_of_diagonal (diagonal_of_scalar D (hscal ! n))) W U)) [0..<N]"
    and H: "H = map (\<lambda>pdf. fst (latent_moments api pdf)) P"
    and HH: "HH = map (\<lambda>pdf. snd (latent_moments api pdf)) P"
  shows "\<exists>val c.
       latent_posteriors api (GeneralizedSubspaceModelScalar self) data0 False = Inr (P, None)
     \<and> latent_posteriors api (GeneralizedSubspaceModelScalar self) data0 True = Inr (P, Some c)
     \<and> expected_log_likelihood api (GeneralizedSubspaceModelScalar self) data0 =
         Inr (val, GeneralizedSubspaceModelScalar (self \<lparr> cache := cache self ++ c(''hW'' \<mapsto> T2 (matmul H W)) \<rparr>))
     \<and> accumulate
         (GeneralizedSubspaceModelScalar (self \<lparr> cache := cache self ++ c(''hW'' \<mapsto> T2 (matmul H W)) \<rparr>)) data0 =
         Inr (mean_linear_term D (map full_of_diagonal (map (diagonal_of_scalar D) hscal)) opt (matmul H W) @ mean_quadratic_term D (map full_of_diagonal (map (diagonal_of_scalar D) hscal)),
              isometric_subspace_stats (map (\<lambda>n. \<Sum>j<D. diagonal_of_scalar D (hscal ! n) ! j) [0..<N]) opt m H HH)"
proof -
  note run = latent_posteriors_Scalar_run [OF sc N D K mm WW U n0 opt hess shapes, folded P]
  have Pne: "P \<noteq> []" and lP: "length P = N" using N(2) by (simp_all add: P)
  have F: "latent_posteriors api (GeneralizedSubspaceModelScalar self) data0 False = Inr (P, None)"
    using run [of False] by (auto simp: latent_posteriors_def finish_latent_posteriors_False)
  from run [of True] obtain WHW where T: "latent_posteriors_Scalar api self data0 True
      = finish_latent_posteriors api True P U opt (T1 hscal) (map (\<lambda>n. \<Sum>j<D. diagonal_of_scalar D (hscal ! n) ! j) [0..<N]) m mm W WW stats counts WHW"
    by blast
  define c where "c =
    [''U'' \<mapsto> T2 U, ''opt'' \<mapsto> T2 opt, ''hessians'' \<mapsto> T1 hscal,
     ''tr_hessians'' \<mapsto> T1 (map (\<lambda>n. \<Sum>j<D. diagonal_of_scalar D (hscal ! n) ! j) [0..<N]), ''m'' \<mapsto> T1 m, ''mm'' \<mapsto> T1 mm,
     ''W'' \<mapsto> T2 W, ''WW'' \<mapsto> WW, ''H'' \<mapsto> T2 H, ''HH'' \<mapsto> T2 HH,
     ''stats'' \<mapsto> T2 stats, ''counts'' \<mapsto> T1 counts, ''WHW'' \<mapsto> T2 WHW]"
  have T': "latent_posteriors_Scalar api self data0 True = Inr (P, Some c)"
    unfolding T finish_latent_posteriors_True [OF Pne] c_def H HH ..
  have ck: "c ''opt'' = Some (T2 opt)" "c ''hessians'' = Some (T1 hscal)"
    "c ''m'' = Some (T1 m)" "c ''mm'' = Some (T1 mm)" "c ''W'' = Some (T2 W)"
    "c ''WW'' = Some WW" "c ''U'' = Some (T2 U)" "c ''WHW'' = Some (T2 WHW)"
    "c ''H'' = Some (T2 H)" "c ''HH'' = Some (T2 HH)" "c ''stats'' = Some (T2 stats)"
    "c ''counts'' = Some (T1 counts)" "c ''tr_hessians'' = Some (T1 (map (\<lambda>n. \<Sum>j<D. diagonal_of_scalar D (hscal ! n) ! j) [0..<N]))"
    by (simp_all add: c_def)
  have one: "hscal \<noteq> []" "opt \<noteq> []"
    using shapes(1,2) N(2) by (auto simp: is_mat_iff )
  from quad_approx_Scalar_run [of c, OF ck(1-12) ]
  obtain val where Q: "quad_approx_Scalar self c = Inr (val, c(''hW'' \<mapsto> T2 (matmul H W)))"
    by blast
  let ?c1 = "c(''hW'' \<mapsto> T2 (matmul H W))"
  let ?self' = "self \<lparr> cache := cache self ++ ?c1 \<rparr>"
  have E: "expected_log_likelihood api (GeneralizedSubspaceModelScalar self) data0 =
         Inr (tsub1 val (latent_kl_div api self P), GeneralizedSubspaceModelScalar ?self')"
    by (simp add: expected_log_likelihood_def latent_posteriors_def T' bind_Inr quad_approx_def
          Q merge_cache_def attributes_def)
  have lPn: "length (P ! n) = K + K * K" if "n < N" for n
    using that shapes(6) latent_terms_length [OF shapes(4)] by (simp add: P)
  have Hs: "is_mat N K H"
    unfolding is_mat_iff H using lP lm lPn by simp
  have HHs: "is_mat N (K * K) HH"
    unfolding is_mat_iff HH using lP lm lPn by simp
  have hWs: "is_mat N D (matmul H W)"
    unfolding matmul_eq [OF Hs shapes(4) K] by (simp add: is_mat_iff)
  have keys: "cache ?self' ''hessians'' = Some (T1 hscal)"
      "cache ?self' ''tr_hessians'' = Some (T1 (map (\<lambda>n. \<Sum>j<D. diagonal_of_scalar D (hscal ! n) ! j) [0..<N]))"
      "cache ?self' ''hW'' = Some (T2 (matmul H W))"
      "cache ?self' ''opt'' = Some (T2 opt)" "cache ?self' ''m'' = Some (T1 m)"
      "cache ?self' ''H'' = Some (T2 H)" "cache ?self' ''HH'' = Some (T2 HH)"
    by (simp_all add: map_add_def ck)
  have KK: "0 < K * K" using K by simp
  have A: "accumulate (GeneralizedSubspaceModelScalar ?self') data0 =
         Inr (mean_linear_term D (map full_of_diagonal (map (diagonal_of_scalar D) hscal)) opt (matmul H W) @ mean_quadratic_term D (map full_of_diagonal (map (diagonal_of_scalar D) hscal)),
              isometric_subspace_stats (map (\<lambda>n. \<Sum>j<D. diagonal_of_scalar D (hscal ! n) ! j) [0..<N]) opt m H HH)"
    unfolding accumulate_def gsm.case
    by (rule accumulate_Scalar_run [OF sc keys N(2) shapes(2,1) hWs shapes(3)])
  from F T' E A show ?thesis
    by (auto simp: latent_posteriors_def)
qed

lemma example_api_fields:
  "normal_moments example_api (NormalFullCovariancePrior mu S) = (mu, concat S)"
  "matrixnormal_moments example_api (MatrixNormalPrior M U) = (M, T2 U)"
  "matrixnormal_cov example_api (MatrixNormalPrior M U) = U"
  "prior_natural_parameters example_api (NormalFullCovariancePrior mu S)
     = mu @ smul1 (- 0.5) (concat S)"
  "latent_moments example_api v = (take 2 v, drop 2 v)"
  by (simp_all add: example_api_def)

lemma example_llh_fields:
  "argmax example_llh st cn = st"
  "hessian_full example_llh op st cn = map (\<lambda>c. [[- c, 1], [1, - 2 * c]]) cn"
  "hessian_diagonal example_llh op st cn = map (\<lambda>c. [- c, - 2 * c]) cn"
  "hessian_scalar example_llh op st cn = map (\<lambda>c. - c) cn"
  by (simp_all add: example_llh_def)

lemma example_split: "split_counts example_data = Inr ([[1, 2], [3, 4]], [1, 2])"
  by (simp add: split_counts_def example_data_def)

lemma example_shapes:
  "is_mat 2 2 [[1, 2], [3, 4 :: real]]"
  "is_ten3 2 2 2 [[[- 1, 1], [1, - 2]], [[- 2, 1], [1, - 4 :: real]]]"
  "is_mat 2 2 [[1, 0], [0, 1 :: real]]"
  by (simp_all add: is_mat_def is_ten3_def)

lemma full_of_diagonal_shape: "length d = D \<Longrightarrow> is_mat D D (full_of_diagonal d)"
  by (simp add: is_mat_iff full_of_diagonal_def)

lemma example_model1_fields:
  "llh_func example_model1 = example_llh1"
  "mean_posterior example_model1 = NormalFullCovariancePrior [0] [[1]]"
  "subspace_posterior example_model1 = MatrixNormalPrior [[1]] [[1]]"
  "latent_prior example_model1 = NormalFullCovariancePrior [0] [[1]]"
  "cache example_model1 = Map.empty"
  by (simp_all add: example_model1_def eye_def zeros_def)

lemma example_api1_fields:
  "normal_moments example_api1 (NormalFullCovariancePrior mu S) = (mu, concat S)"
  "matrixnormal_moments example_api1 (MatrixNormalPrior M U) = (M, T2 U)"
  "matrixnormal_cov example_api1 (MatrixNormalPrior M U) = U"
  "prior_natural_parameters example_api1 (NormalFullCovariancePrior mu S)
     = mu @ smul1 (- 0.5) (concat S)"
  "latent_moments example_api1 v = (take 1 v, drop 1 v)"
  by (simp_all add: example_api1_def example_api_def)

lemma example_llh1_fields:
  "argmax example_llh1 st cn = st"
  "hessian_full example_llh1 op st cn = map (\<lambda>c. [[- c]]) cn"
  "hessian_diagonal example_llh1 op st cn = map (\<lambda>c. [- c]) cn"
  "hessian_scalar example_llh1 op st cn = map (\<lambda>c. - c) cn"
  by (simp_all add: example_llh1_def)

lemma example_split1: "split_counts example_data1 = Inr ([[1], [3]], [1, 2])"
  by (simp add: split_counts_def example_data1_def)

lemma example_scalar_posteriors:
  "map_sum id fst
     (latent_posteriors example_api1 (GeneralizedSubspaceModelScalar example_model1)
        example_data1 False) = Inr [[1, - (3 / 2)], [6, - (5 / 2)]]"
  by code_simp

lemma example_pass:
  "bind (expected_log_likelihood example_api (GeneralizedSubspaceModelFull example_model)
           example_data)
     (\<lambda>(val, model'). accumulate model' example_data)
   = Inr ([14, - 41, - (3 / 2), 1, 1, - 3],
          [33 / 2, 21, 243 / 2, 165, 69 / 8, - (9 / 8), - (9 / 8), 21 / 2])"
  by code_simp

lemma example_pass1:
  "bind (expected_log_likelihood example_api1 (GeneralizedSubspaceModelScalar example_model1)
           example_data1)
     (\<lambda>(val, model'). accumulate model' example_data1)
   = Inr ([- 6, - (3 / 2)], [37, 13 / 4])"
  by code_simp
section \<open>Theorems on the subspace model\<close>

text \<open>
  C2. In the full-Hessian model, for a batch of \<open>N \<ge> 1\<close> items with optima \<open>opt\<close>
  (\<open>N \<times> D\<close>) and Hessians (\<open>N \<times> D \<times> D\<close>), a mean \<open>m\<close> of length \<open>D\<close>, a basis \<open>W\<close>
  (\<open>K \<times> D\<close>) and a covariance \<open>U\<close> (\<open>K \<times> K\<close>): \<open>latent_posteriors\<close> returns \<open>N\<close>
  posteriors, and the natural parameters of the \<open>i\<close>-th are those of the latent prior
  plus the concatenation of \<open>-(Hess\<^sub>i (opt\<^sub>i - m)) W\<^sup>T\<close> and of
  \<open>0.5 vec(trace(Hess\<^sub>i) U + W Hess\<^sub>i W\<^sup>T)\<close>.
\<close>

theorem latent_posteriors_Full_natural_parameters:
  assumes "split_counts data0 = Inr (stats, counts)"
    and "length data0 = N" "0 < N" and "0 < D" and "0 < K"
    and "normal_moments api (mean_posterior self) = (m, mm)"
    and "matrixnormal_moments api (subspace_posterior self) = (W, WW)"
    and "matrixnormal_cov api (subspace_posterior self) = U"
    and "prior_natural_parameters api (latent_prior self) = nparams_0"
    and "argmax (llh_func self) stats counts = opt"
    and "hessian_full (llh_func self) opt stats counts = hessians"
    and "is_mat N D opt" "is_ten3 N D D hessians" "length m = D" "is_mat K D W"
      "is_mat K K U" "length nparams_0 = K + K * K"
    and "i < N"
  shows "\<exists>l_posts oc.
     latent_posteriors_Full api self data0 cache_flag = Inr (l_posts, oc)
     \<and> length l_posts = N
     \<and> l_posts ! i =
         map2 (+) nparams_0
           (latent_linear_term (hessians ! i) (opt ! i) m W
            @ latent_quadratic_term (hessians ! i) W U)"
proof -
  let ?posts = "map (\<lambda>n. map2 (+) nparams_0
                  (latent_linear_term (hessians ! n) (opt ! n) m W
                   @ latent_quadratic_term (hessians ! n) W U)) [0..<N]"
  from latent_posteriors_Full_run [OF assms(1-17), of cache_flag]
  obtain WHW where "latent_posteriors_Full api self data0 cache_flag =
     finish_latent_posteriors api cache_flag ?posts U opt (T3 hessians)
       (map (\<lambda>n. \<Sum>j<D. hessians ! n ! j ! j) [0..<N]) m mm W WW stats counts WHW"
    by blast
  moreover have "?posts \<noteq> []" using assms(3) by simp
  ultimately have "\<exists>oc. latent_posteriors_Full api self data0 cache_flag = Inr (?posts, oc)"
    by (simp add: finish_latent_posteriors_def Let_def)
  moreover have "length ?posts = N" by simp
  moreover have "?posts ! i = map2 (+) nparams_0
           (latent_linear_term (hessians ! i) (opt ! i) m W
            @ latent_quadratic_term (hessians ! i) W U)"
    using assms(18) by simp
  ultimately show ?thesis by blast
qed

theorem latent_posteriors_Full_natural_parameters_witness:
  "split_counts example_data = Inr ([[1, 2], [3, 4]], [1, 2])
   \<and> is_mat 2 2 [[1, 2], [3, 4 :: real]]
   \<and> is_ten3 2 2 2 [[[- 1, 1], [1, - 2]], [[- 2, 1], [1, - 4 :: real]]]
   \<and> (\<exists>l_posts oc.
        latent_posteriors_Full example_api example_model example_data False = Inr (l_posts, oc)
        \<and> length l_posts = 2
        \<and> l_posts ! 0 = [- 1, 3, - (5 / 2), 1 / 2, 1 / 2, - 3])"
proof -
  have sc: "split_counts example_data = Inr ([[1, 2], [3, 4]], [1, 2])"
    by (simp add: split_counts_def example_data_def)
  have s1: "is_mat 2 2 [[1, 2], [3, 4 :: real]]"
    and s2: "is_ten3 2 2 2 [[[- 1, 1], [1, - 2]], [[- 2, 1], [1, - 4 :: real]]]"
    and s3: "is_mat 2 2 [[1, 0], [0, 1 :: real]]"
    by (simp_all add: is_mat_def is_ten3_def)
  have t: "latent_linear_term [[- 1, 1], [1, - 2]] [1, 2] [0, 0] [[1, 0], [0, 1]] = [- 1, 3]"
    "latent_quadratic_term [[- 1, 1], [1, - 2]] [[1, 0], [0, 1]] [[1, 0], [0, 1]]
       = [- 2, 1 / 2, 1 / 2, - (5 / 2)]"
    by (simp_all add: latent_linear_term_def latent_quadratic_term_def upt_rec numeral_2_eq_2
          lessThan_Suc)
  from latent_posteriors_Full_natural_parameters
    [of example_data "[[1, 2], [3, 4]]" "[1, 2]" 2 2 2 example_api example_model
        "[0, 0]" "[1, 0, 0, 1]" "[[1, 0], [0, 1]]" "T2 [[1, 0], [0, 1]]" "[[1, 0], [0, 1]]"
        "[0, 0, - (1 / 2), 0, 0, - (1 / 2)]" "[[1, 2], [3, 4]]"
        "[[[- 1, 1], [1, - 2]], [[- 2, 1], [1, - 4]]]" 0 False, OF sc _ _ _ _ _ _ _ _ _ _ s1 s2 _ s3 s3]
  have "\<exists>l_posts oc.
        latent_posteriors_Full example_api example_model example_data False = Inr (l_posts, oc)
        \<and> length l_posts = 2
        \<and> l_posts ! 0 = map2 (+) [0, 0, - (1 / 2), 0, 0, - (1 / 2)]
            (latent_linear_term [[- 1, 1], [1, - 2]] [1, 2] [0, 0] [[1, 0], [0, 1]]
             @ latent_quadratic_term [[- 1, 1], [1, - 2]] [[1, 0], [0, 1]] [[1, 0], [0, 1]])"
    by (simp add: example_model_fields example_api_def example_llh_def example_data_def
          smul1_def)
  then show ?thesis
    using sc s1 s2 by (simp add: t)
qed

text \<open>
  C3. In the full-Hessian model, with the shapes of C2 and latent moments of lengths \<open>K\<close>
  and \<open>K\<^sup>2\<close>: the forward pass \<open>expected_log_likelihood\<close> returns, and \<open>accumulate\<close> on the
  model it leaves returns, for the mean, the concatenation of
  \<open>-\<Sum>\<^sub>n Hess\<^sub>n (opt\<^sub>n - hW\<^sub>n)\<close> and of the flattened \<open>0.5 \<Sum>\<^sub>n Hess\<^sub>n\<close>, where \<open>hW = H @ W\<close>
  and the rows of \<open>H\<close> are the first moments of the latent posteriors of this pass.
\<close>

theorem accumulate_Full_mean_stats:
  assumes "split_counts data0 = Inr (stats, counts)"
    and "length data0 = N" "0 < N" and "0 < D" and "0 < K"
    and "normal_moments api (mean_posterior self) = (m, mm)"
    and "matrixnormal_moments api (subspace_posterior self) = (W, WW)"
    and "matrixnormal_cov api (subspace_posterior self) = U"
    and "prior_natural_parameters api (latent_prior self) = nparams_0"
    and "argmax (llh_func self) stats counts = opt"
    and "hessian_full (llh_func self) opt stats counts = hessians"
    and "is_mat N D opt" "is_ten3 N D D hessians" "length m = D" "is_mat K D W"
      "is_mat K K U" "length nparams_0 = K + K * K"
    and "\<And>v. length v = K + K * K \<Longrightarrow>
               length (fst (latent_moments api v)) = K
               \<and> length (snd (latent_moments api v)) = K * K"
  shows "\<exists>l_posts c val model' subspace_stats.
       latent_posteriors api (GeneralizedSubspaceModelFull self) data0 True = Inr (l_posts, Some c)
     \<and> expected_log_likelihood api (GeneralizedSubspaceModelFull self) data0 = Inr (val, model')
     \<and> accumulate model' data0 =
         Inr (mean_linear_term D hessians opt
                (matmul (map (\<lambda>pdf. fst (latent_moments api pdf)) l_posts) W)
              @ mean_quadratic_term D hessians,
              subspace_stats)"
  using pipeline_Full [OF assms refl refl refl] by blast

theorem accumulate_Full_mean_stats_witness:
  "split_counts example_data = Inr ([[1, 2], [3, 4]], [1, 2])
   \<and> is_mat 2 2 [[1, 2], [3, 4 :: real]]
   \<and> is_ten3 2 2 2 [[[- 1, 1], [1, - 2]], [[- 2, 1], [1, - 4 :: real]]]
   \<and> (\<exists>l_posts c val model' subspace_stats.
       latent_posteriors example_api (GeneralizedSubspaceModelFull example_model) example_data True
         = Inr (l_posts, Some c)
     \<and> expected_log_likelihood example_api (GeneralizedSubspaceModelFull example_model)
         example_data = Inr (val, model')
     \<and> accumulate model' example_data = Inr ([14, - 41, - (3 / 2), 1, 1, - 3], subspace_stats)
     \<and> mean_linear_term 2 [[[- 1, 1], [1, - 2]], [[- 2, 1], [1, - 4]]] [[1, 2], [3, 4]]
         (matmul (map (\<lambda>pdf. fst (latent_moments example_api pdf)) l_posts) [[1, 0], [0, 1]])
       @ mean_quadratic_term 2 [[[- 1, 1], [1, - 2]], [[- 2, 1], [1, - 4]]]
       = [14, - 41, - (3 / 2), 1, 1, - 3])"
proof -
  let ?hess = "[[[- 1, 1], [1, - 2]], [[- 2, 1], [1, - 4 :: real]]]"
  have lm: "length (fst (latent_moments example_api v)) = 2
            \<and> length (snd (latent_moments example_api v)) = 2 * 2" if "length v = 2 + 2 * 2" for v
    using that by (simp add: example_api_fields)
  have "\<exists>l_posts c val model' subspace_stats.
       latent_posteriors example_api (GeneralizedSubspaceModelFull example_model) example_data True
         = Inr (l_posts, Some c)
     \<and> expected_log_likelihood example_api (GeneralizedSubspaceModelFull example_model)
         example_data = Inr (val, model')
     \<and> accumulate model' example_data =
         Inr (mean_linear_term 2 ?hess [[1, 2], [3, 4]]
                (matmul (map (\<lambda>pdf. fst (latent_moments example_api pdf)) l_posts)
                   [[1, 0], [0, 1]])
              @ mean_quadratic_term 2 ?hess,
              subspace_stats)"
    by (rule accumulate_Full_mean_stats
          [of example_data "[[1, 2], [3, 4]]" "[1, 2]" 2 2 2 example_api example_model
              "[0, 0]" "[1, 0, 0, 1]" "[[1, 0], [0, 1]]" "T2 [[1, 0], [0, 1]]" "[[1, 0], [0, 1]]"
              "[0, 0, - (1 / 2), 0, 0, - (1 / 2)]" "[[1, 2], [3, 4]]" ?hess,
           OF example_split _ _ _ _ _ _ _ _ _ _ example_shapes(1,2) _ example_shapes(3,3) _ lm])
       (simp_all add: example_model_fields example_api_fields example_llh_fields
          example_data_def smul1_def)
  then obtain l_posts c val model' subspace_stats where r:
    "latent_posteriors example_api (GeneralizedSubspaceModelFull example_model) example_data True
       = Inr (l_posts, Some c)"
    "expected_log_likelihood example_api (GeneralizedSubspaceModelFull example_model)
       example_data = Inr (val, model')"
    "accumulate model' example_data =
       Inr (mean_linear_term 2 ?hess [[1, 2], [3, 4]]
              (matmul (map (\<lambda>pdf. fst (latent_moments example_api pdf)) l_posts)
                 [[1, 0], [0, 1]])
            @ mean_quadratic_term 2 ?hess,
            subspace_stats)"
    by blast
  from r(2) example_pass have "accumulate model' example_data =
      Inr ([14, - 41, - (3 / 2), 1, 1, - 3],
           [33 / 2, 21, 243 / 2, 165, 69 / 8, - (9 / 8), - (9 / 8), 21 / 2])"
    by (simp add: bind_Inr)
  with r(3) have e: "mean_linear_term 2 ?hess [[1, 2], [3, 4]]
              (matmul (map (\<lambda>pdf. fst (latent_moments example_api pdf)) l_posts)
                 [[1, 0], [0, 1]])
            @ mean_quadratic_term 2 ?hess = [14, - 41, - (3 / 2), 1, 1, - 3]"
    by simp
  from r(3) have "accumulate model' example_data =
      Inr ([14, - 41, - (3 / 2), 1, 1, - 3], subspace_stats)"
    unfolding e .
  with example_split example_shapes(1,2) r(1,2) e show ?thesis by blast
qed

text \<open>
  C4. The same model, data and collaborators in the three classes, the outputs of
  \<open>hessian\<close> agreeing across the modes up to shape (the full Hessian is the diagonal
  matrix of the diagonal one, which repeats the scalar one; in dimension one: \<open>[[h]]\<close>,
  \<open>[h]\<close> and \<open>h\<close>). Then the three classes return the same latent posteriors, and after
  their forward passes the same statistics for the mean and for the subspace. This
  holds in every dimension, so in dimension one.
\<close>

theorem hessian_modes_agree:
  assumes sc: "split_counts data0 = Inr (stats, counts)"
    and N: "length data0 = N" "0 < N" and D: "0 < D" and K: "0 < K"
    and mm: "normal_moments api (mean_posterior self) = (m, mm)"
    and WW: "matrixnormal_moments api (subspace_posterior self) = (W, WW)"
    and U: "matrixnormal_cov api (subspace_posterior self) = U"
    and n0: "prior_natural_parameters api (latent_prior self) = nparams_0"
    and opt: "argmax (llh_func self) stats counts = opt"
    and hf: "hessian_full (llh_func self) opt stats counts = hfull"
    and hd: "hessian_diagonal (llh_func self) opt stats counts = hdiag"
    and hs: "hessian_scalar (llh_func self) opt stats counts = hscal"
    and agree: "hfull = map full_of_diagonal hdiag" "hdiag = map (diagonal_of_scalar D) hscal"
      "length hscal = N"
    and shapes: "is_mat N D opt" "length m = D" "is_mat K D W" "is_mat K K U"
      "length nparams_0 = K + K * K"
    and lm: "\<And>v. length v = K + K * K \<Longrightarrow>
               length (fst (latent_moments api v)) = K
               \<and> length (snd (latent_moments api v)) = K * K"
  shows "\<exists>l_posts mean_stats subspace_stats vF vD vS mF mD mS.
       latent_posteriors api (GeneralizedSubspaceModelFull self) data0 False = Inr (l_posts, None)
     \<and> latent_posteriors api (GeneralizedSubspaceModelDiagonal self) data0 False
         = Inr (l_posts, None)
     \<and> latent_posteriors api (GeneralizedSubspaceModelScalar self) data0 False
         = Inr (l_posts, None)
     \<and> expected_log_likelihood api (GeneralizedSubspaceModelFull self) data0 = Inr (vF, mF)
     \<and> accumulate mF data0 = Inr (mean_stats, subspace_stats)
     \<and> expected_log_likelihood api (GeneralizedSubspaceModelDiagonal self) data0 = Inr (vD, mD)
     \<and> accumulate mD data0 = Inr (mean_stats, subspace_stats)
     \<and> expected_log_likelihood api (GeneralizedSubspaceModelScalar self) data0 = Inr (vS, mS)
     \<and> accumulate mS data0 = Inr (mean_stats, subspace_stats)"
proof -
  have sd: "is_mat N D hdiag"
    using agree(2,3) by (simp add: is_mat_iff diagonal_of_scalar_def)
  have sf: "is_ten3 N D D hfull"
    using sd unfolding agree(1) is_ten3_iff
    by (simp add: is_mat_iff [of N D hdiag] full_of_diagonal_shape)
  have fn: "hfull ! n = full_of_diagonal (hdiag ! n)" if "n < N" for n
    using that sd by (simp add: agree(1) is_mat_iff)
  have dn: "hdiag ! n = diagonal_of_scalar D (hscal ! n)" if "n < N" for n
    using that agree(3) by (simp add: agree(2))
  have dl: "length (hdiag ! n) = D" if "n < N" for n
    using that sd by (simp add: is_mat_iff)
  define P where "P = map (\<lambda>n. map2 (+) nparams_0
                  (latent_linear_term (hfull ! n) (opt ! n) m W
                   @ latent_quadratic_term (hfull ! n) W U)) [0..<N]"
  define H where "H = map (\<lambda>pdf. fst (latent_moments api pdf)) P"
  define HH where "HH = map (\<lambda>pdf. snd (latent_moments api pdf)) P"
  have PD: "P = map (\<lambda>n. map2 (+) nparams_0
                  (latent_linear_term (full_of_diagonal (hdiag ! n)) (opt ! n) m W
                   @ latent_quadratic_term (full_of_diagonal (hdiag ! n)) W U)) [0..<N]"
    unfolding P_def by (intro map_cong refl) (simp add: fn)
  have PS: "P = map (\<lambda>n. map2 (+) nparams_0
                  (latent_linear_term (full_of_diagonal (diagonal_of_scalar D (hscal ! n)))
                     (opt ! n) m W
                   @ latent_quadratic_term (full_of_diagonal (diagonal_of_scalar D (hscal ! n)))
                       W U)) [0..<N]"
    unfolding PD by (intro map_cong refl) (simp add: dn)
  define tr where "tr = map (\<lambda>n. \<Sum>j<D. hfull ! n ! j ! j) [0..<N]"
  have trD: "map (\<lambda>n. \<Sum>j<D. hdiag ! n ! j) [0..<N] = tr"
    unfolding tr_def
  proof (intro map_cong refl sum.cong)
    fix n j assume "n \<in> set [0..<N]" "j \<in> {..<D}"
    then have "n < N" "j < D" by simp_all
    then show "hdiag ! n ! j = hfull ! n ! j ! j"
      using dl [of n] by (simp add: fn full_of_diagonal_nth)
  qed
  have trS: "map (\<lambda>n. \<Sum>j<D. diagonal_of_scalar D (hscal ! n) ! j) [0..<N] = tr"
    unfolding trD [symmetric] by (intro map_cong refl) (simp add: dn)
  have fS: "map full_of_diagonal (map (diagonal_of_scalar D) hscal) = hfull"
    by (simp add: agree(1,2))
  from pipeline_Full [OF sc N D K mm WW U n0 opt hf shapes(1) sf shapes(2-5) lm P_def H_def HH_def]
  obtain vF cF where F:
    "latent_posteriors api (GeneralizedSubspaceModelFull self) data0 False = Inr (P, None)"
    "expected_log_likelihood api (GeneralizedSubspaceModelFull self) data0 =
       Inr (vF, GeneralizedSubspaceModelFull
                  (self \<lparr> cache := cache self ++ cF(''hW'' \<mapsto> T2 (matmul H W)) \<rparr>))"
    "accumulate (GeneralizedSubspaceModelFull
                  (self \<lparr> cache := cache self ++ cF(''hW'' \<mapsto> T2 (matmul H W)) \<rparr>)) data0 =
       Inr (mean_linear_term D hfull opt (matmul H W) @ mean_quadratic_term D hfull,
            isometric_subspace_stats tr opt m H HH)"
    unfolding tr_def by blast
  from pipeline_Diagonal [OF sc N D K mm WW U n0 opt hd shapes(1) sd shapes(2-5) lm PD H_def HH_def]
  obtain vD cD where Dg:
    "latent_posteriors api (GeneralizedSubspaceModelDiagonal self) data0 False = Inr (P, None)"
    "expected_log_likelihood api (GeneralizedSubspaceModelDiagonal self) data0 =
       Inr (vD, GeneralizedSubspaceModelDiagonal
                  (self \<lparr> cache := cache self ++ cD(''hW'' \<mapsto> T2 (matmul H W)) \<rparr>))"
    "accumulate (GeneralizedSubspaceModelDiagonal
                  (self \<lparr> cache := cache self ++ cD(''hW'' \<mapsto> T2 (matmul H W)) \<rparr>)) data0 =
       Inr (mean_linear_term D hfull opt (matmul H W) @ mean_quadratic_term D hfull,
            isometric_subspace_stats tr opt m H HH)"
    unfolding trD agree(1) [symmetric] by blast
  from pipeline_Scalar [OF sc N D K mm WW U n0 opt hs shapes(1) agree(3) shapes(2-5) lm PS H_def HH_def]
  obtain vS cS where S:
    "latent_posteriors api (GeneralizedSubspaceModelScalar self) data0 False = Inr (P, None)"
    "expected_log_likelihood api (GeneralizedSubspaceModelScalar self) data0 =
       Inr (vS, GeneralizedSubspaceModelScalar
                  (self \<lparr> cache := cache self ++ cS(''hW'' \<mapsto> T2 (matmul H W)) \<rparr>))"
    "accumulate (GeneralizedSubspaceModelScalar
                  (self \<lparr> cache := cache self ++ cS(''hW'' \<mapsto> T2 (matmul H W)) \<rparr>)) data0 =
       Inr (mean_linear_term D hfull opt (matmul H W) @ mean_quadratic_term D hfull,
            isometric_subspace_stats tr opt m H HH)"
    unfolding trS fS by blast
  from F Dg S show ?thesis by blast
qed

theorem hessian_modes_agree_witness:
  "split_counts example_data1 = Inr ([[1], [3]], [1, 2])
   \<and> [[[- 1]], [[- 2]]] = map full_of_diagonal [[- 1], [- 2]]
   \<and> [[- 1], [- 2]] = map (diagonal_of_scalar 1) [- 1, - 2]
   \<and> is_mat 2 1 [[1], [3 :: real]]
   \<and> (\<exists>vF vD vS mF mD mS.
       latent_posteriors example_api1 (GeneralizedSubspaceModelFull example_model1)
         example_data1 False = Inr ([[1, - (3 / 2)], [6, - (5 / 2)]], None)
     \<and> latent_posteriors example_api1 (GeneralizedSubspaceModelDiagonal example_model1)
         example_data1 False = Inr ([[1, - (3 / 2)], [6, - (5 / 2)]], None)
     \<and> latent_posteriors example_api1 (GeneralizedSubspaceModelScalar example_model1)
         example_data1 False = Inr ([[1, - (3 / 2)], [6, - (5 / 2)]], None)
     \<and> expected_log_likelihood example_api1 (GeneralizedSubspaceModelFull example_model1)
         example_data1 = Inr (vF, mF)
     \<and> accumulate mF example_data1 = Inr ([- 6, - (3 / 2)], [37, 13 / 4])
     \<and> expected_log_likelihood example_api1 (GeneralizedSubspaceModelDiagonal example_model1)
         example_data1 = Inr (vD, mD)
     \<and> accumulate mD example_data1 = Inr ([- 6, - (3 / 2)], [37, 13 / 4])
     \<and> expected_log_likelihood example_api1 (GeneralizedSubspaceModelScalar example_model1)
         example_data1 = Inr (vS, mS)
     \<and> accumulate mS example_data1 = Inr ([- 6, - (3 / 2)], [37, 13 / 4]))"
proof -
  have a1: "[[[- 1]], [[- 2]]] = map full_of_diagonal [[- 1], [- 2 :: real]]"
    by (simp add: full_of_diagonal_def)
  have a2: "[[- 1], [- 2]] = map (diagonal_of_scalar 1) [- 1, - 2 :: real]"
    by (simp add: diagonal_of_scalar_def)
  have s1: "is_mat 2 1 [[1], [3 :: real]]" and s2: "is_mat 1 1 [[1 :: real]]"
    by (simp_all add: is_mat_def)
  have lm: "length (fst (latent_moments example_api1 v)) = 1
            \<and> length (snd (latent_moments example_api1 v)) = 1 * 1" if "length v = 1 + 1 * 1" for v
    using that by (simp add: example_api1_fields)
  have "\<exists>l_posts mean_stats subspace_stats vF vD vS mF mD mS.
       latent_posteriors example_api1 (GeneralizedSubspaceModelFull example_model1)
         example_data1 False = Inr (l_posts, None)
     \<and> latent_posteriors example_api1 (GeneralizedSubspaceModelDiagonal example_model1)
         example_data1 False = Inr (l_posts, None)
     \<and> latent_posteriors example_api1 (GeneralizedSubspaceModelScalar example_model1)
         example_data1 False = Inr (l_posts, None)
     \<and> expected_log_likelihood example_api1 (GeneralizedSubspaceModelFull example_model1)
         example_data1 = Inr (vF, mF)
     \<and> accumulate mF example_data1 = Inr (mean_stats, subspace_stats)
     \<and> expected_log_likelihood example_api1 (GeneralizedSubspaceModelDiagonal example_model1)
         example_data1 = Inr (vD, mD)
     \<and> accumulate mD example_data1 = Inr (mean_stats, subspace_stats)
     \<and> expected_log_likelihood example_api1 (GeneralizedSubspaceModelScalar example_model1)
         example_data1 = Inr (vS, mS)
     \<and> accumulate mS example_data1 = Inr (mean_stats, subspace_stats)"
    by (rule hessian_modes_agree
          [of example_data1 "[[1], [3]]" "[1, 2]" 2 1 1 example_api1 example_model1
              "[0]" "[1]" "[[1]]" "T2 [[1]]" "[[1]]" "[0, - (1 / 2)]" "[[1], [3]]"
              "[[[- 1]], [[- 2]]]" "[[- 1], [- 2]]" "[- 1, - 2]",
           OF example_split1 _ _ _ _ _ _ _ _ _ _ _ _ a1 a2 _ s1 _ s2 s2 _ lm])
       (simp_all add: example_model1_fields example_api1_fields example_llh1_fields
          example_data1_def smul1_def)
  then obtain l_posts mean_stats subspace_stats vF vD vS mF mD mS where r:
    "latent_posteriors example_api1 (GeneralizedSubspaceModelFull example_model1)
       example_data1 False = Inr (l_posts, None)"
    "latent_posteriors example_api1 (GeneralizedSubspaceModelDiagonal example_model1)
       example_data1 False = Inr (l_posts, None)"
    "latent_posteriors example_api1 (GeneralizedSubspaceModelScalar example_model1)
       example_data1 False = Inr (l_posts, None)"
    "expected_log_likelihood example_api1 (GeneralizedSubspaceModelFull example_model1)
       example_data1 = Inr (vF, mF)"
    "accumulate mF example_data1 = Inr (mean_stats, subspace_stats)"
    "expected_log_likelihood example_api1 (GeneralizedSubspaceModelDiagonal example_model1)
       example_data1 = Inr (vD, mD)"
    "accumulate mD example_data1 = Inr (mean_stats, subspace_stats)"
    "expected_log_likelihood example_api1 (GeneralizedSubspaceModelScalar example_model1)
       example_data1 = Inr (vS, mS)"
    "accumulate mS example_data1 = Inr (mean_stats, subspace_stats)"
    by blast
  from r(3) example_scalar_posteriors have l: "l_posts = [[1, - (3 / 2)], [6, - (5 / 2)]]"
    by simp
  from r(8) example_pass1 have "accumulate mS example_data1 = Inr ([- 6, - (3 / 2)], [37, 13 / 4])"
    by (simp add: bind_Inr)
  with r(9) have ms: "mean_stats = [- 6, - (3 / 2)]" "subspace_stats = [37, 13 / 4]"
    by simp_all
  from example_split1 a1 a2 s1 r show ?thesis
    unfolding l ms by blast
qed

end
